theory Spec2Isabelle
  imports Main "HOL-Library.Word" "HOL-Library.Signed_Division" "HOL-Library.Monad_Syntax"
begin

unbundle bit_operations_syntax

section \<open>The machine state (gb.h)\<close>

text \<open>
  The emulator keeps its whole state in one C struct, \<^verbatim>\<open>struct gb\<close>. The model is a record
  with the same fields. The fixed-width integers are words of the same width; the one-bit
  fields (\<^verbatim>\<open>uint1_t\<close>) are booleans; the 64 KiB array \<^verbatim>\<open>address_space\<close> is a total function
  on 16-bit addresses (every index the code uses is a \<^verbatim>\<open>uint16_t\<close>, so no access is out of
  range); the 256 by 256 array \<^verbatim>\<open>screen\<close> is a function of row and column; the array
  \<^verbatim>\<open>buttons_pressed\<close> is a function on the enumeration of buttons.
  Output on \<^verbatim>\<open>stdout\<close> and \<^verbatim>\<open>stderr\<close> (the trace of \<^verbatim>\<open>dump\<close>, the \<^verbatim>\<open>DEBUG\<close> lines, the serial
  sink) is not part of the struct and is not modelled. A call of \<^verbatim>\<open>DIE\<close> ends the process:
  a function that can reach one returns an option, and \<open>None\<close> is that end.
\<close>

datatype joypad_button =
  GB_KEY_A | GB_KEY_B | GB_KEY_START | GB_KEY_SELECT
  | GB_KEY_UP | GB_KEY_DOWN | GB_KEY_LEFT | GB_KEY_RIGHT

datatype graphics_mode = HBLANK | VBLANK | SEARCHING | TRANSFERRING

record gb =
  af :: "16 word"
  bc :: "16 word"
  de :: "16 word"
  hl :: "16 word"
  pc :: "16 word"
  sp :: "16 word"
  ime :: bool
  address_space :: "16 word \<Rightarrow> 8 word"
  screen :: "nat \<Rightarrow> nat \<Rightarrow> 8 word"
  cycles_to_wait :: "64 word"
  cycle_count :: "64 word"
  need_to_do_interrupts :: bool
  dot_count :: "64 word"
  graphics_mode :: graphics_mode
  halted :: bool
  buttons_pressed :: "joypad_button \<Rightarrow> bool"
  joypad_mode :: "2 word"

subsection \<open>Constants of gb.c\<close>

abbreviation (input) HEADER_OFFSET :: "16 word" where "HEADER_OFFSET \<equiv> 0x0100"
abbreviation (input) UNSIGNED_TILE_DATA_BASE :: "16 word" where "UNSIGNED_TILE_DATA_BASE \<equiv> 0x8000"
abbreviation (input) SIGNED_TILE_DATA_BASE :: "16 word" where "SIGNED_TILE_DATA_BASE \<equiv> 0x9000"
abbreviation (input) TILE_MAP_1 :: "16 word" where "TILE_MAP_1 \<equiv> 0x9800"
abbreviation (input) TILE_MAP_2 :: "16 word" where "TILE_MAP_2 \<equiv> 0x9C00"
abbreviation (input) ECHO_RAM :: "16 word" where "ECHO_RAM \<equiv> 0xE000"
abbreviation (input) OAM :: "16 word" where "OAM \<equiv> 0xFE00"

abbreviation (input) VBLANK_INTERRUPT_ADDRESS :: "16 word" where "VBLANK_INTERRUPT_ADDRESS \<equiv> 0x0040"
abbreviation (input) LCD_STAT_INTERRUPT_ADDRESS :: "16 word" where "LCD_STAT_INTERRUPT_ADDRESS \<equiv> 0x0048"
abbreviation (input) TIMER_INTERRUPT_ADDRESS :: "16 word" where "TIMER_INTERRUPT_ADDRESS \<equiv> 0x0050"
abbreviation (input) SERIAL_INTERRUPT_ADDRESS :: "16 word" where "SERIAL_INTERRUPT_ADDRESS \<equiv> 0x0058"
abbreviation (input) JOYPAD_INTERRUPT_ADDRESS :: "16 word" where "JOYPAD_INTERRUPT_ADDRESS \<equiv> 0x0060"

abbreviation (input) LCD_CONTROL :: "16 word" where "LCD_CONTROL \<equiv> 0xFF40"
abbreviation (input) LCD_STATUS :: "16 word" where "LCD_STATUS \<equiv> 0xFF41"
abbreviation (input) SCY :: "16 word" where "SCY \<equiv> 0xFF42"
abbreviation (input) SCX :: "16 word" where "SCX \<equiv> 0xFF43"
abbreviation (input) LY :: "16 word" where "LY \<equiv> 0xFF44"
abbreviation (input) LYC :: "16 word" where "LYC \<equiv> 0xFF45"
abbreviation (input) OAM_DMA_START :: "16 word" where "OAM_DMA_START \<equiv> 0xFF46"
abbreviation (input) BGP :: "16 word" where "BGP \<equiv> 0xFF47"
abbreviation (input) OBP0 :: "16 word" where "OBP0 \<equiv> 0xFF48"
abbreviation (input) OBP1 :: "16 word" where "OBP1 \<equiv> 0xFF49"
abbreviation (input) WY :: "16 word" where "WY \<equiv> 0xFF4A"
abbreviation (input) WX :: "16 word" where "WX \<equiv> 0xFF4B"

abbreviation (input) JOYPAD_PORT :: "16 word" where "JOYPAD_PORT \<equiv> 0xFF00"
abbreviation (input) SERIAL_DATA :: "16 word" where "SERIAL_DATA \<equiv> 0xFF01"
abbreviation (input) DIVIDER_REGISTER :: "16 word" where "DIVIDER_REGISTER \<equiv> 0xFF04"
abbreviation (input) TIMA :: "16 word" where "TIMA \<equiv> 0xFF05"
abbreviation (input) TMA :: "16 word" where "TMA \<equiv> 0xFF06"
abbreviation (input) TAC :: "16 word" where "TAC \<equiv> 0xFF07"
abbreviation (input) INTERRUPT_FLAGS :: "16 word" where "INTERRUPT_FLAGS \<equiv> 0xFF0F"
abbreviation (input) INTERRUPT_ENABLE :: "16 word" where "INTERRUPT_ENABLE \<equiv> 0xFFFF"

text \<open>The enumerators of \<^verbatim>\<open>enum joypad_mode\<close> that the code tests, as two-bit values.\<close>

abbreviation (input) ACTIONS :: "2 word" where "ACTIONS \<equiv> 1"
abbreviation (input) DIRECTIONS :: "2 word" where "DIRECTIONS \<equiv> 2"
abbreviation (input) BOTH :: "2 word" where "BOTH \<equiv> 3"

text \<open>\<^verbatim>\<open>enum interrupt\<close>: the bit of each interrupt in IF and IE.\<close>

abbreviation (input) INT_VBLANK :: "8 word" where "INT_VBLANK \<equiv> 0b1"
abbreviation (input) INT_STAT :: "8 word" where "INT_STAT \<equiv> 0b10"
abbreviation (input) INT_TIMER :: "8 word" where "INT_TIMER \<equiv> 0b100"
abbreviation (input) INT_SERIAL :: "8 word" where "INT_SERIAL \<equiv> 0b1000"
abbreviation (input) INT_JOYPAD :: "8 word" where "INT_JOYPAD \<equiv> 0b10000"

section \<open>The bus\<close>

text \<open>
  \<^verbatim>\<open>read_mem8\<close>: the echo normalisation tests \<^verbatim>\<open>ECHO_RAM < addr && addr < OAM\<close>; the joypad
  port is synthesised from \<^verbatim>\<open>joypad_mode\<close> and the button levels, each level cast to a
  four-bit value and shifted into place.
\<close>

definition read_mem8 :: "gb \<Rightarrow> 16 word \<Rightarrow> 8 word" where
  "read_mem8 gb addr0 =
    (let addr = (if ECHO_RAM < addr0 \<and> addr0 < OAM then addr0 - 0x2000 else addr0)
     in if addr = JOYPAD_PORT then
          (let retval0 = push_bit 6 0b11 OR (if joypad_mode gb \<noteq> 0 then 0b00010000 else 0);
               retval1 =
                 (if joypad_mode gb AND DIRECTIONS \<noteq> 0
                  then retval0 OR ucast
                    (push_bit 3 (of_bool (buttons_pressed gb GB_KEY_DOWN) :: 4 word) OR
                     push_bit 2 (of_bool (buttons_pressed gb GB_KEY_UP)) OR
                     push_bit 1 (of_bool (buttons_pressed gb GB_KEY_LEFT)) OR
                     push_bit 0 (of_bool (buttons_pressed gb GB_KEY_RIGHT)))
                  else retval0);
               retval2 =
                 (if joypad_mode gb AND ACTIONS \<noteq> 0
                  then retval1 OR ucast
                    (push_bit 3 (of_bool (buttons_pressed gb GB_KEY_START) :: 4 word) OR
                     push_bit 2 (of_bool (buttons_pressed gb GB_KEY_SELECT)) OR
                     push_bit 1 (of_bool (buttons_pressed gb GB_KEY_B)) OR
                     push_bit 0 (of_bool (buttons_pressed gb GB_KEY_A)))
                  else retval1)
           in retval2)
        else address_space gb addr)"

definition read_mem16 :: "gb \<Rightarrow> 16 word \<Rightarrow> 16 word" where
  "read_mem16 gb addr =
     push_bit 8 (ucast (read_mem8 gb (addr + 1))) OR ucast (read_mem8 gb addr)"

definition is_writable :: "16 word \<Rightarrow> bool" where
  "is_writable addr \<longleftrightarrow>
     (UNSIGNED_TILE_DATA_BASE \<le> addr \<and> addr < ECHO_RAM) \<or>
     (OAM \<le> addr \<and> addr < INTERRUPT_ENABLE)"

text \<open>
  \<^verbatim>\<open>do_dma\<close>: 160 owed cycles, then the loop \<^verbatim>\<open>for (i = 0; i < 0xa0; i++)\<close> that stores
  \<^verbatim>\<open>read_mem8(gb, (src << 8) + i)\<close> at \<^verbatim>\<open>OAM + i\<close>, one byte after the other in the array
  itself.
\<close>

definition do_dma_byte :: "8 word \<Rightarrow> nat \<Rightarrow> gb \<Rightarrow> gb" where
  "do_dma_byte src i gb =
     gb\<lparr>address_space :=
          (address_space gb)(OAM + of_nat i := read_mem8 gb (push_bit 8 (ucast src) + of_nat i))\<rparr>"

definition do_dma :: "gb \<Rightarrow> 8 word \<Rightarrow> gb" where
  "do_dma gb src =
     fold (do_dma_byte src) [0..<0xa0] (gb\<lparr>cycles_to_wait := cycles_to_wait gb + 160\<rparr>)"

text \<open>
  \<^verbatim>\<open>write_mem8\<close>: the \<^verbatim>\<open>switch\<close> on the address, in the order of its cases. The serial case
  only prints; the two last branches of the default case only print.
\<close>

definition write_mem8 :: "gb \<Rightarrow> 16 word \<Rightarrow> 8 word \<Rightarrow> gb" where
  "write_mem8 gb addr val =
    (if addr = DIVIDER_REGISTER then gb\<lparr>address_space := (address_space gb)(addr := 0)\<rparr>
     else if addr = SERIAL_DATA then gb
     else if addr = JOYPAD_PORT then
       gb\<lparr>address_space :=
            (address_space gb)(addr := (address_space gb addr AND 0b1111) OR (val AND 0b11110000)),
          joypad_mode := ucast (drop_bit 4 val)\<rparr>
     else if addr = INTERRUPT_FLAGS \<or> addr = INTERRUPT_ENABLE then
       gb\<lparr>address_space := (address_space gb)(addr := val), need_to_do_interrupts := True\<rparr>
     else if addr = OAM_DMA_START then do_dma gb val
     else if is_writable addr then gb\<lparr>address_space := (address_space gb)(addr := val)\<rparr>
     else if HEADER_OFFSET \<le> addr \<and> addr < UNSIGNED_TILE_DATA_BASE then gb
     else gb)"

definition write_mem16 :: "gb \<Rightarrow> 16 word \<Rightarrow> 16 word \<Rightarrow> gb" where
  "write_mem16 gb addr val =
     write_mem8 (write_mem8 gb addr (ucast val)) (addr + 1) (ucast (drop_bit 8 val))"

section \<open>Interrupts and buttons\<close>

definition request_interrupt :: "gb \<Rightarrow> 8 word \<Rightarrow> gb" where
  "request_interrupt gb interrupt =
     write_mem8 gb INTERRUPT_FLAGS (read_mem8 gb INTERRUPT_FLAGS OR interrupt)"

definition press_button :: "gb \<Rightarrow> joypad_button \<Rightarrow> gb" where
  "press_button gb btn =
     request_interrupt (gb\<lparr>buttons_pressed := (buttons_pressed gb)(btn := False)\<rparr>) INT_JOYPAD"

definition release_button :: "gb \<Rightarrow> joypad_button \<Rightarrow> gb" where
  "release_button gb btn = gb\<lparr>buttons_pressed := (buttons_pressed gb)(btn := True)\<rparr>"

text \<open>
  \<^verbatim>\<open>handle_interrupts\<close>. The ten \<^verbatim>\<open>uint1_t\<close> locals are the bits 0 to 4 of the two registers
  (a conversion to \<^verbatim>\<open>unsigned _BitInt(1)\<close> keeps the lowest bit). \<open>select_interrupt\<close> is the
  \<^verbatim>\<open>if\<close>/\<^verbatim>\<open>else if\<close> chain: it gives the new program counter and the bit it clears in IF,
  or \<open>0xFFFF\<close> (\<^verbatim>\<open>Not an interrupt address\<close>) and no bit.
\<close>

definition select_interrupt :: "8 word \<Rightarrow> 8 word \<Rightarrow> 16 word \<times> 8 word option" where
  "select_interrupt interrupts_requested interrupts_enabled =
    (let vblank_requested = bit interrupts_requested 0;
         lcd_stat_requested = bit (drop_bit 1 interrupts_requested) 0;
         timer_requested = bit (drop_bit 2 interrupts_requested) 0;
         serial_requested = bit (drop_bit 3 interrupts_requested) 0;
         joypad_requested = bit (drop_bit 4 interrupts_requested) 0;
         vblank_enabled = bit interrupts_enabled 0;
         lcd_stat_enabled = bit (drop_bit 1 interrupts_enabled) 0;
         timer_enabled = bit (drop_bit 2 interrupts_enabled) 0;
         serial_enabled = bit (drop_bit 3 interrupts_enabled) 0;
         joypad_enabled = bit (drop_bit 4 interrupts_enabled) 0
     in if vblank_requested \<and> vblank_enabled then (VBLANK_INTERRUPT_ADDRESS, Some INT_VBLANK)
        else if lcd_stat_requested \<and> lcd_stat_enabled then (LCD_STAT_INTERRUPT_ADDRESS, Some INT_STAT)
        else if timer_requested \<and> timer_enabled then (TIMER_INTERRUPT_ADDRESS, Some INT_TIMER)
        else if serial_requested \<and> serial_enabled then (SERIAL_INTERRUPT_ADDRESS, Some INT_SERIAL)
        else if joypad_requested \<and> joypad_enabled then (JOYPAD_INTERRUPT_ADDRESS, Some INT_JOYPAD)
        else (0xFFFF, None))"

definition handle_interrupts :: "gb \<Rightarrow> gb" where
  "handle_interrupts gb0 =
    (let interrupts_requested = read_mem8 gb0 INTERRUPT_FLAGS;
         interrupts_enabled = read_mem8 gb0 INTERRUPT_ENABLE;
         gb1 = (if interrupts_requested AND interrupts_enabled \<noteq> 0
                then gb0\<lparr>halted := False\<rparr> else gb0)
     in if \<not> ime gb1 then gb1
        else
          (let (new_pc, cleared) = select_interrupt interrupts_requested interrupts_enabled;
               gb2 = (case cleared of
                        None \<Rightarrow> gb1
                      | Some interrupt \<Rightarrow>
                          gb1\<lparr>address_space :=
                                (address_space gb1)
                                  (INTERRUPT_FLAGS := interrupts_requested AND NOT interrupt)\<rparr>);
               gb3 = (if new_pc \<noteq> 0xFFFF
                      then (let gb' = write_mem16 (gb2\<lparr>ime := False\<rparr>) (sp gb2 - 2) (pc gb2)
                            in gb'\<lparr>sp := sp gb' - 2, pc := new_pc\<rparr>)
                      else gb2)
           in gb3\<lparr>cycles_to_wait := cycles_to_wait gb3 + 5, need_to_do_interrupts := False\<rparr>))"

text \<open>
  \<^verbatim>\<open>initialize\<close>. \<open>rom\<close> is the content of the file; \<^verbatim>\<open>fread\<close> copies at most 65536 of its
  bytes to the start of the address space and leaves the rest of the array as it was. The
  struct is not cleared first, so a field the function does not assign (\<^verbatim>\<open>dot_count\<close>) keeps
  the value it had. \<open>None\<close> is the \<^verbatim>\<open>DIE\<close> of a file that cannot be opened, which is the
  caller's \<open>rom = None\<close>.
\<close>

definition load_rom :: "8 word list \<Rightarrow> (16 word \<Rightarrow> 8 word) \<Rightarrow> 16 word \<Rightarrow> 8 word" where
  "load_rom rom mem = (\<lambda>a. if unat a < length rom then rom ! unat a else mem a)"

definition initialize :: "gb \<Rightarrow> 8 word list option \<Rightarrow> gb option" where
  "initialize gb file =
    (case file of
       None \<Rightarrow> None
     | Some rom \<Rightarrow>
         Some (gb\<lparr>
           address_space :=
             (load_rom rom (address_space gb))
               (DIVIDER_REGISTER := 0x18, TIMA := 0x00, TMA := 0x00, TAC := 0xF8,
                INTERRUPT_FLAGS := 0xE1, LCD_CONTROL := 0x91, LCD_STATUS := 0x81,
                SCY := 0x00, SCX := 0x00, LY := 0x91, LYC := 0x00, OAM_DMA_START := 0xFF,
                BGP := 0xFC, OBP0 := 0xFC, OBP1 := 0xFC, WY := 0x00, WX := 0x00,
                INTERRUPT_ENABLE := 0x00),
           af := 0x01B0, bc := 0x0013, de := 0x00d8, hl := 0x014d, pc := 0x0100, sp := 0xfffe,
           ime := False, cycles_to_wait := 0, cycle_count := 0, need_to_do_interrupts := True,
           graphics_mode := SEARCHING, joypad_mode := BOTH, halted := False,
           screen := (\<lambda>r c. 0), buttons_pressed := (\<lambda>b. True)\<rparr>))"

section \<open>The PPU\<close>

text \<open>
  The four functions that enter a mode store the mode bits in STAT directly in the array,
  set \<^verbatim>\<open>graphics_mode\<close> and request the STAT interrupt when the mode's enable bit is set.
  They are in the order of the source; \<^verbatim>\<open>enter_vblank\<close> requests its interrupts before it
  sets the mode.
\<close>

definition enter_hblank :: "gb \<Rightarrow> gb" where
  "enter_hblank gb0 =
    (let gb1 = gb0\<lparr>address_space :=
                    (address_space gb0)
                      (LCD_STATUS := (read_mem8 gb0 LCD_STATUS AND 0b11111100) OR 0b00)\<rparr>;
         gb2 = gb1\<lparr>graphics_mode := HBLANK\<rparr>
     in if read_mem8 gb2 LCD_STATUS AND 0b00001000 \<noteq> 0
        then request_interrupt gb2 INT_STAT else gb2)"

definition enter_vblank :: "gb \<Rightarrow> gb" where
  "enter_vblank gb0 =
    (let gb1 = gb0\<lparr>address_space :=
                    (address_space gb0)
                      (LCD_STATUS := (read_mem8 gb0 LCD_STATUS AND 0b11111100) OR 0b01)\<rparr>;
         gb2 = (if read_mem8 gb1 LCD_STATUS AND 0b00010000 \<noteq> 0
                then request_interrupt gb1 INT_STAT else gb1);
         gb3 = request_interrupt gb2 INT_VBLANK
     in gb3\<lparr>graphics_mode := VBLANK\<rparr>)"

definition enter_searching :: "gb \<Rightarrow> gb" where
  "enter_searching gb0 =
    (let gb1 = gb0\<lparr>address_space :=
                    (address_space gb0)
                      (LCD_STATUS := (read_mem8 gb0 LCD_STATUS AND 0b11111100) OR 0b10)\<rparr>;
         gb2 = gb1\<lparr>graphics_mode := SEARCHING\<rparr>
     in if read_mem8 gb2 LCD_STATUS AND 0b00100000 \<noteq> 0
        then request_interrupt gb2 INT_STAT else gb2)"

definition enter_transferring :: "gb \<Rightarrow> gb" where
  "enter_transferring gb0 =
    (let gb1 = gb0\<lparr>address_space :=
                    (address_space gb0)(LCD_STATUS := read_mem8 gb0 LCD_STATUS OR 0b11)\<rparr>
     in gb1\<lparr>graphics_mode := TRANSFERRING\<rparr>)"

text \<open>
  \<^verbatim>\<open>render_tile\<close>. The two loop counters \<^verbatim>\<open>i\<close> and \<^verbatim>\<open>j\<close> run from 0 to 7 and are natural
  numbers here, as are \<^verbatim>\<open>curr_y\<close> and \<^verbatim>\<open>curr_x\<close>; \<^verbatim>\<open>start_y\<close> and \<^verbatim>\<open>start_x\<close> are
  \<^verbatim>\<open>int16_t\<close>, and the sums \<^verbatim>\<open>start_y + curr_y\<close> are converted to \<^verbatim>\<open>uint16_t\<close>, so they are
  sums of 16-bit words. The store in \<^verbatim>\<open>screen\<close> is guarded by both coordinates being below
  256. The \<^verbatim>\<open>puts\<close> and \<^verbatim>\<open>getchar\<close> of a flipped tile touch no field of the struct.
\<close>

definition render_pixel ::
  "16 word \<Rightarrow> 16 word \<Rightarrow> 16 word \<Rightarrow> bool \<Rightarrow> bool \<Rightarrow> nat \<Rightarrow> 16 word \<Rightarrow> nat \<Rightarrow> gb \<Rightarrow> gb" where
  "render_pixel start_y start_x palette_address is_sprite_tile x_flip curr_y tile_data j gb =
    (let curr_x = (if x_flip then 7 - j else j);
         screen_y = start_y + of_nat curr_y;
         screen_x = start_x + of_nat curr_x;
         palette_index = (ucast ((drop_bit (14 - curr_x) tile_data AND 0b10) OR
                                 of_bool (bit (drop_bit (7 - curr_x) tile_data) 0)) :: 8 word)
     in if screen_y < 256 \<and> screen_x < 256 \<and> (palette_index \<noteq> 0b00 \<or> \<not> is_sprite_tile)
        then (let color = drop_bit (2 * unat palette_index) (read_mem8 gb palette_address) AND 0b11
              in gb\<lparr>screen := (screen gb)
                     (unat screen_y := (screen gb (unat screen_y))(unat screen_x := color))\<rparr>)
        else gb)"

definition render_row ::
  "16 word \<Rightarrow> 16 word \<Rightarrow> 16 word \<Rightarrow> 16 word \<Rightarrow> bool \<Rightarrow> bool \<Rightarrow> bool \<Rightarrow> nat \<Rightarrow> gb \<Rightarrow> gb" where
  "render_row start_y start_x tile_address palette_address is_sprite_tile y_flip x_flip i gb =
    (let curr_y = (if y_flip then 7 - i else i);
         tile_data_hi = read_mem8 gb (tile_address + 2 * of_nat curr_y);
         tile_data_lo = read_mem8 gb (tile_address + 2 * of_nat curr_y + 1);
         tile_data = push_bit 8 (ucast tile_data_hi) OR ucast tile_data_lo
     in fold (render_pixel start_y start_x palette_address is_sprite_tile x_flip curr_y tile_data)
          [0..<8] gb)"

definition render_tile ::
  "gb \<Rightarrow> 16 word \<Rightarrow> 16 word \<Rightarrow> 16 word \<Rightarrow> 16 word \<Rightarrow> bool \<Rightarrow> bool \<Rightarrow> bool \<Rightarrow> gb" where
  "render_tile gb start_y start_x tile_address palette_address is_sprite_tile y_flip x_flip =
     fold (render_row start_y start_x tile_address palette_address is_sprite_tile y_flip x_flip)
       [0..<8] gb"

datatype addressing_mode = ADDR_MODE_SIGNED | ADDR_MODE_UNSIGNED

text \<open>
  \<^verbatim>\<open>render_tilemap\<close>: the loop over the \<^verbatim>\<open>TILE_MAP_SIZE = 0x400\<close> entries of a tile map. The
  signed mode reads the entry as \<^verbatim>\<open>int8_t\<close>. The last \<^verbatim>\<open>else\<close> of the source (\<^verbatim>\<open>DIE\<close>) needs
  a third addressing mode, and the type has two.
\<close>

definition render_tilemap_entry ::
  "addressing_mode \<Rightarrow> 16 word \<Rightarrow> 16 word \<Rightarrow> 8 word \<Rightarrow> 8 word \<Rightarrow> nat \<Rightarrow> gb \<Rightarrow> gb" where
  "render_tilemap_entry addressing_mode tile_map palette_address origin_y origin_x i gb =
    (case addressing_mode of
       ADDR_MODE_UNSIGNED \<Rightarrow>
         render_tile gb (ucast origin_y + of_nat ((i div 32) * 8))
           (ucast origin_x + of_nat ((i mod 32) * 8))
           (UNSIGNED_TILE_DATA_BASE + ucast (read_mem8 gb (tile_map + of_nat i)) * 0x10)
           palette_address False False False
     | ADDR_MODE_SIGNED \<Rightarrow>
         render_tile gb (ucast origin_y + of_nat ((i div 32) * 8))
           (ucast origin_x + of_nat ((i mod 32) * 8))
           (SIGNED_TILE_DATA_BASE + scast (read_mem8 gb (tile_map + of_nat i)) * 0x10)
           palette_address False False False)"

definition render_tilemap ::
  "gb \<Rightarrow> addressing_mode \<Rightarrow> 16 word \<Rightarrow> 16 word \<Rightarrow> 8 word \<Rightarrow> 8 word \<Rightarrow> gb" where
  "render_tilemap gb addressing_mode tile_map palette_address origin_y origin_x =
     fold (render_tilemap_entry addressing_mode tile_map palette_address origin_y origin_x)
       [0..<0x400] gb"

definition lcdc_addressing_mode :: "gb \<Rightarrow> addressing_mode" where
  "lcdc_addressing_mode gb =
     (if bit (drop_bit 4 (read_mem8 gb LCD_CONTROL)) 0 then ADDR_MODE_UNSIGNED else ADDR_MODE_SIGNED)"

definition render_background :: "gb \<Rightarrow> gb" where
  "render_background gb =
    (let addressing_mode = lcdc_addressing_mode gb;
         bg_map_data = (if bit (drop_bit 3 (read_mem8 gb LCD_CONTROL)) 0 then TILE_MAP_2 else TILE_MAP_1)
     in render_tilemap gb addressing_mode bg_map_data BGP 0 0)"

definition render_window :: "gb \<Rightarrow> gb" where
  "render_window gb =
    (let addressing_mode = lcdc_addressing_mode gb;
         win_map_data = (if bit (drop_bit 6 (read_mem8 gb LCD_CONTROL)) 0 then TILE_MAP_2 else TILE_MAP_1)
     in render_tilemap gb addressing_mode win_map_data BGP (read_mem8 gb WY) (read_mem8 gb WX - 7))"

definition render_sprite :: "gb \<Rightarrow> 16 word \<Rightarrow> gb" where
  "render_sprite gb sprite_address =
    (let y = read_mem8 gb sprite_address - 16;
         x = read_mem8 gb (sprite_address + 1) - 8;
         tile_address = UNSIGNED_TILE_DATA_BASE + ucast (read_mem8 gb (sprite_address + 2));
         attrs = read_mem8 gb (sprite_address + 3);
         palette_address = (if bit (drop_bit 4 attrs) 0 then OBP1 else OBP0);
         x_flip = bit (drop_bit 5 attrs) 0;
         y_flip = bit (drop_bit 6 attrs) 0
     in render_tile gb (ucast y) (ucast x) tile_address palette_address False y_flip x_flip)"

text \<open>
  \<^verbatim>\<open>render_sprites\<close>: the loop \<^verbatim>\<open>for (i = 0; i < NUM_SPRITES; i++)\<close> whose body increments
  \<^verbatim>\<open>i\<close> once more in the 8x16 mode. The sprite size is read from LCDC in every iteration.
\<close>

function render_sprites_from :: "nat \<Rightarrow> gb \<Rightarrow> gb" where
  "render_sprites_from i gb =
    (if i < 40 then
       (let sprite_size_8x16 = bit (drop_bit 2 (read_mem8 gb LCD_CONTROL)) 0;
            sprite_base_address = OAM + 4 * of_nat i
        in if sprite_size_8x16
           then render_sprites_from (i + 1 + 1)
                  (render_sprite
                     (render_sprite gb (sprite_base_address - sprite_base_address mod 2))
                     (sprite_base_address - sprite_base_address mod 2 + 1))
           else render_sprites_from (i + 1) (render_sprite gb sprite_base_address))
     else gb)"
  by pat_completeness auto
termination
  by (relation "measure (\<lambda>(i, gb). 40 - i)") auto

definition render_sprites :: "gb \<Rightarrow> gb" where
  "render_sprites gb = render_sprites_from 0 gb"

text \<open>
  \<^verbatim>\<open>update_screen\<close>, called once for each M-cycle while the LCD is on: 16 dots more, modulo
  70224; LY and the coincidence bit of STAT through \<^verbatim>\<open>write_mem8\<close>; then the mode, entered
  only when it differs from the current one. The frame is drawn on entering VBLANK.
\<close>

definition draw_frame :: "gb \<Rightarrow> gb" where
  "draw_frame gb0 =
    (let lcdc = read_mem8 gb0 LCD_CONTROL;
         window_and_bg_enabled = bit lcdc 0;
         window_enabled = bit (drop_bit 5 lcdc) 0;
         obj_enabled = bit (drop_bit 1 lcdc) 0;
         gb1 = (if window_and_bg_enabled
                then (let gb' = render_background gb0
                      in if window_enabled then render_window gb' else gb')
                else gb0)
     in if obj_enabled then render_sprites gb1 else gb1)"

definition update_screen :: "gb \<Rightarrow> gb" where
  "update_screen gb0 =
    (let gb1 = gb0\<lparr>dot_count := dot_count gb0 + 16\<rparr>;
         gb2 = gb1\<lparr>dot_count := dot_count gb1 mod 70224\<rparr>;
         gb3 = write_mem8 gb2 LY (ucast (dot_count gb2 div 456));
         gb4 = (if read_mem8 gb3 LY = read_mem8 gb3 LYC
                then (let gb' = write_mem8 gb3 LCD_STATUS (read_mem8 gb3 LCD_STATUS OR 0b00000100)
                      in if read_mem8 gb' LCD_STATUS AND 0b01000000 \<noteq> 0
                         then request_interrupt gb' INT_STAT else gb')
                else write_mem8 gb3 LCD_STATUS (read_mem8 gb3 LCD_STATUS AND 0b11111011))
     in if dot_count gb4 \<ge> 65664 then
          (if graphics_mode gb4 \<noteq> VBLANK then draw_frame (enter_vblank gb4) else gb4)
        else if dot_count gb4 mod 456 \<ge> 248 then
          (if graphics_mode gb4 \<noteq> HBLANK then enter_hblank gb4 else gb4)
        else if dot_count gb4 mod 456 \<ge> 80 then
          (if graphics_mode gb4 \<noteq> TRANSFERRING then enter_transferring gb4 else gb4)
        else if dot_count gb4 mod 456 < 80 then
          (if graphics_mode gb4 \<noteq> SEARCHING then enter_searching gb4 else gb4)
        else gb4)"

section \<open>The timer and the clock\<close>

text \<open>
  The number of M-cycles between two increments of TIMA, as \<^verbatim>\<open>wait\<close> computes it:
  \<^verbatim>\<open>1u << (((((read_mem8(gb, TAC) & 0b11) - 1) % 4) + 1) * 2)\<close>, stored in a \<^verbatim>\<open>uint8_t\<close>.
  The operands of the subtraction and of \<^verbatim>\<open>%\<close> are \<^verbatim>\<open>int\<close>, and the remainder of C truncates
  towards zero (\<open>smod\<close>); the shift is one of \<^verbatim>\<open>unsigned int\<close>.
\<close>

definition clocks_per_timer_increment :: "8 word \<Rightarrow> 8 word" where
  "clocks_per_timer_increment tac =
     ucast (push_bit (nat ((((uint (tac AND 0b11) - 1) smod 4) + 1) * 2)) (1 :: 32 word))"

text \<open>
  One iteration of the loop of \<^verbatim>\<open>wait\<close>. \<open>timer_enabled\<close> is the local that \<^verbatim>\<open>wait\<close> reads
  from bit 2 of TAC once, before the loop.
\<close>

definition wait_cycle :: "bool \<Rightarrow> gb \<Rightarrow> gb" where
  "wait_cycle timer_enabled gb0 =
    (let gb1 = gb0\<lparr>cycle_count := cycle_count gb0 + 1\<rparr>;
         gb2 = gb1\<lparr>cycles_to_wait := cycles_to_wait gb1 - 1\<rparr>;
         gb3 = (if cycle_count gb2 mod 64 = 0
                then write_mem8 gb2 DIVIDER_REGISTER (read_mem8 gb2 DIVIDER_REGISTER + 1)
                else gb2);
         clocks = clocks_per_timer_increment (read_mem8 gb3 TAC);
         gb4 = (if timer_enabled \<and> cycle_count gb3 mod ucast clocks = 0
                then (if read_mem8 gb3 TIMA = 0xFF
                      then request_interrupt (write_mem8 gb3 TIMA (read_mem8 gb3 TMA)) INT_TIMER
                      else write_mem8 gb3 TIMA (read_mem8 gb3 TIMA + 1))
                else gb3)
     in if drop_bit 7 (read_mem8 gb4 LCD_CONTROL) \<noteq> 0 then update_screen gb4 else gb4)"

function wait_loop :: "bool \<Rightarrow> gb \<Rightarrow> gb" where
  "wait_loop timer_enabled gb =
     (if cycles_to_wait gb > 0 then wait_loop timer_enabled (wait_cycle timer_enabled gb) else gb)"
  by pat_completeness auto

definition wait :: "gb \<Rightarrow> gb" where
  "wait gb = wait_loop (bit (drop_bit 2 (read_mem8 gb TAC)) 0) gb"

section \<open>The CPU\<close>

subsection \<open>Flags and condition codes\<close>

datatype flag = FL_Z | FL_N | FL_H | FL_C

fun flag_bits :: "flag \<Rightarrow> 16 word" where
  "flag_bits FL_Z = 0b10000000"
| "flag_bits FL_N = 0b01000000"
| "flag_bits FL_H = 0b00100000"
| "flag_bits FL_C = 0b00010000"

text \<open>
  The third parameter of \<^verbatim>\<open>set_flag\<close> is a \<^verbatim>\<open>uint1_t\<close>: an argument of a wider type is
  converted to it, which keeps its lowest bit. At each call the model passes that bit.
\<close>

definition set_flag :: "gb \<Rightarrow> flag \<Rightarrow> bool \<Rightarrow> gb" where
  "set_flag gb flag val =
     (if val then gb\<lparr>af := af gb OR flag_bits flag\<rparr>
      else gb\<lparr>af := af gb AND NOT (flag_bits flag)\<rparr>)"

definition get_flag :: "gb \<Rightarrow> flag \<Rightarrow> bool" where
  "get_flag gb flag \<longleftrightarrow> af gb AND flag_bits flag \<noteq> 0"

abbreviation (input) CC_NZ :: "2 word" where "CC_NZ \<equiv> 0b00"
abbreviation (input) CC_Z :: "2 word" where "CC_Z \<equiv> 0b01"
abbreviation (input) CC_NC :: "2 word" where "CC_NC \<equiv> 0b10"
abbreviation (input) CC_C :: "2 word" where "CC_C \<equiv> 0b11"

definition check_cc :: "gb \<Rightarrow> 2 word \<Rightarrow> bool option" where
  "check_cc gb cc =
     (if cc = CC_NZ then Some (\<not> get_flag gb FL_Z)
      else if cc = CC_Z then Some (get_flag gb FL_Z)
      else if cc = CC_NC then Some (\<not> get_flag gb FL_C)
      else if cc = CC_C then Some (get_flag gb FL_C)
      else None)"

subsection \<open>Registers\<close>

text \<open>
  \<^verbatim>\<open>r_reg\<close>, \<^verbatim>\<open>dd_reg\<close> and \<^verbatim>\<open>qq_reg\<close> return a pointer into the struct, or \<^verbatim>\<open>DIE\<close> in the
  default case of their \<^verbatim>\<open>switch\<close>. A pointer is a value of \<open>reg8\<close> or \<open>reg16\<close> here, read
  with \<open>load8\<close> and \<open>load16\<close> and assigned with \<open>store8\<close> and \<open>store16\<close>. The byte pointers
  assume a little-endian host, as the source says: the first of a pair (A, B, D, H) is
  the high byte of its 16-bit field. Where the source passes the constant \<^verbatim>\<open>R_A\<close> or
  \<^verbatim>\<open>R_C\<close>, the model names the pointer. \<^verbatim>\<open>r_to_str\<close>, \<^verbatim>\<open>dd_to_str\<close>, \<^verbatim>\<open>qq_to_str\<close> and
  \<^verbatim>\<open>cc_to_str\<close>, called for the trace, end the process for the same codes as these.
\<close>

datatype reg8 = Reg_A | Reg_B | Reg_C | Reg_D | Reg_E | Reg_H | Reg_L

datatype reg16 = Reg_AF | Reg_BC | Reg_DE | Reg_HL | Reg_SP

abbreviation (input) R_A :: "3 word" where "R_A \<equiv> 0b111"
abbreviation (input) R_B :: "3 word" where "R_B \<equiv> 0b000"
abbreviation (input) R_C :: "3 word" where "R_C \<equiv> 0b001"
abbreviation (input) R_D :: "3 word" where "R_D \<equiv> 0b010"
abbreviation (input) R_E :: "3 word" where "R_E \<equiv> 0b011"
abbreviation (input) R_H :: "3 word" where "R_H \<equiv> 0b100"
abbreviation (input) R_L :: "3 word" where "R_L \<equiv> 0b101"

abbreviation (input) DD_BC :: "2 word" where "DD_BC \<equiv> 0b00"
abbreviation (input) DD_DE :: "2 word" where "DD_DE \<equiv> 0b01"
abbreviation (input) DD_HL :: "2 word" where "DD_HL \<equiv> 0b10"
abbreviation (input) DD_SP :: "2 word" where "DD_SP \<equiv> 0b11"

abbreviation (input) QQ_BC :: "2 word" where "QQ_BC \<equiv> 0b00"
abbreviation (input) QQ_DE :: "2 word" where "QQ_DE \<equiv> 0b01"
abbreviation (input) QQ_HL :: "2 word" where "QQ_HL \<equiv> 0b10"
abbreviation (input) QQ_AF :: "2 word" where "QQ_AF \<equiv> 0b11"

definition r_reg :: "3 word \<Rightarrow> reg8 option" where
  "r_reg r =
     (if r = R_A then Some Reg_A
      else if r = R_B then Some Reg_B
      else if r = R_C then Some Reg_C
      else if r = R_D then Some Reg_D
      else if r = R_E then Some Reg_E
      else if r = R_H then Some Reg_H
      else if r = R_L then Some Reg_L
      else None)"

definition dd_reg :: "2 word \<Rightarrow> reg16 option" where
  "dd_reg dd =
     (if dd = DD_BC then Some Reg_BC
      else if dd = DD_DE then Some Reg_DE
      else if dd = DD_HL then Some Reg_HL
      else if dd = DD_SP then Some Reg_SP
      else None)"

definition qq_reg :: "2 word \<Rightarrow> reg16 option" where
  "qq_reg qq =
     (if qq = QQ_BC then Some Reg_BC
      else if qq = QQ_DE then Some Reg_DE
      else if qq = QQ_HL then Some Reg_HL
      else if qq = QQ_AF then Some Reg_AF
      else None)"

fun load8 :: "gb \<Rightarrow> reg8 \<Rightarrow> 8 word" where
  "load8 gb Reg_A = ucast (drop_bit 8 (af gb))"
| "load8 gb Reg_B = ucast (drop_bit 8 (bc gb))"
| "load8 gb Reg_C = ucast (bc gb)"
| "load8 gb Reg_D = ucast (drop_bit 8 (de gb))"
| "load8 gb Reg_E = ucast (de gb)"
| "load8 gb Reg_H = ucast (drop_bit 8 (hl gb))"
| "load8 gb Reg_L = ucast (hl gb)"

fun store8 :: "gb \<Rightarrow> reg8 \<Rightarrow> 8 word \<Rightarrow> gb" where
  "store8 gb Reg_A v = gb\<lparr>af := (af gb AND 0x00FF) OR push_bit 8 (ucast v)\<rparr>"
| "store8 gb Reg_B v = gb\<lparr>bc := (bc gb AND 0x00FF) OR push_bit 8 (ucast v)\<rparr>"
| "store8 gb Reg_C v = gb\<lparr>bc := (bc gb AND 0xFF00) OR ucast v\<rparr>"
| "store8 gb Reg_D v = gb\<lparr>de := (de gb AND 0x00FF) OR push_bit 8 (ucast v)\<rparr>"
| "store8 gb Reg_E v = gb\<lparr>de := (de gb AND 0xFF00) OR ucast v\<rparr>"
| "store8 gb Reg_H v = gb\<lparr>hl := (hl gb AND 0x00FF) OR push_bit 8 (ucast v)\<rparr>"
| "store8 gb Reg_L v = gb\<lparr>hl := (hl gb AND 0xFF00) OR ucast v\<rparr>"

fun load16 :: "gb \<Rightarrow> reg16 \<Rightarrow> 16 word" where
  "load16 gb Reg_AF = af gb"
| "load16 gb Reg_BC = bc gb"
| "load16 gb Reg_DE = de gb"
| "load16 gb Reg_HL = hl gb"
| "load16 gb Reg_SP = sp gb"

fun store16 :: "gb \<Rightarrow> reg16 \<Rightarrow> 16 word \<Rightarrow> gb" where
  "store16 gb Reg_AF v = gb\<lparr>af := v\<rparr>"
| "store16 gb Reg_BC v = gb\<lparr>bc := v\<rparr>"
| "store16 gb Reg_DE v = gb\<lparr>de := v\<rparr>"
| "store16 gb Reg_HL v = gb\<lparr>hl := v\<rparr>"
| "store16 gb Reg_SP v = gb\<lparr>sp := v\<rparr>"

subsection \<open>Arithmetic on A\<close>

text \<open>
  The source finds a carry by computing in a type one bit wider (\<^verbatim>\<open>uint9_t\<close>, \<^verbatim>\<open>uint5_t\<close>)
  and comparing with the truncation. The bit-precise types are words of that width.
  \<^verbatim>\<open>inc8\<close> and \<^verbatim>\<open>dec8\<close> return the result and set flags: a pair of the new state and the
  byte; their four-bit operand is added to the \<^verbatim>\<open>int\<close> 1, and the sum converted to five
  bits.
\<close>

definition add_a :: "gb \<Rightarrow> 8 word \<Rightarrow> gb" where
  "add_a gb operand =
    (let raw_result = (ucast (load8 gb Reg_A) + ucast operand :: 9 word);
         result = (ucast raw_result :: 8 word);
         raw_half_result =
           (ucast (ucast (load8 gb Reg_A) :: 4 word) + ucast (ucast operand :: 4 word) :: 5 word);
         half_result = (ucast raw_half_result :: 4 word);
         gb1 = set_flag gb FL_C (raw_result \<noteq> ucast result);
         gb2 = set_flag gb1 FL_H (raw_half_result \<noteq> ucast half_result);
         gb3 = set_flag gb2 FL_Z (result = 0);
         gb4 = set_flag gb3 FL_N False
     in store8 gb4 Reg_A result)"

definition adc_a :: "gb \<Rightarrow> 8 word \<Rightarrow> gb" where
  "adc_a gb operand =
    (let orig_c_flag = get_flag gb FL_C;
         gb1 = add_a gb operand;
         inter_c_flag = get_flag gb1 FL_C;
         inter_h_flag = get_flag gb1 FL_H;
         gb2 = add_a gb1 (of_bool orig_c_flag);
         gb3 = set_flag gb2 FL_C (get_flag gb2 FL_C \<or> inter_c_flag)
     in set_flag gb3 FL_H (get_flag gb3 FL_H \<or> inter_h_flag))"

definition sub_a :: "gb \<Rightarrow> 8 word \<Rightarrow> gb" where
  "sub_a gb operand =
    (let raw_result = (ucast (load8 gb Reg_A) - ucast operand :: 9 word);
         result = (ucast raw_result :: 8 word);
         raw_half_result =
           (ucast (ucast (load8 gb Reg_A) :: 4 word) - ucast (ucast operand :: 4 word) :: 5 word);
         half_result = (ucast raw_half_result :: 4 word);
         gb1 = set_flag gb FL_C (raw_result \<noteq> ucast result);
         gb2 = set_flag gb1 FL_H (raw_half_result \<noteq> ucast half_result);
         gb3 = set_flag gb2 FL_Z (result = 0);
         gb4 = set_flag gb3 FL_N True
     in store8 gb4 Reg_A result)"

definition sbc_a :: "gb \<Rightarrow> 8 word \<Rightarrow> gb" where
  "sbc_a gb operand =
    (let orig_c_flag = get_flag gb FL_C;
         gb1 = sub_a gb operand;
         inter_c_flag = get_flag gb1 FL_C;
         inter_h_flag = get_flag gb1 FL_H;
         gb2 = sub_a gb1 (of_bool orig_c_flag);
         gb3 = set_flag gb2 FL_C (get_flag gb2 FL_C \<or> inter_c_flag)
     in set_flag gb3 FL_H (get_flag gb3 FL_H \<or> inter_h_flag))"

definition and_a :: "gb \<Rightarrow> 8 word \<Rightarrow> gb" where
  "and_a gb operand =
    (let result = load8 gb Reg_A AND operand;
         gb1 = set_flag gb FL_C False;
         gb2 = set_flag gb1 FL_H True;
         gb3 = set_flag gb2 FL_Z (result = 0);
         gb4 = set_flag gb3 FL_N False
     in store8 gb4 Reg_A result)"

definition or_a :: "gb \<Rightarrow> 8 word \<Rightarrow> gb" where
  "or_a gb operand =
    (let result = load8 gb Reg_A OR operand;
         gb1 = set_flag gb FL_C False;
         gb2 = set_flag gb1 FL_H False;
         gb3 = set_flag gb2 FL_Z (result = 0);
         gb4 = set_flag gb3 FL_N False
     in store8 gb4 Reg_A result)"

definition xor_a :: "gb \<Rightarrow> 8 word \<Rightarrow> gb" where
  "xor_a gb operand =
    (let result = load8 gb Reg_A XOR operand;
         gb1 = set_flag gb FL_C False;
         gb2 = set_flag gb1 FL_H False;
         gb3 = set_flag gb2 FL_Z (result = 0);
         gb4 = set_flag gb3 FL_N False
     in store8 gb4 Reg_A result)"

definition cp_a :: "gb \<Rightarrow> 8 word \<Rightarrow> gb" where
  "cp_a gb operand =
    (let a = load8 gb Reg_A;
         gb1 = sub_a gb operand
     in store8 gb1 Reg_A a)"

definition inc8 :: "gb \<Rightarrow> 8 word \<Rightarrow> gb \<times> 8 word" where
  "inc8 gb operand =
    (let result = operand + 1;
         raw_half_result = (word_of_int (uint (ucast operand :: 4 word) + 1) :: 5 word);
         half_result = (ucast raw_half_result :: 4 word);
         gb1 = set_flag gb FL_H (raw_half_result \<noteq> ucast half_result);
         gb2 = set_flag gb1 FL_Z (result = 0);
         gb3 = set_flag gb2 FL_N False
     in (gb3, result))"

definition dec8 :: "gb \<Rightarrow> 8 word \<Rightarrow> gb \<times> 8 word" where
  "dec8 gb operand =
    (let result = operand - 1;
         raw_half_result = (word_of_int (uint (ucast operand :: 4 word) - 1) :: 5 word);
         half_result = (ucast raw_half_result :: 4 word);
         gb1 = set_flag gb FL_H (raw_half_result > ucast half_result);
         gb2 = set_flag gb1 FL_Z (result = 0);
         gb3 = set_flag gb2 FL_N True
     in (gb3, result))"

text \<open>
  The flags and the result of \<^verbatim>\<open>ADD SP, e\<close> and \<^verbatim>\<open>LDHL SP, e\<close>, which the source writes out
  twice: H and C from the unsigned sum of the low byte of SP and the operand, N and Z
  cleared, and the sum of SP and the operand read as \<^verbatim>\<open>int8_t\<close>.
\<close>

definition sp_plus_e_flags :: "gb \<Rightarrow> 8 word \<Rightarrow> gb" where
  "sp_plus_e_flags gb imm8 =
    (let raw_byte_result = (ucast (ucast (sp gb) :: 8 word) + ucast imm8 :: 9 word);
         byte_result = (ucast raw_byte_result :: 8 word);
         raw_half_result =
           (ucast (ucast (sp gb) :: 4 word) + ucast (ucast imm8 :: 4 word) :: 5 word);
         half_result = (ucast raw_half_result :: 4 word);
         gb1 = set_flag gb FL_H (raw_half_result \<noteq> ucast half_result);
         gb2 = set_flag gb1 FL_C (raw_byte_result \<noteq> ucast byte_result);
         gb3 = set_flag gb2 FL_N False
     in set_flag gb3 FL_Z False)"

subsection \<open>Decoding\<close>

text \<open>
  \<^verbatim>\<open>step\<close> is one \<^verbatim>\<open>switch\<close> on the opcode, with a second one on the next byte under the
  prefix \<^verbatim>\<open>0xCB\<close>. Each block of \<^verbatim>\<open>case\<close> labels that share a body is one constructor of
  \<open>instr\<close> or \<open>cb_instr\<close>, named after the mnemonic the block prints, and the two tables
  list the labels of each block as the source writes them, in its order. An opcode in no
  block reaches the \<^verbatim>\<open>default\<close> case, which is \<^verbatim>\<open>DIE\<close>.
\<close>

datatype (plugins only: ) instr =
  I_LD_r_r | I_LD_r_n | I_LD_r_HL | I_LD_HL_r | I_LD_HL_n | I_LD_A_BC | I_LD_A_DE
  | I_LD_A_C | I_LD_C_A | I_LDH_A_n | I_LDH_n_A | I_LD_A_nn | I_LD_nn_A | I_LD_A_HLI
  | I_LD_A_HLD | I_LD_BC_A | I_LD_DE_A | I_LD_HLI_A | I_LD_HLD_A | I_LD_dd_nn | I_LD_SP_HL
  | I_PUSH_qq | I_POP_qq | I_LDHL_SP_e | I_LD_nn_SP | I_ADD_A_r | I_ADD_A_n | I_ADD_A_HL
  | I_ADC_A_r | I_ADC_A_n | I_ADC_A_HL | I_SUB_A_r | I_SUB_A_n | I_SUB_A_HL | I_SBC_A_r
  | I_SBC_A_n | I_SBC_A_HL | I_AND_A_r | I_AND_A_n | I_AND_A_HL | I_OR_A_r | I_OR_A_n
  | I_OR_A_HL | I_XOR_A_r | I_XOR_A_n | I_XOR_A_HL | I_CP_A_r | I_CP_A_n | I_CP_A_HL
  | I_INC_r | I_INC_HL | I_DEC_r | I_DEC_HL | I_ADD_HL_dd | I_ADD_SP_e | I_INC_dd
  | I_DEC_dd | I_RLCA | I_RLA | I_RRCA | I_RRA | I_CB | I_JP_nn | I_JP_cc_nn | I_JR_e
  | I_JR_cc_e | I_JP_HL | I_CALL_nn | I_CALL_cc_nn | I_RET | I_RETI | I_RET_cc | I_RST
  | I_DAA | I_CPL | I_NOP | I_CCF | I_SCF | I_DI | I_EI | I_HALT | I_STOP

datatype (plugins only: ) cb_instr =
  CB_RLC_r | CB_RLC_HL | CB_RRC_r | CB_RRC_HL | CB_RL_r | CB_RL_HL | CB_RR_r | CB_RR_HL
  | CB_SLA_r | CB_SLA_HL | CB_SRA_r | CB_SRA_HL | CB_SWAP_r | CB_SWAP_HL | CB_SRL_r
  | CB_SRL_HL | CB_BIT_r | CB_BIT_HL | CB_RES_r | CB_RES_HL | CB_SET_r | CB_SET_HL

definition opcode_table :: "(8 word list \<times> instr) list" where
  "opcode_table =
    [([0b01000000, 0b01000001, 0b01000010, 0b01000011, 0b01000100, 0b01000101, 0b01000111,
       0b01001000, 0b01001001, 0b01001010, 0b01001011, 0b01001100, 0b01001101, 0b01001111,
       0b01010000, 0b01010001, 0b01010010, 0b01010011, 0b01010100, 0b01010101, 0b01010111,
       0b01011000, 0b01011001, 0b01011010, 0b01011011, 0b01011100, 0b01011101, 0b01011111,
       0b01100000, 0b01100001, 0b01100010, 0b01100011, 0b01100100, 0b01100101, 0b01100111,
       0b01101000, 0b01101001, 0b01101010, 0b01101011, 0b01101100, 0b01101101, 0b01101111,
       0b01111000, 0b01111001, 0b01111010, 0b01111011, 0b01111100, 0b01111101, 0b01111111], I_LD_r_r),
     ([0b00000110, 0b00001110, 0b00010110, 0b00011110, 0b00100110, 0b00101110, 0b00111110], I_LD_r_n),
     ([0b01000110, 0b01001110, 0b01010110, 0b01011110, 0b01100110, 0b01101110, 0b01111110], I_LD_r_HL),
     ([0b01110000, 0b01110001, 0b01110010, 0b01110011, 0b01110100, 0b01110101, 0b01110111], I_LD_HL_r),
     ([0b00110110], I_LD_HL_n),
     ([0b00001010], I_LD_A_BC),
     ([0b00011010], I_LD_A_DE),
     ([0b11110010], I_LD_A_C),
     ([0b11100010], I_LD_C_A),
     ([0b11110000], I_LDH_A_n),
     ([0b11100000], I_LDH_n_A),
     ([0b11111010], I_LD_A_nn),
     ([0b11101010], I_LD_nn_A),
     ([0b00101010], I_LD_A_HLI),
     ([0b00111010], I_LD_A_HLD),
     ([0b00000010], I_LD_BC_A),
     ([0b00010010], I_LD_DE_A),
     ([0b00100010], I_LD_HLI_A),
     ([0b00110010], I_LD_HLD_A),
     ([0b00000001, 0b00010001, 0b00100001, 0b00110001], I_LD_dd_nn),
     ([0b11111001], I_LD_SP_HL),
     ([0b11000101, 0b11010101, 0b11100101, 0b11110101], I_PUSH_qq),
     ([0b11000001, 0b11010001, 0b11100001, 0b11110001], I_POP_qq),
     ([0b11111000], I_LDHL_SP_e),
     ([0b00001000], I_LD_nn_SP),
     ([0b10000111, 0b10000000, 0b10000001, 0b10000010, 0b10000011, 0b10000100, 0b10000101], I_ADD_A_r),
     ([0b11000110], I_ADD_A_n),
     ([0b10000110], I_ADD_A_HL),
     ([0b10001111, 0b10001000, 0b10001001, 0b10001010, 0b10001011, 0b10001100, 0b10001101], I_ADC_A_r),
     ([0b11001110], I_ADC_A_n),
     ([0b10001110], I_ADC_A_HL),
     ([0b10010111, 0b10010000, 0b10010001, 0b10010010, 0b10010011, 0b10010100, 0b10010101], I_SUB_A_r),
     ([0b11010110], I_SUB_A_n),
     ([0b10010110], I_SUB_A_HL),
     ([0b10011111, 0b10011000, 0b10011001, 0b10011010, 0b10011011, 0b10011100, 0b10011101], I_SBC_A_r),
     ([0b11011110], I_SBC_A_n),
     ([0b10011110], I_SBC_A_HL),
     ([0b10100111, 0b10100000, 0b10100001, 0b10100010, 0b10100011, 0b10100100, 0b10100101], I_AND_A_r),
     ([0b11100110], I_AND_A_n),
     ([0b10100110], I_AND_A_HL),
     ([0b10110111, 0b10110000, 0b10110001, 0b10110010, 0b10110011, 0b10110100, 0b10110101], I_OR_A_r),
     ([0b11110110], I_OR_A_n),
     ([0b10110110], I_OR_A_HL),
     ([0b10101111, 0b10101000, 0b10101001, 0b10101010, 0b10101011, 0b10101100, 0b10101101], I_XOR_A_r),
     ([0b11101110], I_XOR_A_n),
     ([0b10101110], I_XOR_A_HL),
     ([0b10111111, 0b10111000, 0b10111001, 0b10111010, 0b10111011, 0b10111100, 0b10111101], I_CP_A_r),
     ([0b11111110], I_CP_A_n),
     ([0b10111110], I_CP_A_HL),
     ([0b00111100, 0b00000100, 0b00001100, 0b00010100, 0b00011100, 0b00100100, 0b00101100], I_INC_r),
     ([0b00110100], I_INC_HL),
     ([0b00111101, 0b00000101, 0b00001101, 0b00010101, 0b00011101, 0b00100101, 0b00101101], I_DEC_r),
     ([0b00110101], I_DEC_HL),
     ([0b00001001, 0b00011001, 0b00101001, 0b00111001], I_ADD_HL_dd),
     ([0b11101000], I_ADD_SP_e),
     ([0b00000011, 0b00010011, 0b00100011, 0b00110011], I_INC_dd),
     ([0b00001011, 0b00011011, 0b00101011, 0b00111011], I_DEC_dd),
     ([0b00000111], I_RLCA),
     ([0b00010111], I_RLA),
     ([0b00001111], I_RRCA),
     ([0b00011111], I_RRA),
     ([0b11001011], I_CB),
     ([0b11000011], I_JP_nn),
     ([0b11000010, 0b11001010, 0b11010010, 0b11011010], I_JP_cc_nn),
     ([0b00011000], I_JR_e),
     ([0b00100000, 0b00101000, 0b00110000, 0b00111000], I_JR_cc_e),
     ([0b11101001], I_JP_HL),
     ([0b11001101], I_CALL_nn),
     ([0b11000100, 0b11001100, 0b11010100, 0b11011100], I_CALL_cc_nn),
     ([0b11001001], I_RET),
     ([0b11011001], I_RETI),
     ([0b11000000, 0b11001000, 0b11010000, 0b11011000], I_RET_cc),
     ([0b11000111, 0b11001111, 0b11010111, 0b11011111, 0b11100111, 0b11101111, 0b11110111,
       0b11111111], I_RST),
     ([0b00100111], I_DAA),
     ([0b00101111], I_CPL),
     ([0b00000000], I_NOP),
     ([0b00111111], I_CCF),
     ([0b00110111], I_SCF),
     ([0b11110011], I_DI),
     ([0b11111011], I_EI),
     ([0b01110110], I_HALT),
     ([0b00010000], I_STOP)]"

definition cb_opcode_table :: "(8 word list \<times> cb_instr) list" where
  "cb_opcode_table =
    [([0b00000111, 0b00000000, 0b00000001, 0b00000010, 0b00000011, 0b00000100, 0b00000101], CB_RLC_r),
     ([0b00000110], CB_RLC_HL),
     ([0b00001111, 0b00001000, 0b00001001, 0b00001010, 0b00001011, 0b00001100, 0b00001101], CB_RRC_r),
     ([0b00001110], CB_RRC_HL),
     ([0b00010111, 0b00010000, 0b00010001, 0b00010010, 0b00010011, 0b00010100, 0b00010101], CB_RL_r),
     ([0b00010110], CB_RL_HL),
     ([0b00011111, 0b00011000, 0b00011001, 0b00011010, 0b00011011, 0b00011100, 0b00011101], CB_RR_r),
     ([0b00011110], CB_RR_HL),
     ([0b00100111, 0b00100000, 0b00100001, 0b00100010, 0b00100011, 0b00100100, 0b00100101], CB_SLA_r),
     ([0b00100110], CB_SLA_HL),
     ([0b00101111, 0b00101000, 0b00101001, 0b00101010, 0b00101011, 0b00101100, 0b00101101], CB_SRA_r),
     ([0b00101110], CB_SRA_HL),
     ([0b00110111, 0b00110000, 0b00110001, 0b00110010, 0b00110011, 0b00110100, 0b00110101], CB_SWAP_r),
     ([0b00110110], CB_SWAP_HL),
     ([0b00111111, 0b00111000, 0b00111001, 0b00111010, 0b00111011, 0b00111100, 0b00111101], CB_SRL_r),
     ([0b00111110], CB_SRL_HL),
     ([0b01000111, 0b01000000, 0b01000001, 0b01000010, 0b01000011, 0b01000100, 0b01000101,
       0b01001111, 0b01001000, 0b01001001, 0b01001010, 0b01001011, 0b01001100, 0b01001101,
       0b01010111, 0b01010000, 0b01010001, 0b01010010, 0b01010011, 0b01010100, 0b01010101,
       0b01011111, 0b01011000, 0b01011001, 0b01011010, 0b01011011, 0b01011100, 0b01011101,
       0b01100111, 0b01100000, 0b01100001, 0b01100010, 0b01100011, 0b01100100, 0b01100101,
       0b01101111, 0b01101000, 0b01101001, 0b01101010, 0b01101011, 0b01101100, 0b01101101,
       0b01110111, 0b01110000, 0b01110001, 0b01110010, 0b01110011, 0b01110100, 0b01110101,
       0b01111111, 0b01111000, 0b01111001, 0b01111010, 0b01111011, 0b01111100, 0b01111101], CB_BIT_r),
     ([0b01000110, 0b01001110, 0b01010110, 0b01011110, 0b01100110, 0b01101110, 0b01110110,
       0b01111110], CB_BIT_HL),
     ([0b10000111, 0b10000000, 0b10000001, 0b10000010, 0b10000011, 0b10000100, 0b10000101,
       0b10001111, 0b10001000, 0b10001001, 0b10001010, 0b10001011, 0b10001100, 0b10001101,
       0b10010111, 0b10010000, 0b10010001, 0b10010010, 0b10010011, 0b10010100, 0b10010101,
       0b10011111, 0b10011000, 0b10011001, 0b10011010, 0b10011011, 0b10011100, 0b10011101,
       0b10100111, 0b10100000, 0b10100001, 0b10100010, 0b10100011, 0b10100100, 0b10100101,
       0b10101111, 0b10101000, 0b10101001, 0b10101010, 0b10101011, 0b10101100, 0b10101101,
       0b10110111, 0b10110000, 0b10110001, 0b10110010, 0b10110011, 0b10110100, 0b10110101,
       0b10111111, 0b10111000, 0b10111001, 0b10111010, 0b10111011, 0b10111100, 0b10111101], CB_RES_r),
     ([0b10000110, 0b10001110, 0b10010110, 0b10011110, 0b10100110, 0b10101110, 0b10110110,
       0b10111110], CB_RES_HL),
     ([0b11000111, 0b11000000, 0b11000001, 0b11000010, 0b11000011, 0b11000100, 0b11000101,
       0b11001111, 0b11001000, 0b11001001, 0b11001010, 0b11001011, 0b11001100, 0b11001101,
       0b11010111, 0b11010000, 0b11010001, 0b11010010, 0b11010011, 0b11010100, 0b11010101,
       0b11011111, 0b11011000, 0b11011001, 0b11011010, 0b11011011, 0b11011100, 0b11011101,
       0b11100111, 0b11100000, 0b11100001, 0b11100010, 0b11100011, 0b11100100, 0b11100101,
       0b11101111, 0b11101000, 0b11101001, 0b11101010, 0b11101011, 0b11101100, 0b11101101,
       0b11110111, 0b11110000, 0b11110001, 0b11110010, 0b11110011, 0b11110100, 0b11110101,
       0b11111111, 0b11111000, 0b11111001, 0b11111010, 0b11111011, 0b11111100, 0b11111101], CB_SET_r),
     ([0b11000110, 0b11001110, 0b11010110, 0b11011110, 0b11100110, 0b11101110, 0b11110110,
       0b11111110], CB_SET_HL)]"

definition decode :: "8 word \<Rightarrow> instr option" where
  "decode opcode = map_option snd (find (\<lambda>(labels, i). opcode \<in> set labels) opcode_table)"

definition decode_cb :: "8 word \<Rightarrow> cb_instr option" where
  "decode_cb imm8 = map_option snd (find (\<lambda>(labels, i). imm8 \<in> set labels) cb_opcode_table)"

text \<open>The bit fields that \<^verbatim>\<open>step\<close> cuts out of the opcode before the \<^verbatim>\<open>switch\<close>.\<close>

definition op_upper_r :: "8 word \<Rightarrow> 3 word" where "op_upper_r opcode = ucast (drop_bit 3 opcode)"
definition op_lower_r :: "8 word \<Rightarrow> 3 word" where "op_lower_r opcode = ucast opcode"
definition op_dd :: "8 word \<Rightarrow> 2 word" where "op_dd opcode = ucast (drop_bit 4 opcode)"
definition op_qq :: "8 word \<Rightarrow> 2 word" where "op_qq opcode = ucast (drop_bit 4 opcode)"
definition op_b :: "8 word \<Rightarrow> 3 word" where "op_b opcode = ucast (drop_bit 3 opcode)"
definition op_cc :: "8 word \<Rightarrow> 2 word" where "op_cc opcode = ucast (drop_bit 3 opcode)"

subsection \<open>The instructions under the prefix 0xCB\<close>

text \<open>
  \<open>cb_r\<close> is \<^verbatim>\<open>(uint3_t)imm8\<close> and \<open>cb_b\<close> is \<^verbatim>\<open>imm8 >> 3\<close> as a \<^verbatim>\<open>uint3_t\<close>. The shifts of the
  source are computed in \<^verbatim>\<open>int\<close> and stored in a \<^verbatim>\<open>uint8_t\<close>, which is the shift of the byte.
  The test of \<^verbatim>\<open>BIT\<close> passes \<^verbatim>\<open>~(x >> cb_b)\<close>, an \<^verbatim>\<open>int\<close>, to \<^verbatim>\<open>set_flag\<close>.
\<close>

primrec exec_cb :: "cb_instr \<Rightarrow> 8 word \<Rightarrow> gb \<Rightarrow> gb option" where
  "exec_cb CB_RLC_r imm8 gb = do {
     p \<leftarrow> r_reg (ucast imm8);
     let result = push_bit 1 (load8 gb p) OR drop_bit 7 (load8 gb p);
     let gb1 = set_flag gb FL_H False;
     let gb2 = set_flag gb1 FL_N False;
     let gb3 = set_flag gb2 FL_Z (result = 0);
     let gb4 = set_flag gb3 FL_C (bit (drop_bit 7 (load8 gb3 p)) 0);
     let gb5 = store8 gb4 p result;
     Some (gb5\<lparr>cycles_to_wait := cycles_to_wait gb5 + 2, pc := pc gb5 + 2\<rparr>) }"
| "exec_cb CB_RLC_HL imm8 gb = do {
     let result = push_bit 1 (read_mem8 gb (hl gb)) OR drop_bit 7 (read_mem8 gb (hl gb));
     let gb1 = set_flag gb FL_Z (result = 0);
     let gb2 = set_flag gb1 FL_H False;
     let gb3 = set_flag gb2 FL_N False;
     let gb4 = set_flag gb3 FL_C (bit (drop_bit 7 (read_mem8 gb3 (hl gb3))) 0);
     let gb5 = write_mem8 gb4 (hl gb4) result;
     Some (gb5\<lparr>cycles_to_wait := cycles_to_wait gb5 + 4, pc := pc gb5 + 2\<rparr>) }"
| "exec_cb CB_RRC_r imm8 gb = do {
     p \<leftarrow> r_reg (ucast imm8);
     let result = push_bit 7 (load8 gb p) OR drop_bit 1 (load8 gb p);
     let gb1 = set_flag gb FL_C (bit (load8 gb p) 0);
     let gb2 = set_flag gb1 FL_H False;
     let gb3 = set_flag gb2 FL_N False;
     let gb4 = set_flag gb3 FL_Z (result = 0);
     let gb5 = store8 gb4 p result;
     Some (gb5\<lparr>cycles_to_wait := cycles_to_wait gb5 + 2, pc := pc gb5 + 2\<rparr>) }"
| "exec_cb CB_RRC_HL imm8 gb = do {
     let result = push_bit 7 (read_mem8 gb (hl gb)) OR drop_bit 1 (read_mem8 gb (hl gb));
     let gb1 = set_flag gb FL_C (bit (read_mem8 gb (hl gb)) 0);
     let gb2 = set_flag gb1 FL_H False;
     let gb3 = set_flag gb2 FL_N False;
     let gb4 = set_flag gb3 FL_Z (result = 0);
     let gb5 = write_mem8 gb4 (hl gb4) result;
     Some (gb5\<lparr>cycles_to_wait := cycles_to_wait gb5 + 4, pc := pc gb5 + 2\<rparr>) }"
| "exec_cb CB_RL_r imm8 gb = do {
     p \<leftarrow> r_reg (ucast imm8);
     let result = push_bit 1 (load8 gb p) OR of_bool (get_flag gb FL_C);
     let gb1 = set_flag gb FL_H False;
     let gb2 = set_flag gb1 FL_N False;
     let gb3 = set_flag gb2 FL_Z (result = 0);
     let gb4 = set_flag gb3 FL_C (bit (drop_bit 7 (load8 gb3 p)) 0);
     let gb5 = store8 gb4 p result;
     Some (gb5\<lparr>cycles_to_wait := cycles_to_wait gb5 + 2, pc := pc gb5 + 2\<rparr>) }"
| "exec_cb CB_RL_HL imm8 gb = do {
     let result = push_bit 1 (read_mem8 gb (hl gb)) OR of_bool (get_flag gb FL_C);
     let gb1 = set_flag gb FL_H False;
     let gb2 = set_flag gb1 FL_N False;
     let gb3 = set_flag gb2 FL_Z (result = 0);
     let gb4 = set_flag gb3 FL_C (bit (drop_bit 7 (read_mem8 gb3 (hl gb3))) 0);
     let gb5 = write_mem8 gb4 (hl gb4) result;
     Some (gb5\<lparr>cycles_to_wait := cycles_to_wait gb5 + 4, pc := pc gb5 + 2\<rparr>) }"
| "exec_cb CB_RR_r imm8 gb = do {
     p \<leftarrow> r_reg (ucast imm8);
     let result = push_bit 7 (of_bool (get_flag gb FL_C)) OR drop_bit 1 (load8 gb p);
     let gb1 = set_flag gb FL_H False;
     let gb2 = set_flag gb1 FL_N False;
     let gb3 = set_flag gb2 FL_Z (result = 0);
     let gb4 = set_flag gb3 FL_C (bit (load8 gb3 p) 0);
     let gb5 = store8 gb4 p result;
     Some (gb5\<lparr>cycles_to_wait := cycles_to_wait gb5 + 2, pc := pc gb5 + 2\<rparr>) }"
| "exec_cb CB_RR_HL imm8 gb = do {
     let curr = read_mem8 gb (hl gb);
     let result = push_bit 7 (of_bool (get_flag gb FL_C)) OR drop_bit 1 curr;
     let gb1 = set_flag gb FL_H False;
     let gb2 = set_flag gb1 FL_N False;
     let gb3 = set_flag gb2 FL_Z (result = 0);
     let gb4 = set_flag gb3 FL_C (bit curr 0);
     let gb5 = write_mem8 gb4 (hl gb4) result;
     Some (gb5\<lparr>cycles_to_wait := cycles_to_wait gb5 + 4, pc := pc gb5 + 2\<rparr>) }"
| "exec_cb CB_SLA_r imm8 gb = do {
     p \<leftarrow> r_reg (ucast imm8);
     let result = push_bit 1 (load8 gb p);
     let gb1 = set_flag gb FL_H False;
     let gb2 = set_flag gb1 FL_N False;
     let gb3 = set_flag gb2 FL_Z (result = 0);
     let gb4 = set_flag gb3 FL_C (bit (drop_bit 7 (load8 gb3 p)) 0);
     let gb5 = store8 gb4 p result;
     Some (gb5\<lparr>cycles_to_wait := cycles_to_wait gb5 + 2, pc := pc gb5 + 2\<rparr>) }"
| "exec_cb CB_SLA_HL imm8 gb = do {
     let result = push_bit 1 (read_mem8 gb (hl gb));
     let gb1 = set_flag gb FL_H False;
     let gb2 = set_flag gb1 FL_N False;
     let gb3 = set_flag gb2 FL_Z (result = 0);
     let gb4 = set_flag gb3 FL_C (bit (drop_bit 7 (read_mem8 gb3 (hl gb3))) 0);
     let gb5 = write_mem8 gb4 (hl gb4) result;
     Some (gb5\<lparr>cycles_to_wait := cycles_to_wait gb5 + 4, pc := pc gb5 + 2\<rparr>) }"
| "exec_cb CB_SRA_r imm8 gb = do {
     p \<leftarrow> r_reg (ucast imm8);
     let result = (load8 gb p AND 0b10000000) OR drop_bit 1 (load8 gb p);
     let gb1 = set_flag gb FL_H False;
     let gb2 = set_flag gb1 FL_N False;
     let gb3 = set_flag gb2 FL_Z (result = 0);
     let gb4 = set_flag gb3 FL_C (bit (load8 gb3 p) 0);
     let gb5 = store8 gb4 p result;
     Some (gb5\<lparr>cycles_to_wait := cycles_to_wait gb5 + 2, pc := pc gb5 + 2\<rparr>) }"
| "exec_cb CB_SRA_HL imm8 gb = do {
     let result = (read_mem8 gb (hl gb) AND 0b10000000) OR drop_bit 1 (read_mem8 gb (hl gb));
     let gb1 = set_flag gb FL_H False;
     let gb2 = set_flag gb1 FL_N False;
     let gb3 = set_flag gb2 FL_Z (result = 0);
     let gb4 = set_flag gb3 FL_C (bit (read_mem8 gb3 (hl gb3)) 0);
     let gb5 = write_mem8 gb4 (hl gb4) result;
     Some (gb5\<lparr>cycles_to_wait := cycles_to_wait gb5 + 4, pc := pc gb5 + 2\<rparr>) }"
| "exec_cb CB_SWAP_r imm8 gb = do {
     p \<leftarrow> r_reg (ucast imm8);
     let result = push_bit 4 (load8 gb p) OR drop_bit 4 (load8 gb p);
     let gb1 = set_flag gb FL_C False;
     let gb2 = set_flag gb1 FL_H False;
     let gb3 = set_flag gb2 FL_N False;
     let gb4 = set_flag gb3 FL_Z (result = 0);
     let gb5 = store8 gb4 p result;
     Some (gb5\<lparr>cycles_to_wait := cycles_to_wait gb5 + 2, pc := pc gb5 + 2\<rparr>) }"
| "exec_cb CB_SWAP_HL imm8 gb = do {
     let result = push_bit 4 (read_mem8 gb (hl gb)) OR drop_bit 4 (read_mem8 gb (hl gb));
     let gb1 = set_flag gb FL_C False;
     let gb2 = set_flag gb1 FL_H False;
     let gb3 = set_flag gb2 FL_N False;
     let gb4 = set_flag gb3 FL_Z (result = 0);
     let gb5 = write_mem8 gb4 (hl gb4) result;
     Some (gb5\<lparr>cycles_to_wait := cycles_to_wait gb5 + 4, pc := pc gb5 + 2\<rparr>) }"
| "exec_cb CB_SRL_r imm8 gb = do {
     p \<leftarrow> r_reg (ucast imm8);
     let result = drop_bit 1 (load8 gb p);
     let gb1 = set_flag gb FL_C (bit (load8 gb p) 0);
     let gb2 = set_flag gb1 FL_H False;
     let gb3 = set_flag gb2 FL_N False;
     let gb4 = set_flag gb3 FL_Z (result = 0);
     let gb5 = store8 gb4 p result;
     Some (gb5\<lparr>cycles_to_wait := cycles_to_wait gb5 + 2, pc := pc gb5 + 2\<rparr>) }"
| "exec_cb CB_SRL_HL imm8 gb = do {
     let result = drop_bit 1 (read_mem8 gb (hl gb));
     let gb1 = set_flag gb FL_C (bit (read_mem8 gb (hl gb)) 0);
     let gb2 = set_flag gb1 FL_H False;
     let gb3 = set_flag gb2 FL_N False;
     let gb4 = set_flag gb3 FL_Z (result = 0);
     let gb5 = write_mem8 gb4 (hl gb4) result;
     Some (gb5\<lparr>cycles_to_wait := cycles_to_wait gb5 + 4, pc := pc gb5 + 2\<rparr>) }"
| "exec_cb CB_BIT_r imm8 gb = do {
     p \<leftarrow> r_reg (ucast imm8);
     let cb_b = (ucast (drop_bit 3 imm8) :: 3 word);
     let gb1 = set_flag gb FL_H True;
     let gb2 = set_flag gb1 FL_N False;
     let gb3 = set_flag gb2 FL_Z (bit (NOT (drop_bit (unat cb_b) (uint (load8 gb2 p)))) 0);
     Some (gb3\<lparr>cycles_to_wait := cycles_to_wait gb3 + 2, pc := pc gb3 + 2\<rparr>) }"
| "exec_cb CB_BIT_HL imm8 gb = do {
     let cb_b = (ucast (drop_bit 3 imm8) :: 3 word);
     let gb1 = set_flag gb FL_H True;
     let gb2 = set_flag gb1 FL_N False;
     let gb3 = set_flag gb2 FL_Z
                 (bit (NOT (drop_bit (unat cb_b) (uint (read_mem8 gb2 (hl gb2))))) 0);
     Some (gb3\<lparr>cycles_to_wait := cycles_to_wait gb3 + 3, pc := pc gb3 + 2\<rparr>) }"
| "exec_cb CB_RES_r imm8 gb = do {
     p \<leftarrow> r_reg (ucast imm8);
     let cb_b = (ucast (drop_bit 3 imm8) :: 3 word);
     let gb1 = store8 gb p (load8 gb p AND ucast (NOT (push_bit (unat cb_b) (1 :: 32 word))));
     Some (gb1\<lparr>cycles_to_wait := cycles_to_wait gb1 + 2, pc := pc gb1 + 2\<rparr>) }"
| "exec_cb CB_RES_HL imm8 gb = do {
     let cb_b = (ucast (drop_bit 3 imm8) :: 3 word);
     let gb1 = write_mem8 gb (hl gb)
                 (read_mem8 gb (hl gb) AND ucast (NOT (push_bit (unat cb_b) (1 :: 32 word))));
     Some (gb1\<lparr>cycles_to_wait := cycles_to_wait gb1 + 4, pc := pc gb1 + 2\<rparr>) }"
| "exec_cb CB_SET_r imm8 gb = do {
     p \<leftarrow> r_reg (ucast imm8);
     let cb_b = (ucast (drop_bit 3 imm8) :: 3 word);
     let gb1 = store8 gb p (load8 gb p OR ucast (push_bit (unat cb_b) (1 :: 32 word)));
     Some (gb1\<lparr>cycles_to_wait := cycles_to_wait gb1 + 2, pc := pc gb1 + 2\<rparr>) }"
| "exec_cb CB_SET_HL imm8 gb = do {
     let cb_b = (ucast (drop_bit 3 imm8) :: 3 word);
     let gb1 = write_mem8 gb (hl gb)
                 (read_mem8 gb (hl gb) OR ucast (push_bit (unat cb_b) (1 :: 32 word)));
     Some (gb1\<lparr>cycles_to_wait := cycles_to_wait gb1 + 4, pc := pc gb1 + 2\<rparr>) }"

subsection \<open>The instructions\<close>

text \<open>
  One equation for each block of the \<^verbatim>\<open>switch\<close>, with the statements of the block in their
  order. The arguments are the block, then \<^verbatim>\<open>opcode\<close>, \<^verbatim>\<open>imm8\<close> and \<^verbatim>\<open>imm16\<close> as \<^verbatim>\<open>step\<close>
  reads them before the \<^verbatim>\<open>switch\<close>, then the state. The cycle counts are those of the
  source, block by block (the three \<^verbatim>\<open>ADC\<close> blocks add none).
\<close>

primrec exec :: "instr \<Rightarrow> 8 word \<Rightarrow> 8 word \<Rightarrow> 16 word \<Rightarrow> gb \<Rightarrow> gb option" where
  "exec I_LD_r_r opcode imm8 imm16 gb = do {
     u \<leftarrow> r_reg (op_upper_r opcode);
     l \<leftarrow> r_reg (op_lower_r opcode);
     let gb1 = store8 gb u (load8 gb l);
     Some (gb1\<lparr>cycles_to_wait := cycles_to_wait gb1 + 1, pc := pc gb1 + 1\<rparr>) }"
| "exec I_LD_r_n opcode imm8 imm16 gb = do {
     u \<leftarrow> r_reg (op_upper_r opcode);
     let gb1 = store8 gb u imm8;
     Some (gb1\<lparr>cycles_to_wait := cycles_to_wait gb1 + 2, pc := pc gb1 + 2\<rparr>) }"
| "exec I_LD_r_HL opcode imm8 imm16 gb = do {
     u \<leftarrow> r_reg (op_upper_r opcode);
     let gb1 = store8 gb u (read_mem8 gb (hl gb));
     Some (gb1\<lparr>cycles_to_wait := cycles_to_wait gb1 + 2, pc := pc gb1 + 1\<rparr>) }"
| "exec I_LD_HL_r opcode imm8 imm16 gb = do {
     l \<leftarrow> r_reg (op_lower_r opcode);
     let gb1 = write_mem8 gb (hl gb) (load8 gb l);
     Some (gb1\<lparr>cycles_to_wait := cycles_to_wait gb1 + 2, pc := pc gb1 + 1\<rparr>) }"
| "exec I_LD_HL_n opcode imm8 imm16 gb = do {
     let gb1 = write_mem8 gb (hl gb) imm8;
     Some (gb1\<lparr>cycles_to_wait := cycles_to_wait gb1 + 2, pc := pc gb1 + 2\<rparr>) }"
| "exec I_LD_A_BC opcode imm8 imm16 gb = do {
     let gb1 = store8 gb Reg_A (read_mem8 gb (bc gb));
     Some (gb1\<lparr>cycles_to_wait := cycles_to_wait gb1 + 2, pc := pc gb1 + 1\<rparr>) }"
| "exec I_LD_A_DE opcode imm8 imm16 gb = do {
     let gb1 = store8 gb Reg_A (read_mem8 gb (de gb));
     Some (gb1\<lparr>cycles_to_wait := cycles_to_wait gb1 + 2, pc := pc gb1 + 1\<rparr>) }"
| "exec I_LD_A_C opcode imm8 imm16 gb = do {
     let gb1 = store8 gb Reg_A (read_mem8 gb (0xff00 OR ucast (load8 gb Reg_C)));
     Some (gb1\<lparr>cycles_to_wait := cycles_to_wait gb1 + 2, pc := pc gb1 + 1\<rparr>) }"
| "exec I_LD_C_A opcode imm8 imm16 gb = do {
     let gb1 = write_mem8 gb (0xff00 OR ucast (load8 gb Reg_C)) (load8 gb Reg_A);
     Some (gb1\<lparr>cycles_to_wait := cycles_to_wait gb1 + 2, pc := pc gb1 + 1\<rparr>) }"
| "exec I_LDH_A_n opcode imm8 imm16 gb = do {
     let gb1 = store8 gb Reg_A (read_mem8 gb (0xff00 OR ucast imm8));
     Some (gb1\<lparr>cycles_to_wait := cycles_to_wait gb1 + 3, pc := pc gb1 + 2\<rparr>) }"
| "exec I_LDH_n_A opcode imm8 imm16 gb = do {
     let gb1 = write_mem8 gb (0xff00 OR ucast imm8) (load8 gb Reg_A);
     Some (gb1\<lparr>cycles_to_wait := cycles_to_wait gb1 + 3, pc := pc gb1 + 2\<rparr>) }"
| "exec I_LD_A_nn opcode imm8 imm16 gb = do {
     let gb1 = store8 gb Reg_A (read_mem8 gb imm16);
     Some (gb1\<lparr>cycles_to_wait := cycles_to_wait gb1 + 4, pc := pc gb1 + 3\<rparr>) }"
| "exec I_LD_nn_A opcode imm8 imm16 gb = do {
     let gb1 = write_mem8 gb imm16 (load8 gb Reg_A);
     Some (gb1\<lparr>cycles_to_wait := cycles_to_wait gb1 + 4, pc := pc gb1 + 3\<rparr>) }"
| "exec I_LD_A_HLI opcode imm8 imm16 gb = do {
     let gb1 = store8 gb Reg_A (read_mem8 gb (hl gb));
     let gb2 = gb1\<lparr>hl := hl gb1 + 1\<rparr>;
     Some (gb2\<lparr>cycles_to_wait := cycles_to_wait gb2 + 2, pc := pc gb2 + 1\<rparr>) }"
| "exec I_LD_A_HLD opcode imm8 imm16 gb = do {
     let gb1 = store8 gb Reg_A (read_mem8 gb (hl gb));
     let gb2 = gb1\<lparr>hl := hl gb1 - 1\<rparr>;
     Some (gb2\<lparr>cycles_to_wait := cycles_to_wait gb2 + 2, pc := pc gb2 + 1\<rparr>) }"
| "exec I_LD_BC_A opcode imm8 imm16 gb = do {
     let gb1 = write_mem8 gb (bc gb) (load8 gb Reg_A);
     Some (gb1\<lparr>cycles_to_wait := cycles_to_wait gb1 + 2, pc := pc gb1 + 1\<rparr>) }"
| "exec I_LD_DE_A opcode imm8 imm16 gb = do {
     let gb1 = write_mem8 gb (de gb) (load8 gb Reg_A);
     Some (gb1\<lparr>cycles_to_wait := cycles_to_wait gb1 + 2, pc := pc gb1 + 1\<rparr>) }"
| "exec I_LD_HLI_A opcode imm8 imm16 gb = do {
     let gb1 = write_mem8 gb (hl gb) (load8 gb Reg_A);
     let gb2 = gb1\<lparr>hl := hl gb1 + 1\<rparr>;
     Some (gb2\<lparr>cycles_to_wait := cycles_to_wait gb2 + 2, pc := pc gb2 + 1\<rparr>) }"
| "exec I_LD_HLD_A opcode imm8 imm16 gb = do {
     let gb1 = write_mem8 gb (hl gb) (load8 gb Reg_A);
     let gb2 = gb1\<lparr>hl := hl gb1 - 1\<rparr>;
     Some (gb2\<lparr>cycles_to_wait := cycles_to_wait gb2 + 2, pc := pc gb2 + 1\<rparr>) }"
| "exec I_LD_dd_nn opcode imm8 imm16 gb = do {
     d \<leftarrow> dd_reg (op_dd opcode);
     let gb1 = store16 gb d imm16;
     Some (gb1\<lparr>cycles_to_wait := cycles_to_wait gb1 + 3, pc := pc gb1 + 3\<rparr>) }"
| "exec I_LD_SP_HL opcode imm8 imm16 gb = do {
     let gb1 = gb\<lparr>sp := hl gb\<rparr>;
     Some (gb1\<lparr>cycles_to_wait := cycles_to_wait gb1 + 2, pc := pc gb1 + 1\<rparr>) }"
| "exec I_PUSH_qq opcode imm8 imm16 gb = do {
     q \<leftarrow> qq_reg (op_qq opcode);
     let gb1 = write_mem16 gb (sp gb - 2) (load16 gb q);
     let gb2 = gb1\<lparr>sp := sp gb1 - 2\<rparr>;
     Some (gb2\<lparr>cycles_to_wait := cycles_to_wait gb2 + 4, pc := pc gb2 + 1\<rparr>) }"
| "exec I_POP_qq opcode imm8 imm16 gb = do {
     q \<leftarrow> qq_reg (op_qq opcode);
     let gb1 = store16 gb q
                 (push_bit 8 (ucast (read_mem8 gb (sp gb + 1))) OR ucast (read_mem8 gb (sp gb)));
     let gb2 = gb1\<lparr>af := af gb1 AND 0xfff0\<rparr>;
     let gb3 = gb2\<lparr>sp := sp gb2 + 2\<rparr>;
     Some (gb3\<lparr>cycles_to_wait := cycles_to_wait gb3 + 3, pc := pc gb3 + 1\<rparr>) }"
| "exec I_LDHL_SP_e opcode imm8 imm16 gb = do {
     let gb1 = sp_plus_e_flags gb imm8;
     let gb2 = gb1\<lparr>hl := sp gb1 + scast imm8\<rparr>;
     Some (gb2\<lparr>cycles_to_wait := cycles_to_wait gb2 + 3, pc := pc gb2 + 2\<rparr>) }"
| "exec I_LD_nn_SP opcode imm8 imm16 gb = do {
     let gb1 = write_mem16 gb imm16 (sp gb);
     Some (gb1\<lparr>cycles_to_wait := cycles_to_wait gb1 + 5, pc := pc gb1 + 3\<rparr>) }"
| "exec I_ADD_A_r opcode imm8 imm16 gb = do {
     l \<leftarrow> r_reg (op_lower_r opcode);
     let gb1 = add_a gb (load8 gb l);
     Some (gb1\<lparr>cycles_to_wait := cycles_to_wait gb1 + 1, pc := pc gb1 + 1\<rparr>) }"
| "exec I_ADD_A_n opcode imm8 imm16 gb = do {
     let gb1 = add_a gb imm8;
     Some (gb1\<lparr>cycles_to_wait := cycles_to_wait gb1 + 2, pc := pc gb1 + 2\<rparr>) }"
| "exec I_ADD_A_HL opcode imm8 imm16 gb = do {
     let gb1 = add_a gb (read_mem8 gb (hl gb));
     Some (gb1\<lparr>cycles_to_wait := cycles_to_wait gb1 + 2, pc := pc gb1 + 1\<rparr>) }"
| "exec I_ADC_A_r opcode imm8 imm16 gb = do {
     l \<leftarrow> r_reg (op_lower_r opcode);
     let gb1 = adc_a gb (load8 gb l);
     Some (gb1\<lparr>pc := pc gb1 + 1\<rparr>) }"
| "exec I_ADC_A_n opcode imm8 imm16 gb = do {
     let gb1 = adc_a gb imm8;
     Some (gb1\<lparr>pc := pc gb1 + 2\<rparr>) }"
| "exec I_ADC_A_HL opcode imm8 imm16 gb = do {
     let gb1 = adc_a gb (read_mem8 gb (hl gb));
     Some (gb1\<lparr>pc := pc gb1 + 1\<rparr>) }"
| "exec I_SUB_A_r opcode imm8 imm16 gb = do {
     l \<leftarrow> r_reg (op_lower_r opcode);
     let gb1 = sub_a gb (load8 gb l);
     Some (gb1\<lparr>cycles_to_wait := cycles_to_wait gb1 + 2, pc := pc gb1 + 1\<rparr>) }"
| "exec I_SUB_A_n opcode imm8 imm16 gb = do {
     let gb1 = sub_a gb imm8;
     Some (gb1\<lparr>cycles_to_wait := cycles_to_wait gb1 + 2, pc := pc gb1 + 2\<rparr>) }"
| "exec I_SUB_A_HL opcode imm8 imm16 gb = do {
     let gb1 = sub_a gb (read_mem8 gb (hl gb));
     Some (gb1\<lparr>cycles_to_wait := cycles_to_wait gb1 + 1, pc := pc gb1 + 1\<rparr>) }"
| "exec I_SBC_A_r opcode imm8 imm16 gb = do {
     l \<leftarrow> r_reg (op_lower_r opcode);
     let gb1 = sbc_a gb (load8 gb l);
     Some (gb1\<lparr>cycles_to_wait := cycles_to_wait gb1 + 1, pc := pc gb1 + 1\<rparr>) }"
| "exec I_SBC_A_n opcode imm8 imm16 gb = do {
     let gb1 = sbc_a gb imm8;
     Some (gb1\<lparr>cycles_to_wait := cycles_to_wait gb1 + 2, pc := pc gb1 + 2\<rparr>) }"
| "exec I_SBC_A_HL opcode imm8 imm16 gb = do {
     let gb1 = sbc_a gb (read_mem8 gb (hl gb));
     Some (gb1\<lparr>cycles_to_wait := cycles_to_wait gb1 + 2, pc := pc gb1 + 1\<rparr>) }"
| "exec I_AND_A_r opcode imm8 imm16 gb = do {
     l \<leftarrow> r_reg (op_lower_r opcode);
     let gb1 = and_a gb (load8 gb l);
     Some (gb1\<lparr>cycles_to_wait := cycles_to_wait gb1 + 1, pc := pc gb1 + 1\<rparr>) }"
| "exec I_AND_A_n opcode imm8 imm16 gb = do {
     let gb1 = and_a gb imm8;
     Some (gb1\<lparr>cycles_to_wait := cycles_to_wait gb1 + 2, pc := pc gb1 + 2\<rparr>) }"
| "exec I_AND_A_HL opcode imm8 imm16 gb = do {
     let gb1 = and_a gb (read_mem8 gb (hl gb));
     Some (gb1\<lparr>cycles_to_wait := cycles_to_wait gb1 + 2, pc := pc gb1 + 1\<rparr>) }"
| "exec I_OR_A_r opcode imm8 imm16 gb = do {
     l \<leftarrow> r_reg (op_lower_r opcode);
     let gb1 = or_a gb (load8 gb l);
     Some (gb1\<lparr>cycles_to_wait := cycles_to_wait gb1 + 1, pc := pc gb1 + 1\<rparr>) }"
| "exec I_OR_A_n opcode imm8 imm16 gb = do {
     let gb1 = or_a gb imm8;
     Some (gb1\<lparr>cycles_to_wait := cycles_to_wait gb1 + 2, pc := pc gb1 + 2\<rparr>) }"
| "exec I_OR_A_HL opcode imm8 imm16 gb = do {
     let gb1 = or_a gb (read_mem8 gb (hl gb));
     Some (gb1\<lparr>cycles_to_wait := cycles_to_wait gb1 + 2, pc := pc gb1 + 1\<rparr>) }"
| "exec I_XOR_A_r opcode imm8 imm16 gb = do {
     l \<leftarrow> r_reg (op_lower_r opcode);
     let gb1 = xor_a gb (load8 gb l);
     Some (gb1\<lparr>cycles_to_wait := cycles_to_wait gb1 + 1, pc := pc gb1 + 1\<rparr>) }"
| "exec I_XOR_A_n opcode imm8 imm16 gb = do {
     let gb1 = xor_a gb imm8;
     Some (gb1\<lparr>cycles_to_wait := cycles_to_wait gb1 + 2, pc := pc gb1 + 2\<rparr>) }"
| "exec I_XOR_A_HL opcode imm8 imm16 gb = do {
     let gb1 = xor_a gb (read_mem8 gb (hl gb));
     Some (gb1\<lparr>cycles_to_wait := cycles_to_wait gb1 + 2, pc := pc gb1 + 1\<rparr>) }"
| "exec I_CP_A_r opcode imm8 imm16 gb = do {
     l \<leftarrow> r_reg (op_lower_r opcode);
     let gb1 = cp_a gb (load8 gb l);
     Some (gb1\<lparr>cycles_to_wait := cycles_to_wait gb1 + 1, pc := pc gb1 + 1\<rparr>) }"
| "exec I_CP_A_n opcode imm8 imm16 gb = do {
     let gb1 = cp_a gb imm8;
     Some (gb1\<lparr>cycles_to_wait := cycles_to_wait gb1 + 2, pc := pc gb1 + 2\<rparr>) }"
| "exec I_CP_A_HL opcode imm8 imm16 gb = do {
     let gb1 = cp_a gb (read_mem8 gb (hl gb));
     Some (gb1\<lparr>cycles_to_wait := cycles_to_wait gb1 + 2, pc := pc gb1 + 1\<rparr>) }"
| "exec I_INC_r opcode imm8 imm16 gb = do {
     u \<leftarrow> r_reg (op_upper_r opcode);
     let (gb1, result) = inc8 gb (load8 gb u);
     let gb2 = store8 gb1 u result;
     Some (gb2\<lparr>cycles_to_wait := cycles_to_wait gb2 + 1, pc := pc gb2 + 1\<rparr>) }"
| "exec I_INC_HL opcode imm8 imm16 gb = do {
     let (gb1, result) = inc8 gb (read_mem8 gb (hl gb));
     let gb2 = write_mem8 gb1 (hl gb1) result;
     Some (gb2\<lparr>cycles_to_wait := cycles_to_wait gb2 + 3, pc := pc gb2 + 1\<rparr>) }"
| "exec I_DEC_r opcode imm8 imm16 gb = do {
     u \<leftarrow> r_reg (op_upper_r opcode);
     let (gb1, result) = dec8 gb (load8 gb u);
     let gb2 = store8 gb1 u result;
     Some (gb2\<lparr>cycles_to_wait := cycles_to_wait gb2 + 1, pc := pc gb2 + 1\<rparr>) }"
| "exec I_DEC_HL opcode imm8 imm16 gb = do {
     let (gb1, result) = dec8 gb (read_mem8 gb (hl gb));
     let gb2 = write_mem8 gb1 (hl gb1) result;
     Some (gb2\<lparr>cycles_to_wait := cycles_to_wait gb2 + 3, pc := pc gb2 + 1\<rparr>) }"
| "exec I_ADD_HL_dd opcode imm8 imm16 gb = do {
     d \<leftarrow> dd_reg (op_dd opcode);
     let raw_result = (ucast (hl gb) + ucast (load16 gb d) :: 17 word);
     let result = (ucast raw_result :: 16 word);
     let raw_half_result =
           (ucast (ucast (hl gb) :: 12 word) + ucast (ucast (load16 gb d) :: 12 word) :: 13 word);
     let half_result = (ucast raw_half_result :: 12 word);
     let gb1 = set_flag gb FL_H (raw_half_result \<noteq> ucast half_result);
     let gb2 = set_flag gb1 FL_C (raw_result \<noteq> ucast result);
     let gb3 = set_flag gb2 FL_N False;
     let gb4 = gb3\<lparr>hl := result\<rparr>;
     Some (gb4\<lparr>cycles_to_wait := cycles_to_wait gb4 + 2, pc := pc gb4 + 1\<rparr>) }"
| "exec I_ADD_SP_e opcode imm8 imm16 gb = do {
     let gb1 = sp_plus_e_flags gb imm8;
     let gb2 = gb1\<lparr>sp := sp gb1 + scast imm8\<rparr>;
     Some (gb2\<lparr>cycles_to_wait := cycles_to_wait gb2 + 4, pc := pc gb2 + 2\<rparr>) }"
| "exec I_INC_dd opcode imm8 imm16 gb = do {
     d \<leftarrow> dd_reg (op_dd opcode);
     let gb1 = store16 gb d (load16 gb d + 1);
     Some (gb1\<lparr>cycles_to_wait := cycles_to_wait gb1 + 2, pc := pc gb1 + 1\<rparr>) }"
| "exec I_DEC_dd opcode imm8 imm16 gb = do {
     d \<leftarrow> dd_reg (op_dd opcode);
     let gb1 = store16 gb d (load16 gb d - 1);
     Some (gb1\<lparr>cycles_to_wait := cycles_to_wait gb1 + 2, pc := pc gb1 + 1\<rparr>) }"
| "exec I_RLCA opcode imm8 imm16 gb = do {
     let result = push_bit 1 (load8 gb Reg_A) OR drop_bit 7 (load8 gb Reg_A);
     let gb1 = set_flag gb FL_C (bit result 0);
     let gb2 = set_flag gb1 FL_H False;
     let gb3 = set_flag gb2 FL_N False;
     let gb4 = set_flag gb3 FL_Z False;
     let gb5 = store8 gb4 Reg_A result;
     Some (gb5\<lparr>cycles_to_wait := cycles_to_wait gb5 + 1, pc := pc gb5 + 1\<rparr>) }"
| "exec I_RLA opcode imm8 imm16 gb = do {
     let result = push_bit 1 (load8 gb Reg_A) OR of_bool (get_flag gb FL_C);
     let gb1 = set_flag gb FL_C (bit (drop_bit 7 (load8 gb Reg_A)) 0);
     let gb2 = set_flag gb1 FL_H False;
     let gb3 = set_flag gb2 FL_N False;
     let gb4 = set_flag gb3 FL_Z False;
     let gb5 = store8 gb4 Reg_A result;
     Some (gb5\<lparr>cycles_to_wait := cycles_to_wait gb5 + 1, pc := pc gb5 + 1\<rparr>) }"
| "exec I_RRCA opcode imm8 imm16 gb = do {
     let result = push_bit 7 (load8 gb Reg_A) OR drop_bit 1 (load8 gb Reg_A);
     let gb1 = set_flag gb FL_C (bit (load8 gb Reg_A) 0);
     let gb2 = set_flag gb1 FL_H False;
     let gb3 = set_flag gb2 FL_N False;
     let gb4 = set_flag gb3 FL_Z False;
     let gb5 = store8 gb4 Reg_A result;
     Some (gb5\<lparr>cycles_to_wait := cycles_to_wait gb5 + 1, pc := pc gb5 + 1\<rparr>) }"
| "exec I_RRA opcode imm8 imm16 gb = do {
     let result = push_bit 7 (of_bool (get_flag gb FL_C)) OR drop_bit 1 (load8 gb Reg_A);
     let gb1 = set_flag gb FL_C (bit (load8 gb Reg_A) 0);
     let gb2 = set_flag gb1 FL_H False;
     let gb3 = set_flag gb2 FL_N False;
     let gb4 = set_flag gb3 FL_Z False;
     let gb5 = store8 gb4 Reg_A result;
     Some (gb5\<lparr>cycles_to_wait := cycles_to_wait gb5 + 1, pc := pc gb5 + 1\<rparr>) }"
| "exec I_CB opcode imm8 imm16 gb = do {
     ci \<leftarrow> decode_cb imm8;
     exec_cb ci imm8 gb }"
| "exec I_JP_nn opcode imm8 imm16 gb = do {
     let gb1 = gb\<lparr>cycles_to_wait := cycles_to_wait gb + 4\<rparr>;
     Some (gb1\<lparr>pc := imm16\<rparr>) }"
| "exec I_JP_cc_nn opcode imm8 imm16 gb = do {
     taken \<leftarrow> check_cc gb (op_cc opcode);
     Some (if taken then gb\<lparr>cycles_to_wait := cycles_to_wait gb + 4, pc := imm16\<rparr>
           else gb\<lparr>cycles_to_wait := cycles_to_wait gb + 3, pc := pc gb + 3\<rparr>) }"
| "exec I_JR_e opcode imm8 imm16 gb = do {
     let gb1 = gb\<lparr>cycles_to_wait := cycles_to_wait gb + 3\<rparr>;
     Some (gb1\<lparr>pc := pc gb1 + (scast imm8 + 2)\<rparr>) }"
| "exec I_JR_cc_e opcode imm8 imm16 gb = do {
     taken \<leftarrow> check_cc gb (op_cc opcode);
     Some (if taken then gb\<lparr>cycles_to_wait := cycles_to_wait gb + 3, pc := pc gb + (scast imm8 + 2)\<rparr>
           else gb\<lparr>cycles_to_wait := cycles_to_wait gb + 2, pc := pc gb + 2\<rparr>) }"
| "exec I_JP_HL opcode imm8 imm16 gb = do {
     let gb1 = gb\<lparr>pc := hl gb\<rparr>;
     Some (gb1\<lparr>cycles_to_wait := cycles_to_wait gb1 + 1\<rparr>) }"
| "exec I_CALL_nn opcode imm8 imm16 gb = do {
     let gb1 = gb\<lparr>sp := sp gb - 2\<rparr>;
     let gb2 = write_mem16 gb1 (sp gb1) (pc gb1 + 3);
     let gb3 = gb2\<lparr>pc := imm16\<rparr>;
     Some (gb3\<lparr>cycles_to_wait := cycles_to_wait gb3 + 6\<rparr>) }"
| "exec I_CALL_cc_nn opcode imm8 imm16 gb = do {
     taken \<leftarrow> check_cc gb (op_cc opcode);
     Some (if taken
           then (let gb1 = gb\<lparr>sp := sp gb - 2\<rparr>;
                     gb2 = write_mem16 gb1 (sp gb1) (pc gb1 + 3);
                     gb3 = gb2\<lparr>pc := imm16\<rparr>
                 in gb3\<lparr>cycles_to_wait := cycles_to_wait gb3 + 6\<rparr>)
           else gb\<lparr>pc := pc gb + 3, cycles_to_wait := cycles_to_wait gb + 3\<rparr>) }"
| "exec I_RET opcode imm8 imm16 gb = do {
     let gb1 = gb\<lparr>pc := read_mem16 gb (sp gb)\<rparr>;
     let gb2 = gb1\<lparr>sp := sp gb1 + 2\<rparr>;
     Some (gb2\<lparr>cycles_to_wait := cycles_to_wait gb2 + 4\<rparr>) }"
| "exec I_RETI opcode imm8 imm16 gb = do {
     let gb1 = gb\<lparr>pc := read_mem16 gb (sp gb)\<rparr>;
     let gb2 = gb1\<lparr>sp := sp gb1 + 2\<rparr>;
     let gb3 = gb2\<lparr>ime := True, need_to_do_interrupts := True\<rparr>;
     Some (gb3\<lparr>cycles_to_wait := cycles_to_wait gb3 + 4\<rparr>) }"
| "exec I_RET_cc opcode imm8 imm16 gb = do {
     taken \<leftarrow> check_cc gb (op_cc opcode);
     Some (if taken
           then (let gb1 = gb\<lparr>pc := read_mem16 gb (sp gb)\<rparr>;
                     gb2 = gb1\<lparr>sp := sp gb1 + 2\<rparr>
                 in gb2\<lparr>cycles_to_wait := cycles_to_wait gb2 + 5\<rparr>)
           else gb\<lparr>pc := pc gb + 1, cycles_to_wait := cycles_to_wait gb + 2\<rparr>) }"
| "exec I_RST opcode imm8 imm16 gb = do {
     let gb1 = write_mem16 gb (sp gb - 2) (pc gb + 1);
     let gb2 = gb1\<lparr>sp := sp gb1 - 2\<rparr>;
     let gb3 = gb2\<lparr>cycles_to_wait := cycles_to_wait gb2 + 4\<rparr>;
     Some (gb3\<lparr>pc := ucast (op_b opcode) * 8\<rparr>) }"
| "exec I_DAA opcode imm8 imm16 gb = do {
     let c_contents = get_flag gb FL_C;
     let h_contents = get_flag gb FL_H;
     let n_contents = get_flag gb FL_N;
     let a_contents = load8 gb Reg_A;
     let (addend, carry) =
           (if n_contents
            then (let addend1 = (if c_contents then 0 - 0x60 else 0 :: 8 word);
                      addend2 = (if h_contents then addend1 - 0x6 else addend1)
                  in (addend2, c_contents))
            else (let (addend1, carry1) =
                        (if c_contents \<or> a_contents > 0x99 then (0 + 0x60 :: 8 word, True)
                         else (0, c_contents));
                      addend2 =
                        (if h_contents \<or> a_contents AND 0b1111 > 0x9 then addend1 + 0x6
                         else addend1)
                  in (addend2, carry1)));
     let gb1 = set_flag gb FL_C carry;
     let gb2 = set_flag gb1 FL_H False;
     let gb3 = store8 gb2 Reg_A (a_contents + addend);
     let gb4 = set_flag gb3 FL_Z (load8 gb3 Reg_A = 0);
     Some (gb4\<lparr>cycles_to_wait := cycles_to_wait gb4 + 1, pc := pc gb4 + 1\<rparr>) }"
| "exec I_CPL opcode imm8 imm16 gb = do {
     let gb1 = store8 gb Reg_A (NOT (load8 gb Reg_A));
     let gb2 = set_flag gb1 FL_H True;
     let gb3 = set_flag gb2 FL_N True;
     Some (gb3\<lparr>cycles_to_wait := cycles_to_wait gb3 + 1, pc := pc gb3 + 1\<rparr>) }"
| "exec I_NOP opcode imm8 imm16 gb =
     Some (gb\<lparr>cycles_to_wait := cycles_to_wait gb + 1, pc := pc gb + 1\<rparr>)"
| "exec I_CCF opcode imm8 imm16 gb = do {
     let gb1 = set_flag gb FL_C (\<not> get_flag gb FL_C);
     let gb2 = set_flag gb1 FL_H False;
     let gb3 = set_flag gb2 FL_N False;
     Some (gb3\<lparr>cycles_to_wait := cycles_to_wait gb3 + 1, pc := pc gb3 + 1\<rparr>) }"
| "exec I_SCF opcode imm8 imm16 gb = do {
     let gb1 = set_flag gb FL_C True;
     let gb2 = set_flag gb1 FL_H False;
     let gb3 = set_flag gb2 FL_N False;
     Some (gb3\<lparr>cycles_to_wait := cycles_to_wait gb3 + 1, pc := pc gb3 + 1\<rparr>) }"
| "exec I_DI opcode imm8 imm16 gb = do {
     let gb1 = gb\<lparr>ime := False\<rparr>;
     Some (gb1\<lparr>cycles_to_wait := cycles_to_wait gb1 + 1, pc := pc gb1 + 1\<rparr>) }"
| "exec I_EI opcode imm8 imm16 gb = do {
     let gb1 = gb\<lparr>ime := True, need_to_do_interrupts := True\<rparr>;
     Some (gb1\<lparr>cycles_to_wait := cycles_to_wait gb1 + 1, pc := pc gb1 + 1\<rparr>) }"
| "exec I_HALT opcode imm8 imm16 gb = do {
     let gb1 = gb\<lparr>halted := True\<rparr>;
     Some (gb1\<lparr>cycles_to_wait := cycles_to_wait gb1 + 1, pc := pc gb1 + 1\<rparr>) }"
| "exec I_STOP opcode imm8 imm16 gb = do {
     let gb1 = write_mem8 gb DIVIDER_REGISTER 0;
     let gb2 = gb1\<lparr>cycles_to_wait := cycles_to_wait gb1 + 1, pc := pc gb1 + 2\<rparr>;
     Some (gb2\<lparr>halted := True\<rparr>) }"

text \<open>
  \<^verbatim>\<open>step\<close>. A halted CPU owes one cycle when it owes none, services interrupts when the
  flag asks for it, and returns before the trace and the decoding. Otherwise the
  instruction runs, and \<^verbatim>\<open>handle_interrupts\<close> after it under the same flag.
\<close>

definition step :: "gb \<Rightarrow> gb option" where
  "step gb =
    (let opcode = read_mem8 gb (pc gb);
         imm8 = read_mem8 gb (pc gb + 1);
         imm16 = read_mem16 gb (pc gb + 1)
     in if halted gb then
          (let gb1 = (if cycles_to_wait gb = 0
                      then gb\<lparr>cycles_to_wait := cycles_to_wait gb + 1\<rparr> else gb)
           in Some (if need_to_do_interrupts gb1 then handle_interrupts gb1 else gb1))
        else do {
          i \<leftarrow> decode opcode;
          gb1 \<leftarrow> exec i opcode imm8 imm16 gb;
          Some (if need_to_do_interrupts gb1 then handle_interrupts gb1 else gb1) })"

section \<open>Definitions for the statements\<close>

subsection \<open>Ordinary memory and the dispatch of the specification\<close>

text \<open>
  An address where \<^verbatim>\<open>write_mem8\<close> takes the default case of its \<^verbatim>\<open>switch\<close> and stores the
  byte: writable, and none of the ports with a case of their own.
\<close>

definition plain_ram :: "16 word \<Rightarrow> bool" where
  "plain_ram a \<longleftrightarrow>
     is_writable a \<and> a \<noteq> JOYPAD_PORT \<and> a \<noteq> SERIAL_DATA \<and> a \<noteq> DIVIDER_REGISTER \<and>
     a \<noteq> INTERRUPT_FLAGS \<and> a \<noteq> OAM_DMA_START"



subsection \<open>Predicates and encodings\<close>

text \<open>
  A function that changes nothing but \<^verbatim>\<open>screen\<close>. The renderer is made of such functions,
  and so are the loops over them.
\<close>

definition only_screen :: "(gb \<Rightarrow> gb) \<Rightarrow> bool" where
  "only_screen f \<longleftrightarrow> (\<forall>g. \<exists>s. f g = g\<lparr>screen := s\<rparr>)"

text \<open>The position in AF of the bit of each flag.\<close>

fun flag_index :: "flag \<Rightarrow> nat" where
  "flag_index FL_Z = 7"
| "flag_index FL_N = 6"
| "flag_index FL_H = 5"
| "flag_index FL_C = 4"

text \<open>The second byte of \<^verbatim>\<open>BIT b, r\<close>: the bits \<open>01 bbb rrr\<close>.\<close>

definition bit_code :: "3 word \<Rightarrow> 3 word \<Rightarrow> 8 word" where
  "bit_code b r = 0b01000000 OR push_bit 3 (ucast b) OR ucast r"

text \<open>
  The operand of \<^verbatim>\<open>BIT\<close>: the register that the code \<open>r\<close> names, and the byte at \<open>(HL)\<close>
  for the code \<open>110\<close>, which names no register.
\<close>

definition bit_operand :: "gb \<Rightarrow> 3 word \<Rightarrow> 8 word" where
  "bit_operand gb r = (case r_reg r of Some p \<Rightarrow> load8 gb p | None \<Rightarrow> read_mem8 gb (hl gb))"



text \<open>The predicate of the specification: the low nibble of F, the low byte of AF, is 0.\<close>

definition f_low_nibble_zero :: "gb \<Rightarrow> bool" where
  "f_low_nibble_zero gb \<longleftrightarrow> af gb AND 0x000F = 0"

subsection \<open>The stages of the clock\<close>

text \<open>The two stages of \<^verbatim>\<open>update_screen\<close>: the dot counter with LY and STAT, then the mode.\<close>

definition ly_stat_stage :: "gb \<Rightarrow> gb" where
  "ly_stat_stage gb0 =
    (let gb1 = gb0\<lparr>dot_count := dot_count gb0 + 16\<rparr>;
         gb2 = gb1\<lparr>dot_count := dot_count gb1 mod 70224\<rparr>;
         gb3 = write_mem8 gb2 LY (ucast (dot_count gb2 div 456))
     in if read_mem8 gb3 LY = read_mem8 gb3 LYC
        then (let gb' = write_mem8 gb3 LCD_STATUS (read_mem8 gb3 LCD_STATUS OR 0b00000100)
              in if read_mem8 gb' LCD_STATUS AND 0b01000000 \<noteq> 0
                 then request_interrupt gb' INT_STAT else gb')
        else write_mem8 gb3 LCD_STATUS (read_mem8 gb3 LCD_STATUS AND 0b11111011))"

definition mode_stage :: "gb \<Rightarrow> gb" where
  "mode_stage gb4 =
    (if dot_count gb4 \<ge> 65664 then
       (if graphics_mode gb4 \<noteq> VBLANK then draw_frame (enter_vblank gb4) else gb4)
     else if dot_count gb4 mod 456 \<ge> 248 then
       (if graphics_mode gb4 \<noteq> HBLANK then enter_hblank gb4 else gb4)
     else if dot_count gb4 mod 456 \<ge> 80 then
       (if graphics_mode gb4 \<noteq> TRANSFERRING then enter_transferring gb4 else gb4)
     else if dot_count gb4 mod 456 < 80 then
       (if graphics_mode gb4 \<noteq> SEARCHING then enter_searching gb4 else gb4)
     else gb4)"

text \<open>The stages of one iteration of \<^verbatim>\<open>wait\<close>: the counters, DIV, the timer, the PPU.\<close>

definition div_stage :: "gb \<Rightarrow> gb" where
  "div_stage gb0 =
    (let gb1 = gb0\<lparr>cycle_count := cycle_count gb0 + 1\<rparr>;
         gb2 = gb1\<lparr>cycles_to_wait := cycles_to_wait gb1 - 1\<rparr>
     in if cycle_count gb2 mod 64 = 0
        then write_mem8 gb2 DIVIDER_REGISTER (read_mem8 gb2 DIVIDER_REGISTER + 1)
        else gb2)"

definition timer_stage :: "bool \<Rightarrow> gb \<Rightarrow> gb" where
  "timer_stage timer_enabled gb3 =
    (let clocks = clocks_per_timer_increment (read_mem8 gb3 TAC)
     in if timer_enabled \<and> cycle_count gb3 mod ucast clocks = 0
        then (if read_mem8 gb3 TIMA = 0xFF
              then request_interrupt (write_mem8 gb3 TIMA (read_mem8 gb3 TMA)) INT_TIMER
              else write_mem8 gb3 TIMA (read_mem8 gb3 TIMA + 1))
        else gb3)"

definition ppu_stage :: "gb \<Rightarrow> gb" where
  "ppu_stage gb4 = (if drop_bit 7 (read_mem8 gb4 LCD_CONTROL) \<noteq> 0 then update_screen gb4 else gb4)"

subsection \<open>Example states\<close>

text \<open>
  \<open>example_gb\<close> has the registers that \<^verbatim>\<open>initialize\<close> sets and an address space of zeros;
  the other states change a few fields of it.
\<close>

definition example_gb :: gb where
  "example_gb =
     \<lparr>af = 0x01B0, bc = 0x0013, de = 0x00D8, hl = 0x014D, pc = 0x0100, sp = 0xFFFE, ime = False,
      address_space = (\<lambda>a. 0), screen = (\<lambda>r c. 0), cycles_to_wait = 0, cycle_count = 0,
      need_to_do_interrupts = False, dot_count = 0, graphics_mode = SEARCHING, halted = False,
      buttons_pressed = (\<lambda>b. True), joypad_mode = BOTH\<rparr>"

definition dma_example :: gb where
  "dma_example = example_gb\<lparr>address_space := (\<lambda>a. 0)(0xC103 := 0x42)\<rparr>"





definition no_pending_example :: gb where
  "no_pending_example =
     example_gb\<lparr>address_space := (\<lambda>a. 0)(INTERRUPT_FLAGS := 0xE1, INTERRUPT_ENABLE := 0xE2),
                ime := True, halted := True, need_to_do_interrupts := True\<rparr>"

definition div_example :: gb where
  "div_example =
     example_gb\<lparr>address_space := (\<lambda>a. 0)(DIVIDER_REGISTER := 0x18, LCD_CONTROL := 0x91),
                cycle_count := 63, cycles_to_wait := 1\<rparr>"

definition tima_example :: gb where
  "tima_example =
     example_gb\<lparr>address_space := (\<lambda>a. 0)(TAC := 0x04, TIMA := 0x00),
                cycle_count := 0, cycles_to_wait := 1\<rparr>"

definition halted_example :: gb where
  "halted_example = example_gb\<lparr>halted := True, cycles_to_wait := 3\<rparr>"

definition bit_example :: gb where
  "bit_example =
     example_gb\<lparr>address_space := (\<lambda>a. 0)(0x0100 := 0xCB, 0x0101 := 0x5A), de := 0x0800\<rparr>"





definition pop_af_example :: gb where
  "pop_af_example =
     example_gb\<lparr>address_space := (\<lambda>a. 0)(0x0100 := 0xF1, 0xD000 := 0xFF, 0xD001 := 0xFF),
                sp := 0xD000\<rparr>"

definition after_pop_af_example :: gb where
  "after_pop_af_example =
     pop_af_example\<lparr>af := 0xFFF0, sp := 0xD002, cycles_to_wait := 3, pc := 0x0101\<rparr>"

section \<open>Frame lemmas of the bus\<close>

lemma read_mem8_upd [simp]:
  "read_mem8 (gb\<lparr>af := x1\<rparr>) = read_mem8 gb"
  "read_mem8 (gb\<lparr>bc := x1\<rparr>) = read_mem8 gb"
  "read_mem8 (gb\<lparr>de := x1\<rparr>) = read_mem8 gb"
  "read_mem8 (gb\<lparr>hl := x1\<rparr>) = read_mem8 gb"
  "read_mem8 (gb\<lparr>pc := x1\<rparr>) = read_mem8 gb"
  "read_mem8 (gb\<lparr>sp := x1\<rparr>) = read_mem8 gb"
  "read_mem8 (gb\<lparr>ime := x2\<rparr>) = read_mem8 gb"
  "read_mem8 (gb\<lparr>screen := x3\<rparr>) = read_mem8 gb"
  "read_mem8 (gb\<lparr>cycles_to_wait := x4\<rparr>) = read_mem8 gb"
  "read_mem8 (gb\<lparr>cycle_count := x4\<rparr>) = read_mem8 gb"
  "read_mem8 (gb\<lparr>need_to_do_interrupts := x2\<rparr>) = read_mem8 gb"
  "read_mem8 (gb\<lparr>dot_count := x4\<rparr>) = read_mem8 gb"
  "read_mem8 (gb\<lparr>graphics_mode := x5\<rparr>) = read_mem8 gb"
  "read_mem8 (gb\<lparr>halted := x2\<rparr>) = read_mem8 gb"
  by (simp_all add: read_mem8_def fun_eq_iff)

lemma read_mem16_upd [simp]:
  "read_mem16 (gb\<lparr>af := x1\<rparr>) = read_mem16 gb"
  "read_mem16 (gb\<lparr>bc := x1\<rparr>) = read_mem16 gb"
  "read_mem16 (gb\<lparr>de := x1\<rparr>) = read_mem16 gb"
  "read_mem16 (gb\<lparr>hl := x1\<rparr>) = read_mem16 gb"
  "read_mem16 (gb\<lparr>pc := x1\<rparr>) = read_mem16 gb"
  "read_mem16 (gb\<lparr>sp := x1\<rparr>) = read_mem16 gb"
  "read_mem16 (gb\<lparr>ime := x2\<rparr>) = read_mem16 gb"
  "read_mem16 (gb\<lparr>screen := x3\<rparr>) = read_mem16 gb"
  "read_mem16 (gb\<lparr>cycles_to_wait := x4\<rparr>) = read_mem16 gb"
  "read_mem16 (gb\<lparr>cycle_count := x4\<rparr>) = read_mem16 gb"
  "read_mem16 (gb\<lparr>need_to_do_interrupts := x2\<rparr>) = read_mem16 gb"
  "read_mem16 (gb\<lparr>dot_count := x4\<rparr>) = read_mem16 gb"
  "read_mem16 (gb\<lparr>graphics_mode := x5\<rparr>) = read_mem16 gb"
  "read_mem16 (gb\<lparr>halted := x2\<rparr>) = read_mem16 gb"
  by (simp_all add: read_mem16_def fun_eq_iff)

lemma do_dma_fold_shape:
  "fold (do_dma_byte src) xs g = g\<lparr>address_space := address_space (fold (do_dma_byte src) xs g)\<rparr>"
proof (induction xs arbitrary: g)
  case Nil
  show ?case by simp
next
  case (Cons a xs)
  show ?case by (simp, subst Cons.IH) (simp add: do_dma_byte_def)
qed

lemma do_dma_shape:
  "do_dma gb src = gb\<lparr>address_space := address_space (do_dma gb src),
                       cycles_to_wait := cycles_to_wait gb + 160\<rparr>"
  unfolding do_dma_def by (subst do_dma_fold_shape) simp

lemma do_dma_frame [simp]:
  "af (do_dma gb src) = af gb"
  "bc (do_dma gb src) = bc gb"
  "de (do_dma gb src) = de gb"
  "hl (do_dma gb src) = hl gb"
  "pc (do_dma gb src) = pc gb"
  "sp (do_dma gb src) = sp gb"
  "ime (do_dma gb src) = ime gb"
  "screen (do_dma gb src) = screen gb"
  "cycle_count (do_dma gb src) = cycle_count gb"
  "need_to_do_interrupts (do_dma gb src) = need_to_do_interrupts gb"
  "dot_count (do_dma gb src) = dot_count gb"
  "graphics_mode (do_dma gb src) = graphics_mode gb"
  "halted (do_dma gb src) = halted gb"
  "buttons_pressed (do_dma gb src) = buttons_pressed gb"
  "joypad_mode (do_dma gb src) = joypad_mode gb"
  "cycles_to_wait (do_dma gb src) = cycles_to_wait gb + 160"
  by (subst do_dma_shape, simp)+

lemma write_mem8_frame [simp]:
  "af (write_mem8 gb a v) = af gb"
  "bc (write_mem8 gb a v) = bc gb"
  "de (write_mem8 gb a v) = de gb"
  "hl (write_mem8 gb a v) = hl gb"
  "pc (write_mem8 gb a v) = pc gb"
  "sp (write_mem8 gb a v) = sp gb"
  "ime (write_mem8 gb a v) = ime gb"
  "screen (write_mem8 gb a v) = screen gb"
  "cycle_count (write_mem8 gb a v) = cycle_count gb"
  "dot_count (write_mem8 gb a v) = dot_count gb"
  "graphics_mode (write_mem8 gb a v) = graphics_mode gb"
  "halted (write_mem8 gb a v) = halted gb"
  "buttons_pressed (write_mem8 gb a v) = buttons_pressed gb"
  by (simp_all add: write_mem8_def)

lemma write_mem16_frame [simp]:
  "af (write_mem16 gb a w) = af gb"
  "bc (write_mem16 gb a w) = bc gb"
  "de (write_mem16 gb a w) = de gb"
  "hl (write_mem16 gb a w) = hl gb"
  "pc (write_mem16 gb a w) = pc gb"
  "sp (write_mem16 gb a w) = sp gb"
  "ime (write_mem16 gb a w) = ime gb"
  "screen (write_mem16 gb a w) = screen gb"
  "cycle_count (write_mem16 gb a w) = cycle_count gb"
  "dot_count (write_mem16 gb a w) = dot_count gb"
  "graphics_mode (write_mem16 gb a w) = graphics_mode gb"
  "halted (write_mem16 gb a w) = halted gb"
  "buttons_pressed (write_mem16 gb a w) = buttons_pressed gb"
  by (simp_all add: write_mem16_def)

lemma write_mem8_IF:
  "write_mem8 gb INTERRUPT_FLAGS v =
     gb\<lparr>address_space := (address_space gb)(INTERRUPT_FLAGS := v), need_to_do_interrupts := True\<rparr>"
  by (simp add: write_mem8_def)

lemma request_interrupt_eq:
  "request_interrupt gb i =
     gb\<lparr>address_space :=
          (address_space gb)(INTERRUPT_FLAGS := address_space gb INTERRUPT_FLAGS OR i),
        need_to_do_interrupts := True\<rparr>"
  by (simp add: request_interrupt_def write_mem8_IF read_mem8_def)

lemma request_interrupt_frame [simp]:
  "af (request_interrupt gb i) = af gb"
  "bc (request_interrupt gb i) = bc gb"
  "de (request_interrupt gb i) = de gb"
  "hl (request_interrupt gb i) = hl gb"
  "pc (request_interrupt gb i) = pc gb"
  "sp (request_interrupt gb i) = sp gb"
  "ime (request_interrupt gb i) = ime gb"
  "screen (request_interrupt gb i) = screen gb"
  "cycle_count (request_interrupt gb i) = cycle_count gb"
  "dot_count (request_interrupt gb i) = dot_count gb"
  "graphics_mode (request_interrupt gb i) = graphics_mode gb"
  "halted (request_interrupt gb i) = halted gb"
  "buttons_pressed (request_interrupt gb i) = buttons_pressed gb"
  "cycles_to_wait (request_interrupt gb i) = cycles_to_wait gb"
  "joypad_mode (request_interrupt gb i) = joypad_mode gb"
  "need_to_do_interrupts (request_interrupt gb i)"
  by (simp_all add: request_interrupt_eq)


lemma is_writable_not_IE: "is_writable a \<Longrightarrow> a \<noteq> INTERRUPT_ENABLE"
  unfolding is_writable_def by (cases "a = INTERRUPT_ENABLE") simp_all


lemma write_mem8_plain:
  "plain_ram a \<Longrightarrow> write_mem8 gb a v = gb\<lparr>address_space := (address_space gb)(a := v)\<rparr>"
  using is_writable_not_IE [of a] by (simp add: plain_ram_def write_mem8_def)


lemma read_mem8_IF [simp]: "read_mem8 gb INTERRUPT_FLAGS = address_space gb INTERRUPT_FLAGS"
  by (simp add: read_mem8_def)

lemma read_mem8_IE [simp]: "read_mem8 gb INTERRUPT_ENABLE = address_space gb INTERRUPT_ENABLE"
  by (simp add: read_mem8_def)

section \<open>The DMA copy\<close>

lemma unat_of_nat16: "i < 160 \<Longrightarrow> unat (of_nat i :: 16 word) = i"
  by (simp add: unat_of_nat)

lemma dma_dst_unat:
  assumes i: "i < 160"
  shows "unat (OAM + (of_nat i :: 16 word)) = 0xFE00 + i"
proof -
  have "unat (OAM :: 16 word) + unat (of_nat i :: 16 word) < 2 ^ LENGTH(16)"
    using i by (simp add: unat_of_nat16)
  then have "unat (OAM + (of_nat i :: 16 word)) = unat (OAM :: 16 word) + unat (of_nat i :: 16 word)"
    by (rule unat_add_lem [THEN iffD1])
  then show ?thesis using i by (simp add: unat_of_nat16)
qed

lemma dma_src_unat:
  assumes i: "i < 160"
  shows "unat (push_bit 8 (ucast (src :: 8 word)) + (of_nat i :: 16 word)) = 256 * unat src + i"
proof -
  have s: "unat src < 256" using unsigned_less [of src, where ?'a = nat] by simp
  have "unat (ucast src :: 16 word) = take_bit 16 (unat src)" by (simp add: unsigned_ucast_eq)
  also have "\<dots> = unat src" using s by (simp add: take_bit_nat_eq_self_iff)
  finally have u: "unat (ucast src :: 16 word) = unat src" .
  have "unat (push_bit 8 (ucast src) :: 16 word) = take_bit 16 (push_bit 8 (unat (ucast src :: 16 word)))"
    by (simp add: unsigned_push_bit_eq)
  also have "\<dots> = push_bit 8 (unat src)"
    using s by (simp add: u take_bit_nat_eq_self_iff push_bit_eq_mult)
  finally have p: "unat (push_bit 8 (ucast src) :: 16 word) = 256 * unat src"
    by (simp add: push_bit_eq_mult)
  have "unat (push_bit 8 (ucast src) :: 16 word) + unat (of_nat i :: 16 word) < 2 ^ LENGTH(16)"
    using i s by (simp add: unat_of_nat16 p)
  then have "unat (push_bit 8 (ucast src) + (of_nat i :: 16 word))
      = unat (push_bit 8 (ucast src) :: 16 word) + unat (of_nat i :: 16 word)"
    by (rule unat_add_lem [THEN iffD1])
  then show ?thesis using i by (simp add: unat_of_nat16 p)
qed

lemma dma_dst_inj:
  assumes "i < 160" "n < 160" "OAM + (of_nat i :: 16 word) = OAM + of_nat n"
  shows "i = n"
proof -
  from assms(3) have "unat (OAM + (of_nat i :: 16 word)) = unat (OAM + (of_nat n :: 16 word))"
    by simp
  then show ?thesis using dma_dst_unat [OF assms(1)] dma_dst_unat [OF assms(2)] by simp
qed

lemma do_dma_byte_mem:
  "address_space (do_dma_byte src n g) a =
     (if a = OAM + of_nat n then read_mem8 g (push_bit 8 (ucast src) + of_nat n)
      else address_space g a)"
  by (simp add: do_dma_byte_def)

lemma dma_read_src:
  assumes "i < 160" "n < 160"
  shows "read_mem8 (do_dma_byte src n g) (push_bit 8 (ucast src) + of_nat i)
       = read_mem8 g (push_bit 8 (ucast src) + of_nat i)"
proof -
  define x :: "16 word" where "x = push_bit 8 (ucast src) + of_nat i"
  define e where "e = (if ECHO_RAM < x \<and> x < OAM then x - 0x2000 else x)"
  have rd: "read_mem8 h x = (if e = JOYPAD_PORT then read_mem8 h JOYPAD_PORT else address_space h e)" for h
    unfolding read_mem8_def e_def by (simp add: Let_def)
  have jp: "read_mem8 (do_dma_byte src n g) JOYPAD_PORT = read_mem8 g JOYPAD_PORT"
    by (simp add: read_mem8_def do_dma_byte_def)
  show ?thesis
  proof (cases "e = OAM + of_nat n")
    case False
    then show ?thesis unfolding x_def [symmetric] rd jp by (simp add: do_dma_byte_def)
  next
    case True
    have ne: "\<not> (ECHO_RAM < x \<and> x < OAM)"
    proof
      assume a: "ECHO_RAM < x \<and> x < OAM"
      then have "x - 0x2000 = OAM + of_nat n" using True unfolding e_def by (simp only: simp_thms if_True)
      then have 1: "unat (x - 0x2000) = 0xFE00 + n" using dma_dst_unat [OF assms(2)] by simp
      have "0x2000 \<le> x" using a by (simp add: word_le_nat_alt word_less_nat_alt)
      then have 2: "unat (x - 0x2000) = unat x - 0x2000" by (simp add: unat_sub)
      have 3: "unat x < 0xFE00" using a by (simp add: word_less_nat_alt)
      from 1 2 3 show False by simp
    qed
    then have "x = OAM + of_nat n" using True unfolding e_def by (simp only: if_False)
    then have "unat x = unat (OAM + of_nat n :: 16 word)" by simp
    then have "256 * unat src + i = 0xFE00 + n"
      unfolding x_def using dma_src_unat [OF assms(1), of src] dma_dst_unat [OF assms(2)] by simp
    moreover have "unat src < 256" using unsigned_less [of src, where ?'a = nat] by simp
    ultimately have "i = n"
    proof -
      assume eq: "256 * unat src + i = 0xFE00 + n" and lt: "unat src < 256"
      have "\<not> unat src \<le> 253" using eq assms by linarith
      moreover have "\<not> 255 \<le> unat src" using eq assms by linarith
      ultimately have "unat src = 254" by linarith
      then show "i = n" using eq by simp
    qed
    then have L: "read_mem8 (do_dma_byte src n g) x =
        (if e = JOYPAD_PORT then read_mem8 g JOYPAD_PORT else read_mem8 g x)"
      using True by (simp add: rd [of "do_dma_byte src n g"] jp) (simp add: do_dma_byte_def x_def)
    have R: "e = JOYPAD_PORT \<Longrightarrow> read_mem8 g x = read_mem8 g JOYPAD_PORT" by (simp add: rd)
    show ?thesis unfolding x_def [symmetric] L using R by simp
  qed
qed

lemma dma_fold_read_src:
  assumes "\<forall>n\<in>set ns. n < 160" "i < 160"
  shows "read_mem8 (fold (do_dma_byte src) ns g) (push_bit 8 (ucast src) + of_nat i)
       = read_mem8 g (push_bit 8 (ucast src) + of_nat i)"
  using assms
proof (induction ns arbitrary: g)
  case Nil
  show ?case by simp
next
  case (Cons n ns)
  then show ?case by (simp add: dma_read_src)
qed

lemma dma_fold_oam:
  assumes "n \<le> 160" "i < n"
  shows "address_space (fold (do_dma_byte src) [0..<n] g) (OAM + of_nat i)
       = read_mem8 g (push_bit 8 (ucast src) + of_nat i)"
  using assms
proof (induction n)
  case 0
  then show ?case by simp
next
  case (Suc n)
  let ?g = "fold (do_dma_byte src) [0..<n] g"
  have n: "n < 160" using Suc.prems by simp
  have f: "fold (do_dma_byte src) [0..<Suc n] g = do_dma_byte src n ?g" by simp
  show ?case
  proof (cases "i = n")
    case True
    have "read_mem8 ?g (push_bit 8 (ucast src) + of_nat n)
        = read_mem8 g (push_bit 8 (ucast src) + of_nat n)"
      using n by (intro dma_fold_read_src) simp_all
    then show ?thesis unfolding f True by (simp add: do_dma_byte_mem)
  next
    case False
    then have i: "i < n" using Suc.prems by simp
    then have "OAM + (of_nat i :: 16 word) \<noteq> OAM + of_nat n"
      using dma_dst_inj [of i n] n by auto
    then show ?thesis unfolding f using Suc.IH i n by (simp add: do_dma_byte_mem)
  qed
qed

lemma do_dma_oam:
  assumes "i < 0xA0"
  shows "address_space (do_dma gb src) (OAM + of_nat i) = read_mem8 gb (push_bit 8 (ucast src) + of_nat i)"
  using assms unfolding do_dma_def by (simp add: dma_fold_oam)

lemma do_dma_read_src:
  assumes "i < 0xA0"
  shows "read_mem8 (do_dma gb src) (push_bit 8 (ucast src) + of_nat i)
       = read_mem8 gb (push_bit 8 (ucast src) + of_nat i)"
  using assms unfolding do_dma_def by (simp add: dma_fold_read_src)

lemma write_mem8_dma: "write_mem8 gb OAM_DMA_START X = do_dma gb X"
  by (simp add: write_mem8_def)

section \<open>Selecting an interrupt\<close>

lemma bit_0x1F: "bit (0x1F :: 8 word) j \<longleftrightarrow> j < 5"
proof -
  have "(0x1F :: 8 word) = mask 5" by (simp add: mask_eq_exp_minus_1)
  then show ?thesis by (simp only: bit_mask_iff) auto
qed

lemma pending_bits:
  fixes r e :: "8 word"
  shows "r AND e AND 0x1F = 0 \<longleftrightarrow> (\<forall>j<5. \<not> (bit r j \<and> bit e j))"
proof
  assume a: "r AND e AND 0x1F = 0"
  show "\<forall>j<5. \<not> (bit r j \<and> bit e j)"
  proof (intro allI impI)
    fix j :: nat assume "j < 5"
    have "bit (r AND e AND 0x1F) j = bit (0 :: 8 word) j" by (simp only: a)
    with \<open>j < 5\<close> show "\<not> (bit r j \<and> bit e j)"
      by (simp only: bit_and_iff bit_0x1F) simp
  qed
next
  assume a: "\<forall>j<5. \<not> (bit r j \<and> bit e j)"
  show "r AND e AND 0x1F = 0"
    by (rule bit_eqI) (use a in \<open>simp only: bit_and_iff bit_0x1F, auto\<close>)
qed

lemma select_interrupt_none:
  "r AND e AND 0x1F = 0 \<Longrightarrow> select_interrupt r e = (0xFFFF, None)"
  unfolding pending_bits
  by (simp add: select_interrupt_def Let_def bit_drop_bit_eq)




text \<open>
  Claim C6. Immediately after a write of \<open>X\<close> to \<open>0xFF46\<close>, each of the 160 bytes of OAM
  equals the byte that \<^verbatim>\<open>read_mem8\<close> returns at \<open>X * 0x100 + i\<close>, in the state after the
  write as in the state before it, and \<^verbatim>\<open>cycles_to_wait\<close> has grown by 160 (the addition
  of the \<^verbatim>\<open>uint64_t\<close> field).
\<close>

theorem C6_dma:
  assumes "i < 0xA0"
  shows "address_space (write_mem8 gb OAM_DMA_START X) (OAM + of_nat i)
           = read_mem8 (write_mem8 gb OAM_DMA_START X) (push_bit 8 (ucast X) + of_nat i)
       \<and> address_space (write_mem8 gb OAM_DMA_START X) (OAM + of_nat i)
           = read_mem8 gb (push_bit 8 (ucast X) + of_nat i)
       \<and> cycles_to_wait (write_mem8 gb OAM_DMA_START X) = cycles_to_wait gb + 160"
  unfolding write_mem8_dma using assms
  by (simp only: do_dma_oam do_dma_read_src do_dma_frame)

theorem C6_dma_witness:
  "(3 :: nat) < 0xA0
   \<and> address_space (write_mem8 dma_example OAM_DMA_START 0xC1) 0xFE03 = 0x42
   \<and> read_mem8 (write_mem8 dma_example OAM_DMA_START 0xC1) 0xC103 = 0x42
   \<and> cycles_to_wait (write_mem8 dma_example OAM_DMA_START 0xC1) = 160"
proof -
  have h: "(3 :: nat) < 0xA0" by simp
  have r: "read_mem8 dma_example 0xC103 = 0x42"
    by (simp add: read_mem8_def dma_example_def example_gb_def)
  have c: "cycles_to_wait dma_example = 0" by (simp add: dma_example_def example_gb_def)
  from C6_dma [OF h, of dma_example "0xC1"] r c
  have "address_space (write_mem8 dma_example OAM_DMA_START 0xC1) 0xFE03 = 0x42"
    and "address_space (write_mem8 dma_example OAM_DMA_START 0xC1) 0xFE03
           = read_mem8 (write_mem8 dma_example OAM_DMA_START 0xC1) 0xC103"
    and "cycles_to_wait (write_mem8 dma_example OAM_DMA_START 0xC1) = 160"
    by auto
  then show ?thesis by simp
qed

section \<open>Frame lemmas of the PPU and the clock\<close>


lemma only_screenI: "(\<And>g. f g = g\<lparr>screen := s g\<rparr>) \<Longrightarrow> only_screen f"
  unfolding only_screen_def by blast

lemma only_screenE:
  assumes "only_screen f"
  obtains s where "f g = g\<lparr>screen := s\<rparr>"
  using assms unfolding only_screen_def by blast

lemma only_screen_id: "only_screen (\<lambda>g. g)"
  unfolding only_screen_def
proof
  fix g :: gb
  have "g = g\<lparr>screen := screen g\<rparr>" by simp
  then show "\<exists>s. g = g\<lparr>screen := s\<rparr>" by blast
qed

lemma only_screen_comp:
  assumes "only_screen f" "only_screen h"
  shows "only_screen (\<lambda>g. h (f g))"
  unfolding only_screen_def
proof
  fix g
  obtain s where s: "f g = g\<lparr>screen := s\<rparr>" by (rule only_screenE [OF assms(1)])
  obtain t where t: "h (f g) = (f g)\<lparr>screen := t\<rparr>" by (rule only_screenE [OF assms(2)])
  have "h (f g) = g\<lparr>screen := t\<rparr>" using t s by simp
  then show "\<exists>s. h (f g) = g\<lparr>screen := s\<rparr>" by blast
qed

lemma only_screen_fold:
  assumes "\<And>x. only_screen (f x)"
  shows "only_screen (fold f xs)"
proof (induction xs)
  case Nil
  show ?case using only_screen_id by (simp add: id_def)
next
  case (Cons x xs)
  have "only_screen (\<lambda>g. fold f xs (f x g))"
    by (rule only_screen_comp [OF assms Cons.IH])
  then show ?case by (simp add: comp_def)
qed

lemma only_screen_if:
  assumes "only_screen f" "only_screen h"
  shows "only_screen (\<lambda>g. if c g then f g else h g)"
  unfolding only_screen_def
proof
  fix g
  show "\<exists>s. (if c g then f g else h g) = g\<lparr>screen := s\<rparr>"
    using assms unfolding only_screen_def by (cases "c g") simp_all
qed

lemma only_screen_render_pixel:
  "only_screen (render_pixel start_y start_x palette_address is_sprite_tile x_flip curr_y tile_data j)"
  unfolding render_pixel_def Let_def
  by (rule only_screen_if [OF _ only_screen_id]) (rule only_screenI, rule refl)

lemma only_screen_render_row:
  "only_screen (render_row start_y start_x tile_address palette_address is_sprite_tile y_flip x_flip i)"
  unfolding only_screen_def
proof
  fix g
  show "\<exists>s. render_row start_y start_x tile_address palette_address is_sprite_tile y_flip x_flip i g
           = g\<lparr>screen := s\<rparr>"
    unfolding render_row_def Let_def
    by (rule only_screenE [OF only_screen_fold [of "render_pixel a b c d e cy td" for a b c d e cy td,
          OF only_screen_render_pixel]]) blast
qed

lemma only_screen_render_tile:
  "only_screen (\<lambda>g. render_tile g start_y start_x tile_address palette_address is_sprite_tile y_flip x_flip)"
  unfolding render_tile_def by (rule only_screen_fold [OF only_screen_render_row])

lemma only_screen_render_tilemap_entry:
  "only_screen (render_tilemap_entry addressing_mode tile_map palette_address origin_y origin_x i)"
  unfolding only_screen_def
proof
  fix g
  show "\<exists>s. render_tilemap_entry addressing_mode tile_map palette_address origin_y origin_x i g
           = g\<lparr>screen := s\<rparr>"
    unfolding render_tilemap_entry_def
    using only_screen_render_tile unfolding only_screen_def
    by (cases addressing_mode) simp_all
qed

lemma only_screen_render_tilemap:
  "only_screen (\<lambda>g. render_tilemap g addressing_mode tile_map palette_address origin_y origin_x)"
  unfolding render_tilemap_def by (rule only_screen_fold [OF only_screen_render_tilemap_entry])

lemma only_screen_render_background: "only_screen render_background"
  unfolding only_screen_def
proof
  fix g
  show "\<exists>s. render_background g = g\<lparr>screen := s\<rparr>"
    unfolding render_background_def Let_def
    using only_screen_render_tilemap unfolding only_screen_def by blast
qed

lemma only_screen_render_window: "only_screen render_window"
  unfolding only_screen_def
proof
  fix g
  show "\<exists>s. render_window g = g\<lparr>screen := s\<rparr>"
    unfolding render_window_def Let_def
    using only_screen_render_tilemap unfolding only_screen_def by blast
qed

lemma only_screen_render_sprite: "only_screen (\<lambda>g. render_sprite g sprite_address)"
  unfolding only_screen_def
proof
  fix g
  show "\<exists>s. render_sprite g sprite_address = g\<lparr>screen := s\<rparr>"
    unfolding render_sprite_def Let_def
    using only_screen_render_tile unfolding only_screen_def by blast
qed

declare render_sprites_from.simps [simp del]

lemma render_sprites_from_shape: "\<exists>s. render_sprites_from i g = g\<lparr>screen := s\<rparr>"
proof (induction i g rule: render_sprites_from.induct)
  case (1 i gb)
  let ?base = "OAM + 4 * of_nat i :: 16 word"
  let ?g2 = "render_sprite (render_sprite gb (?base - ?base mod 2)) (?base - ?base mod 2 + 1)"
  let ?g1 = "render_sprite gb ?base"
  obtain s2 where s2: "?g2 = gb\<lparr>screen := s2\<rparr>"
    by (rule only_screenE [OF only_screen_comp [OF only_screen_render_sprite only_screen_render_sprite]])
  obtain s1 where s1: "?g1 = gb\<lparr>screen := s1\<rparr>"
    by (rule only_screenE [OF only_screen_render_sprite])
  show ?case
  proof (cases "i < 40")
    case False
    then have "render_sprites_from i gb = gb" by (subst render_sprites_from.simps) simp
    then have "render_sprites_from i gb = gb\<lparr>screen := screen gb\<rparr>" by simp
    then show ?thesis by blast
  next
    case True
    show ?thesis
    proof (cases "bit (drop_bit 2 (read_mem8 gb LCD_CONTROL)) 0")
      case b: True
      have A: "render_sprites_from i gb = render_sprites_from (i + 1 + 1) ?g2"
        using True b by (subst render_sprites_from.simps) (simp add: Let_def)
      obtain t where B: "render_sprites_from (i + 1 + 1) ?g2 = ?g2\<lparr>screen := t\<rparr>"
        using "1.IH"(1) [OF True refl refl b] by blast
      from A B have C: "render_sprites_from i gb = ?g2\<lparr>screen := t\<rparr>" by (rule trans)
      have D: "?g2\<lparr>screen := t\<rparr> = gb\<lparr>screen := t\<rparr>" by (subst s2) simp
      from C D have "render_sprites_from i gb = gb\<lparr>screen := t\<rparr>" by (rule trans)
      then show ?thesis by blast
    next
      case b: False
      have A: "render_sprites_from i gb = render_sprites_from (i + 1) ?g1"
        using True b by (subst render_sprites_from.simps) (simp add: Let_def)
      obtain t where B: "render_sprites_from (i + 1) ?g1 = ?g1\<lparr>screen := t\<rparr>"
        using "1.IH"(2) [OF True refl refl b] by blast
      from A B have C: "render_sprites_from i gb = ?g1\<lparr>screen := t\<rparr>" by (rule trans)
      have D: "?g1\<lparr>screen := t\<rparr> = gb\<lparr>screen := t\<rparr>" by (subst s1) simp
      from C D have "render_sprites_from i gb = gb\<lparr>screen := t\<rparr>" by (rule trans)
      then show ?thesis by blast
    qed
  qed
qed

lemma only_screen_render_sprites: "only_screen render_sprites"
  unfolding render_sprites_def only_screen_def using render_sprites_from_shape by blast

lemma only_screen_draw_frame: "only_screen draw_frame"
proof -
  have w: "only_screen (\<lambda>g. if bit (drop_bit 5 (read_mem8 g LCD_CONTROL)) 0
                             then render_window (render_background g) else render_background g)"
    by (rule only_screen_if
          [OF only_screen_comp [OF only_screen_render_background only_screen_render_window]
              only_screen_render_background])
  show ?thesis
    unfolding only_screen_def
  proof
    fix g
    obtain s1 where bg: "render_background g = g\<lparr>screen := s1\<rparr>"
      by (rule only_screenE [OF only_screen_render_background])
    obtain s2 where bw: "render_window (g\<lparr>screen := s1\<rparr>) = g\<lparr>screen := s1\<rparr>\<lparr>screen := s2\<rparr>"
      by (rule only_screenE [OF only_screen_render_window])
    define g1 where "g1 = (if bit (read_mem8 g LCD_CONTROL) 0
                  then (let gb' = render_background g
                        in if bit (drop_bit 5 (read_mem8 g LCD_CONTROL)) 0
                           then render_window gb' else gb')
                  else g)"
    have "g1 = g\<lparr>screen := s2\<rparr> \<or> g1 = g\<lparr>screen := s1\<rparr> \<or> g1 = g\<lparr>screen := screen g\<rparr>"
      unfolding g1_def Let_def bg bw by simp
    then obtain s where g1: "g1 = g\<lparr>screen := s\<rparr>" by blast
    obtain t where sp: "render_sprites g1 = g1\<lparr>screen := t\<rparr>"
      by (rule only_screenE [OF only_screen_render_sprites])
    have d: "draw_frame g = (if bit (drop_bit 1 (read_mem8 g LCD_CONTROL)) 0 then render_sprites g1 else g1)"
      unfolding draw_frame_def g1_def Let_def by simp
    have "draw_frame g = g\<lparr>screen := t\<rparr> \<or> draw_frame g = g\<lparr>screen := s\<rparr>"
      by (simp only: d sp) (simp add: g1)
    then show "\<exists>s. draw_frame g = g\<lparr>screen := s\<rparr>" by blast
  qed
qed

lemma draw_frame_frame [simp]:
  "af (draw_frame gb) = af gb"
  "bc (draw_frame gb) = bc gb"
  "de (draw_frame gb) = de gb"
  "hl (draw_frame gb) = hl gb"
  "pc (draw_frame gb) = pc gb"
  "sp (draw_frame gb) = sp gb"
  "ime (draw_frame gb) = ime gb"
  "address_space (draw_frame gb) = address_space gb"
  "cycles_to_wait (draw_frame gb) = cycles_to_wait gb"
  "cycle_count (draw_frame gb) = cycle_count gb"
  "need_to_do_interrupts (draw_frame gb) = need_to_do_interrupts gb"
  "dot_count (draw_frame gb) = dot_count gb"
  "graphics_mode (draw_frame gb) = graphics_mode gb"
  "halted (draw_frame gb) = halted gb"
  "buttons_pressed (draw_frame gb) = buttons_pressed gb"
  "joypad_mode (draw_frame gb) = joypad_mode gb"
  proof -
  obtain s where s: "draw_frame gb = gb\<lparr>screen := s\<rparr>" by (rule only_screenE [OF only_screen_draw_frame])
  show "af (draw_frame gb) = af gb"
       "bc (draw_frame gb) = bc gb"
       "de (draw_frame gb) = de gb"
       "hl (draw_frame gb) = hl gb"
       "pc (draw_frame gb) = pc gb"
       "sp (draw_frame gb) = sp gb"
       "ime (draw_frame gb) = ime gb"
       "address_space (draw_frame gb) = address_space gb"
       "cycles_to_wait (draw_frame gb) = cycles_to_wait gb"
       "cycle_count (draw_frame gb) = cycle_count gb"
       "need_to_do_interrupts (draw_frame gb) = need_to_do_interrupts gb"
       "dot_count (draw_frame gb) = dot_count gb"
       "graphics_mode (draw_frame gb) = graphics_mode gb"
       "halted (draw_frame gb) = halted gb"
       "buttons_pressed (draw_frame gb) = buttons_pressed gb"
       "joypad_mode (draw_frame gb) = joypad_mode gb"
    unfolding s by simp_all
qed

lemma plain_ram_io [simp]:
  "plain_ram LY" "plain_ram LCD_STATUS" "plain_ram TIMA"
  by (simp_all add: plain_ram_def is_writable_def)

lemma write_mem8_DIV:
  "write_mem8 gb DIVIDER_REGISTER v =
     gb\<lparr>address_space := (address_space gb)(DIVIDER_REGISTER := 0)\<rparr>"
  by (simp add: write_mem8_def)

lemma enter_hblank_frame [simp]:
  "af (enter_hblank gb) = af gb"
  "bc (enter_hblank gb) = bc gb"
  "de (enter_hblank gb) = de gb"
  "hl (enter_hblank gb) = hl gb"
  "pc (enter_hblank gb) = pc gb"
  "sp (enter_hblank gb) = sp gb"
  "ime (enter_hblank gb) = ime gb"
  "cycles_to_wait (enter_hblank gb) = cycles_to_wait gb"
  "cycle_count (enter_hblank gb) = cycle_count gb"
  "halted (enter_hblank gb) = halted gb"
  "buttons_pressed (enter_hblank gb) = buttons_pressed gb"
  "joypad_mode (enter_hblank gb) = joypad_mode gb"
  "screen (enter_hblank gb) = screen gb"
  "dot_count (enter_hblank gb) = dot_count gb"
  by (simp_all add: enter_hblank_def Let_def request_interrupt_eq)

lemma enter_vblank_frame [simp]:
  "af (enter_vblank gb) = af gb"
  "bc (enter_vblank gb) = bc gb"
  "de (enter_vblank gb) = de gb"
  "hl (enter_vblank gb) = hl gb"
  "pc (enter_vblank gb) = pc gb"
  "sp (enter_vblank gb) = sp gb"
  "ime (enter_vblank gb) = ime gb"
  "cycles_to_wait (enter_vblank gb) = cycles_to_wait gb"
  "cycle_count (enter_vblank gb) = cycle_count gb"
  "halted (enter_vblank gb) = halted gb"
  "buttons_pressed (enter_vblank gb) = buttons_pressed gb"
  "joypad_mode (enter_vblank gb) = joypad_mode gb"
  "screen (enter_vblank gb) = screen gb"
  "dot_count (enter_vblank gb) = dot_count gb"
  by (simp_all add: enter_vblank_def Let_def request_interrupt_eq)

lemma enter_searching_frame [simp]:
  "af (enter_searching gb) = af gb"
  "bc (enter_searching gb) = bc gb"
  "de (enter_searching gb) = de gb"
  "hl (enter_searching gb) = hl gb"
  "pc (enter_searching gb) = pc gb"
  "sp (enter_searching gb) = sp gb"
  "ime (enter_searching gb) = ime gb"
  "cycles_to_wait (enter_searching gb) = cycles_to_wait gb"
  "cycle_count (enter_searching gb) = cycle_count gb"
  "halted (enter_searching gb) = halted gb"
  "buttons_pressed (enter_searching gb) = buttons_pressed gb"
  "joypad_mode (enter_searching gb) = joypad_mode gb"
  "screen (enter_searching gb) = screen gb"
  "dot_count (enter_searching gb) = dot_count gb"
  by (simp_all add: enter_searching_def Let_def request_interrupt_eq)

lemma enter_transferring_frame [simp]:
  "af (enter_transferring gb) = af gb"
  "bc (enter_transferring gb) = bc gb"
  "de (enter_transferring gb) = de gb"
  "hl (enter_transferring gb) = hl gb"
  "pc (enter_transferring gb) = pc gb"
  "sp (enter_transferring gb) = sp gb"
  "ime (enter_transferring gb) = ime gb"
  "cycles_to_wait (enter_transferring gb) = cycles_to_wait gb"
  "cycle_count (enter_transferring gb) = cycle_count gb"
  "halted (enter_transferring gb) = halted gb"
  "buttons_pressed (enter_transferring gb) = buttons_pressed gb"
  "joypad_mode (enter_transferring gb) = joypad_mode gb"
  "screen (enter_transferring gb) = screen gb"
  "dot_count (enter_transferring gb) = dot_count gb"
  by (simp_all add: enter_transferring_def Let_def request_interrupt_eq)


lemma update_screen_stages: "update_screen gb = mode_stage (ly_stat_stage gb)"
  by (simp only: update_screen_def mode_stage_def ly_stat_stage_def Let_def)

lemma ly_stat_stage_frame [simp]:
  "af (ly_stat_stage gb) = af gb"
  "bc (ly_stat_stage gb) = bc gb"
  "de (ly_stat_stage gb) = de gb"
  "hl (ly_stat_stage gb) = hl gb"
  "pc (ly_stat_stage gb) = pc gb"
  "sp (ly_stat_stage gb) = sp gb"
  "ime (ly_stat_stage gb) = ime gb"
  "cycles_to_wait (ly_stat_stage gb) = cycles_to_wait gb"
  "cycle_count (ly_stat_stage gb) = cycle_count gb"
  "halted (ly_stat_stage gb) = halted gb"
  "buttons_pressed (ly_stat_stage gb) = buttons_pressed gb"
  "joypad_mode (ly_stat_stage gb) = joypad_mode gb"
  "screen (ly_stat_stage gb) = screen gb"
  "graphics_mode (ly_stat_stage gb) = graphics_mode gb"
  by (simp_all add: ly_stat_stage_def Let_def write_mem8_plain request_interrupt_eq)

lemma mode_stage_frame [simp]:
  "af (mode_stage gb) = af gb"
  "bc (mode_stage gb) = bc gb"
  "de (mode_stage gb) = de gb"
  "hl (mode_stage gb) = hl gb"
  "pc (mode_stage gb) = pc gb"
  "sp (mode_stage gb) = sp gb"
  "ime (mode_stage gb) = ime gb"
  "cycles_to_wait (mode_stage gb) = cycles_to_wait gb"
  "cycle_count (mode_stage gb) = cycle_count gb"
  "halted (mode_stage gb) = halted gb"
  "buttons_pressed (mode_stage gb) = buttons_pressed gb"
  "joypad_mode (mode_stage gb) = joypad_mode gb"
  "dot_count (mode_stage gb) = dot_count gb"
  by (simp_all add: mode_stage_def)

lemma update_screen_frame [simp]:
  "af (update_screen gb) = af gb"
  "bc (update_screen gb) = bc gb"
  "de (update_screen gb) = de gb"
  "hl (update_screen gb) = hl gb"
  "pc (update_screen gb) = pc gb"
  "sp (update_screen gb) = sp gb"
  "ime (update_screen gb) = ime gb"
  "cycles_to_wait (update_screen gb) = cycles_to_wait gb"
  "cycle_count (update_screen gb) = cycle_count gb"
  "halted (update_screen gb) = halted gb"
  "buttons_pressed (update_screen gb) = buttons_pressed gb"
  "joypad_mode (update_screen gb) = joypad_mode gb"
  by (simp_all add: update_screen_stages)


lemma wait_cycle_stages:
  "wait_cycle timer_enabled gb = ppu_stage (timer_stage timer_enabled (div_stage gb))"
  by (simp only: wait_cycle_def div_stage_def timer_stage_def ppu_stage_def Let_def)

lemma div_stage_frame [simp]:
  "af (div_stage gb) = af gb"
  "bc (div_stage gb) = bc gb"
  "de (div_stage gb) = de gb"
  "hl (div_stage gb) = hl gb"
  "pc (div_stage gb) = pc gb"
  "sp (div_stage gb) = sp gb"
  "ime (div_stage gb) = ime gb"
  "halted (div_stage gb) = halted gb"
  "buttons_pressed (div_stage gb) = buttons_pressed gb"
  "joypad_mode (div_stage gb) = joypad_mode gb"
  "screen (div_stage gb) = screen gb"
  "graphics_mode (div_stage gb) = graphics_mode gb"
  "dot_count (div_stage gb) = dot_count gb"
  "need_to_do_interrupts (div_stage gb) = need_to_do_interrupts gb"
  "cycles_to_wait (div_stage gb) = cycles_to_wait gb - 1"
  "cycle_count (div_stage gb) = cycle_count gb + 1"
  by (simp_all add: div_stage_def Let_def write_mem8_DIV)

lemma timer_stage_frame [simp]:
  "af (timer_stage te gb) = af gb"
  "bc (timer_stage te gb) = bc gb"
  "de (timer_stage te gb) = de gb"
  "hl (timer_stage te gb) = hl gb"
  "pc (timer_stage te gb) = pc gb"
  "sp (timer_stage te gb) = sp gb"
  "ime (timer_stage te gb) = ime gb"
  "cycles_to_wait (timer_stage te gb) = cycles_to_wait gb"
  "cycle_count (timer_stage te gb) = cycle_count gb"
  "halted (timer_stage te gb) = halted gb"
  "buttons_pressed (timer_stage te gb) = buttons_pressed gb"
  "joypad_mode (timer_stage te gb) = joypad_mode gb"
  "screen (timer_stage te gb) = screen gb"
  "graphics_mode (timer_stage te gb) = graphics_mode gb"
  "dot_count (timer_stage te gb) = dot_count gb"
  by (simp_all add: timer_stage_def Let_def write_mem8_plain request_interrupt_eq)

lemma ppu_stage_frame [simp]:
  "af (ppu_stage gb) = af gb"
  "bc (ppu_stage gb) = bc gb"
  "de (ppu_stage gb) = de gb"
  "hl (ppu_stage gb) = hl gb"
  "pc (ppu_stage gb) = pc gb"
  "sp (ppu_stage gb) = sp gb"
  "ime (ppu_stage gb) = ime gb"
  "cycles_to_wait (ppu_stage gb) = cycles_to_wait gb"
  "cycle_count (ppu_stage gb) = cycle_count gb"
  "halted (ppu_stage gb) = halted gb"
  "buttons_pressed (ppu_stage gb) = buttons_pressed gb"
  "joypad_mode (ppu_stage gb) = joypad_mode gb"
  by (simp_all add: ppu_stage_def)

lemma wait_cycle_frame [simp]:
  "af (wait_cycle te gb) = af gb"
  "bc (wait_cycle te gb) = bc gb"
  "de (wait_cycle te gb) = de gb"
  "hl (wait_cycle te gb) = hl gb"
  "pc (wait_cycle te gb) = pc gb"
  "sp (wait_cycle te gb) = sp gb"
  "ime (wait_cycle te gb) = ime gb"
  "halted (wait_cycle te gb) = halted gb"
  "buttons_pressed (wait_cycle te gb) = buttons_pressed gb"
  "joypad_mode (wait_cycle te gb) = joypad_mode gb"
  "cycles_to_wait (wait_cycle te gb) = cycles_to_wait gb - 1"
  "cycle_count (wait_cycle te gb) = cycle_count gb + 1"
  by (simp_all add: wait_cycle_stages)


termination wait_loop
proof (relation "measure (\<lambda>(te, gb). unat (cycles_to_wait gb))")
  show "wf (measure (\<lambda>(te, gb). unat (cycles_to_wait gb)))" by simp
next
  fix timer_enabled :: bool and gb :: gb
  assume "0 < cycles_to_wait gb"
  then have "cycles_to_wait gb \<noteq> 0" by auto
  then have "unat (cycles_to_wait gb - 1) < unat (cycles_to_wait gb)"
    by (simp add: unat_minus_one unat_gt_0)
  then show "((timer_enabled, wait_cycle timer_enabled gb), (timer_enabled, gb))
        \<in> measure (\<lambda>(te, gb). unat (cycles_to_wait gb))"
    by simp
qed

declare wait_loop.simps [simp del]


section \<open>Interrupt dispatch\<close>






















text \<open>
  Claim C9. With IME set and none of the bits 0 to 4 set in \<open>IF AND IE\<close>, a run of
  \<^verbatim>\<open>handle_interrupts\<close> adds 5 to \<^verbatim>\<open>cycles_to_wait\<close> and clears \<^verbatim>\<open>need_to_do_interrupts\<close>;
  PC, SP, IF, IE, IME, the registers AF, BC, DE, HL and the whole address space are
  unchanged. (HALTED is cleared when one of the bits 5 to 7 is set in \<open>IF AND IE\<close>.)
\<close>

theorem C9_no_interrupt_to_dispatch:
  assumes "ime gb"
    and "read_mem8 gb INTERRUPT_FLAGS AND read_mem8 gb INTERRUPT_ENABLE AND 0x1F = 0"
  shows "cycles_to_wait (handle_interrupts gb) = cycles_to_wait gb + 5
       \<and> \<not> need_to_do_interrupts (handle_interrupts gb)
       \<and> pc (handle_interrupts gb) = pc gb
       \<and> sp (handle_interrupts gb) = sp gb
       \<and> read_mem8 (handle_interrupts gb) INTERRUPT_FLAGS = read_mem8 gb INTERRUPT_FLAGS
       \<and> read_mem8 (handle_interrupts gb) INTERRUPT_ENABLE = read_mem8 gb INTERRUPT_ENABLE
       \<and> ime (handle_interrupts gb) = ime gb
       \<and> af (handle_interrupts gb) = af gb
       \<and> bc (handle_interrupts gb) = bc gb
       \<and> de (handle_interrupts gb) = de gb
       \<and> hl (handle_interrupts gb) = hl gb
       \<and> address_space (handle_interrupts gb) = address_space gb"
proof -
  have sel: "select_interrupt (read_mem8 gb INTERRUPT_FLAGS) (read_mem8 gb INTERRUPT_ENABLE)
               = (0xFFFF, None)"
    by (rule select_interrupt_none [OF assms(2)])
  have "handle_interrupts gb =
        gb\<lparr>halted := halted gb \<and> read_mem8 gb INTERRUPT_FLAGS AND read_mem8 gb INTERRUPT_ENABLE = 0,
           cycles_to_wait := cycles_to_wait gb + 5, need_to_do_interrupts := False\<rparr>"
    using assms(1) unfolding handle_interrupts_def Let_def sel by simp
  then show ?thesis by simp
qed

theorem C9_no_interrupt_to_dispatch_witness:
  "ime no_pending_example
   \<and> read_mem8 no_pending_example INTERRUPT_FLAGS
        AND read_mem8 no_pending_example INTERRUPT_ENABLE AND 0x1F = 0
   \<and> cycles_to_wait (handle_interrupts no_pending_example) = 5
   \<and> \<not> need_to_do_interrupts (handle_interrupts no_pending_example)
   \<and> pc (handle_interrupts no_pending_example) = 0x0100
   \<and> sp (handle_interrupts no_pending_example) = 0xFFFE
   \<and> read_mem8 (handle_interrupts no_pending_example) INTERRUPT_FLAGS = 0xE1
   \<and> read_mem8 (handle_interrupts no_pending_example) INTERRUPT_ENABLE = 0xE2
   \<and> ime (handle_interrupts no_pending_example)"
proof -
  have h1: "ime no_pending_example" by (simp add: no_pending_example_def example_gb_def)
  have r: "read_mem8 no_pending_example INTERRUPT_FLAGS = 0xE1"
    "read_mem8 no_pending_example INTERRUPT_ENABLE = 0xE2"
    by (simp_all add: no_pending_example_def example_gb_def)
  have h2: "read_mem8 no_pending_example INTERRUPT_FLAGS
        AND read_mem8 no_pending_example INTERRUPT_ENABLE AND 0x1F = 0"
    unfolding r by simp
  have f: "cycles_to_wait no_pending_example = 0" "pc no_pending_example = 0x0100"
    "sp no_pending_example = 0xFFFE"
    by (simp_all add: no_pending_example_def example_gb_def)
  show ?thesis
    using C9_no_interrupt_to_dispatch [OF h1 h2] h1 h2 r f by simp
qed

section \<open>Echo RAM\<close>

lemma read_mem8_echo:
  assumes "ECHO_RAM < addr" "addr < OAM"
  shows "read_mem8 gb addr = read_mem8 gb (addr - 0x2000)"
proof -
  have "0x2000 \<le> addr" using assms by (simp add: word_le_nat_alt word_less_nat_alt)
  then have u: "unat (addr - 0x2000) = unat addr - 0x2000" by (simp add: unat_sub)
  have "\<not> (ECHO_RAM < addr - 0x2000 \<and> addr - 0x2000 < OAM)"
    using assms u by (simp add: word_less_nat_alt)
  then have "(if ECHO_RAM < addr - 0x2000 \<and> addr - 0x2000 < OAM
              then addr - 0x2000 - 0x2000 else addr - 0x2000) = addr - 0x2000"
    by (simp only: if_False)
  moreover have "(if ECHO_RAM < addr \<and> addr < OAM then addr - 0x2000 else addr) = addr - 0x2000"
    using assms by (simp only: simp_thms if_True)
  ultimately show ?thesis unfolding read_mem8_def by (simp only: Let_def)
qed

text \<open>
  Claim C5 fails at the first address of the range. \<^verbatim>\<open>read_mem8\<close> tests
  \<^verbatim>\<open>ECHO_RAM < addr\<close>, so \<open>0xE000\<close> is read from its own cell of the array, which
  \<^verbatim>\<open>initialize\<close> fills from the file like any other. Immediately after \<^verbatim>\<open>initialize\<close> with a
  file of 0xE001 bytes, all zero but the last, \<open>0xE000\<close> reads 1 and \<open>0xC000\<close> reads 0.
  (\<open>read_mem8_echo\<close> above is the mirror at every other address of the range.)
\<close>

theorem C5_echo_first_address_not_mirrored:
  "map_option (\<lambda>gb. (read_mem8 gb 0xE000, read_mem8 gb (0xE000 - 0x2000)))
     (initialize example_gb (Some (replicate 0xE000 0 @ [1]))) = Some (1, 0)"
  by (simp add: initialize_def load_rom_def read_mem8_def nth_append)

lemma smod_vals: "(-1 :: int) smod 4 = -1" "(0 :: int) smod 4 = 0" "(1 :: int) smod 4 = 1" "(2 :: int) smod 4 = 2"
  by (simp_all add: signed_modulo_int_def)

lemma and3_cases: "(t :: 8 word) AND 3 = 0 \<or> t AND 3 = 1 \<or> t AND 3 = 2 \<or> t AND 3 = 3"
proof -
  have "t AND 3 \<le> 3" by (rule word_and_le1)
  then have "unat (t AND 3) \<le> 3" by (simp add: word_le_nat_alt)
  then consider "unat (t AND 3) = 0" | "unat (t AND 3) = 1" | "unat (t AND 3) = 2" | "unat (t AND 3) = 3"
    by linarith
  then show ?thesis
  proof cases
    case 1
    then have "word_of_nat (unat (t AND 3)) = (word_of_nat 0 :: 8 word)" by (rule arg_cong)
    then show ?thesis by simp
  next
    case 2
    then have "word_of_nat (unat (t AND 3)) = (word_of_nat 1 :: 8 word)" by (rule arg_cong)
    then show ?thesis by simp
  next
    case 3
    then have "word_of_nat (unat (t AND 3)) = (word_of_nat 2 :: 8 word)" by (rule arg_cong)
    then show ?thesis by simp
  next
    case 4
    then have "word_of_nat (unat (t AND 3)) = (word_of_nat 3 :: 8 word)" by (rule arg_cong)
    then show ?thesis by simp
  qed
qed


lemma clocks_per_timer_increment_eq:
  "clocks_per_timer_increment tac =
     (if tac AND 0b11 = 0 then 1 else if tac AND 0b11 = 1 then 4
      else if tac AND 0b11 = 2 then 16 else 64)"
proof -
  consider "tac AND 3 = 0" | "tac AND 3 = 1" | "tac AND 3 = 2" | "tac AND 3 = 3"
    using and3_cases [of tac] by blast
  then show ?thesis
  proof cases
    case 1 then show ?thesis by (simp add: clocks_per_timer_increment_def smod_vals)
  next
    case 2 then show ?thesis by (simp add: clocks_per_timer_increment_def smod_vals)
  next
    case 3 then show ?thesis by (simp add: clocks_per_timer_increment_def smod_vals)
  next
    case 4 then show ?thesis by (simp add: clocks_per_timer_increment_def smod_vals)
  qed
qed


section \<open>What \<^verbatim>\<open>wait\<close> does to the address space\<close>

lemma read_mem8_regs [simp]:
  "read_mem8 gb DIVIDER_REGISTER = address_space gb DIVIDER_REGISTER"
  "read_mem8 gb TIMA = address_space gb TIMA"
  "read_mem8 gb TMA = address_space gb TMA"
  "read_mem8 gb TAC = address_space gb TAC"
  "read_mem8 gb LCD_CONTROL = address_space gb LCD_CONTROL"
  "read_mem8 gb LCD_STATUS = address_space gb LCD_STATUS"
  "read_mem8 gb LY = address_space gb LY"
  "read_mem8 gb LYC = address_space gb LYC"
  by (simp_all add: read_mem8_def)

lemma enter_mode_mem:
  assumes "a \<noteq> LCD_STATUS" "a \<noteq> INTERRUPT_FLAGS"
  shows "address_space (enter_hblank gb) a = address_space gb a"
    and "address_space (enter_vblank gb) a = address_space gb a"
    and "address_space (enter_searching gb) a = address_space gb a"
    and "address_space (enter_transferring gb) a = address_space gb a"
  using assms
  by (simp_all add: enter_hblank_def enter_vblank_def enter_searching_def enter_transferring_def
        Let_def request_interrupt_eq)

lemma ly_stat_stage_mem:
  assumes "a \<noteq> LY" "a \<noteq> LCD_STATUS" "a \<noteq> INTERRUPT_FLAGS"
  shows "address_space (ly_stat_stage gb) a = address_space gb a"
  using assms by (simp add: ly_stat_stage_def Let_def write_mem8_plain request_interrupt_eq)

lemma mode_stage_mem:
  assumes "a \<noteq> LCD_STATUS" "a \<noteq> INTERRUPT_FLAGS"
  shows "address_space (mode_stage gb) a = address_space gb a"
  using assms by (simp add: mode_stage_def enter_mode_mem)

lemma ppu_stage_mem:
  assumes "a \<noteq> LY" "a \<noteq> LCD_STATUS" "a \<noteq> INTERRUPT_FLAGS"
  shows "address_space (ppu_stage gb) a = address_space gb a"
  using assms by (simp add: ppu_stage_def update_screen_stages mode_stage_mem ly_stat_stage_mem)

lemma timer_stage_mem:
  assumes "a \<noteq> TIMA" "a \<noteq> INTERRUPT_FLAGS"
  shows "address_space (timer_stage te gb) a = address_space gb a"
  using assms by (simp add: timer_stage_def Let_def write_mem8_plain request_interrupt_eq)

lemma div_stage_mem:
  "address_space (div_stage gb) a =
     (if a = DIVIDER_REGISTER \<and> (cycle_count gb + 1) mod 64 = 0 then 0 else address_space gb a)"
  by (simp add: div_stage_def Let_def write_mem8_DIV)

lemma wait_cycle_DIV:
  "address_space (wait_cycle te gb) DIVIDER_REGISTER =
     (if (cycle_count gb + 1) mod 64 = 0 then 0 else address_space gb DIVIDER_REGISTER)"
  by (simp add: wait_cycle_stages ppu_stage_mem timer_stage_mem div_stage_mem)

text \<open>The timer stage, by the two low bits of TAC: the period is 1, 4, 16 or 64 cycles.\<close>

lemma timer_stage_TIMA:
  "address_space (timer_stage te gb) TIMA =
     (if te \<and> cycle_count gb mod ucast (clocks_per_timer_increment (address_space gb TAC)) = 0
      then (if address_space gb TIMA = 0xFF then address_space gb TMA
            else address_space gb TIMA + 1)
      else address_space gb TIMA)"
  by (simp add: timer_stage_def Let_def write_mem8_plain request_interrupt_eq)

lemma wait_cycle_TIMA:
  "address_space (wait_cycle te gb) TIMA =
     (if te \<and> (cycle_count gb + 1) mod ucast (clocks_per_timer_increment (address_space gb TAC)) = 0
      then (if address_space gb TIMA = 0xFF then address_space gb TMA
            else address_space gb TIMA + 1)
      else address_space gb TIMA)"
  by (simp add: wait_cycle_stages ppu_stage_mem timer_stage_TIMA div_stage_mem)

section \<open>The loop of \<^verbatim>\<open>wait\<close>\<close>

lemma wait_loop_done: "cycles_to_wait gb = 0 \<Longrightarrow> wait_loop te gb = gb"
  by (subst wait_loop.simps) simp

lemma wait_loop_step: "cycles_to_wait gb \<noteq> 0 \<Longrightarrow> wait_loop te gb = wait_loop te (wait_cycle te gb)"
  by (subst wait_loop.simps) (simp add: word_greater_zero_iff)

lemma wait_loop_single: "cycles_to_wait gb = 1 \<Longrightarrow> wait_loop te gb = wait_cycle te gb"
  by (simp add: wait_loop_step wait_loop_done)

lemma wait_loop_cycles_to_wait: "cycles_to_wait (wait_loop te gb) = 0"
proof (induction te gb rule: wait_loop.induct)
  case (1 te gb)
  show ?case
  proof (cases "cycles_to_wait gb = 0")
    case True
    then show ?thesis by (simp add: wait_loop_done)
  next
    case False
    then have "0 < cycles_to_wait gb" by (simp add: word_greater_zero_iff)
    then show ?thesis using "1.IH" False by (simp add: wait_loop_step)
  qed
qed

lemma wait_loop_cycle_count:
  "cycle_count (wait_loop te gb) = cycle_count gb + cycles_to_wait gb"
proof (induction te gb rule: wait_loop.induct)
  case (1 te gb)
  show ?case
  proof (cases "cycles_to_wait gb = 0")
    case True
    then show ?thesis by (simp add: wait_loop_done)
  next
    case False
    then have "0 < cycles_to_wait gb" by (simp add: word_greater_zero_iff)
    then show ?thesis using "1.IH" False by (simp add: wait_loop_step)
  qed
qed

lemma wait_loop_DIV_reset:
  assumes "cycles_to_wait gb \<noteq> 0" "(cycle_count gb + cycles_to_wait gb) mod 64 = 0"
  shows "address_space (wait_loop te gb) DIVIDER_REGISTER = 0"
  using assms
proof (induction te gb rule: wait_loop.induct)
  case (1 te gb)
  have pos: "0 < cycles_to_wait gb" using "1.prems"(1) by (simp add: word_greater_zero_iff)
  have st: "wait_loop te gb = wait_loop te (wait_cycle te gb)"
    using "1.prems"(1) by (rule wait_loop_step)
  show ?case
  proof (cases "cycles_to_wait gb = 1")
    case True
    then have "wait_loop te gb = wait_cycle te gb" by (rule wait_loop_single)
    then show ?thesis using "1.prems"(2) True by (simp add: wait_cycle_DIV)
  next
    case False
    then have "cycles_to_wait (wait_cycle te gb) \<noteq> 0" by simp
    moreover have "(cycle_count (wait_cycle te gb) + cycles_to_wait (wait_cycle te gb)) mod 64 = 0"
      using "1.prems"(2) by simp
    ultimately show ?thesis unfolding st by (rule "1.IH" [OF pos])
  qed
qed


lemma wait_cycles_to_wait: "cycles_to_wait (wait gb) = 0"
  by (simp add: wait_def wait_loop_cycles_to_wait)

lemma wait_cycle_count: "cycle_count (wait gb) = cycle_count gb + cycles_to_wait gb"
  by (simp add: wait_def wait_loop_cycle_count)

lemma wait_DIV_reset:
  assumes "cycles_to_wait gb \<noteq> 0" "(cycle_count gb + cycles_to_wait gb) mod 64 = 0"
  shows "read_mem8 (wait gb) DIVIDER_REGISTER = 0"
  using assms by (simp add: wait_def wait_loop_DIV_reset)

text \<open>
  Claim C3 fails on the code. At each multiple of 64 of \<^verbatim>\<open>cycle_count\<close>, \<^verbatim>\<open>wait\<close> passes
  DIV + 1 to \<^verbatim>\<open>write_mem8\<close>, whose case for \<open>0xFF04\<close> stores 0 whatever the value: DIV
  reads 0 afterwards (\<open>wait_DIV_reset\<close>), not one more than before. Here DIV is \<open>0x18\<close>,
  63 cycles have gone by and one is owed: after \<^verbatim>\<open>wait\<close> the count is 64 and DIV is 0,
  where the claim has \<open>0x19\<close>.
\<close>

theorem C3_div_reset_instead_of_incremented:
  "read_mem8 div_example DIVIDER_REGISTER = 0x18
   \<and> cycles_to_wait div_example = 1
   \<and> cycle_count (wait div_example) = 64
   \<and> read_mem8 (wait div_example) DIVIDER_REGISTER = 0"
proof -
  have f: "cycles_to_wait div_example = 1" "cycle_count div_example = 63"
    "read_mem8 div_example DIVIDER_REGISTER = 0x18"
    by (simp_all add: div_example_def example_gb_def)
  have "read_mem8 (wait div_example) DIVIDER_REGISTER = 0"
    by (rule wait_DIV_reset) (simp_all add: f)
  moreover have "cycle_count (wait div_example) = 64" by (simp add: wait_cycle_count f)
  ultimately show ?thesis using f by simp
qed

text \<open>
  Claim C4 fails on the code for the bits 00 of TAC. The comment in \<^verbatim>\<open>wait\<close> gives the
  period 256 for them; the expression gives 1 (\<open>clocks_per_timer_increment_eq\<close>), because
  \<^verbatim>\<open>(0 - 1) % 4\<close> is \<open>-1\<close> in C. With TAC \<open>0x04\<close> (timer on, bits 00), TIMA 0 and one
  cycle owed at count 0, \<^verbatim>\<open>wait\<close> brings the count to 1, which is no multiple of 256, and
  TIMA is 1. For the bits 01, 10 and 11 the periods are 4, 16 and 64, and a tick at
  \<open>0xFF\<close> reloads TIMA from TMA and requests the timer interrupt (\<open>wait_cycle_TIMA\<close>).
\<close>

theorem C4_timer_period_one_for_TAC_00:
  "read_mem8 tima_example TAC AND 0b11 = 0
   \<and> bit (read_mem8 tima_example TAC) 2
   \<and> clocks_per_timer_increment (read_mem8 tima_example TAC) = 1
   \<and> read_mem8 tima_example TIMA = 0
   \<and> cycle_count (wait tima_example) = 1
   \<and> read_mem8 (wait tima_example) TIMA = 1"
proof -
  have f: "cycles_to_wait tima_example = 1" "cycle_count tima_example = 0"
    "address_space tima_example TAC = 0x04" "address_space tima_example TIMA = 0"
    by (simp_all add: tima_example_def example_gb_def)
  have c: "clocks_per_timer_increment 0x04 = 1"
    by (simp add: clocks_per_timer_increment_eq)
  have w: "wait tima_example = wait_cycle True tima_example"
    unfolding wait_def by (simp add: f wait_loop_single)
  have "address_space (wait tima_example) TIMA = 1"
    unfolding w by (simp add: wait_cycle_TIMA f c)
  moreover have "cycle_count (wait tima_example) = 1" by (simp add: wait_cycle_count f)
  ultimately show ?thesis by (simp add: f c)
qed

section \<open>Flags as bits of AF\<close>


lemma flag_bits_push_bit: "flag_bits fl = push_bit (flag_index fl) 1"
  by (cases fl) simp_all

lemma flag_index_bounds: "4 \<le> flag_index fl" "flag_index fl < 8"
  by (cases fl; simp)+

lemma get_flag_bit: "get_flag gb fl \<longleftrightarrow> bit (af gb) (flag_index fl)"
  unfolding get_flag_def flag_bits_push_bit by (simp add: bit_iff_and_push_bit_not_eq_0)

lemma set_flag_af:
  "af (set_flag gb fl v) =
     (if v then set_bit (flag_index fl) (af gb) else unset_bit (flag_index fl) (af gb))"
  unfolding set_flag_def flag_bits_push_bit
  by (simp add: set_bit_eq_or unset_bit_eq_and_not)

lemma bit_af_set_flag:
  "bit (af (set_flag gb fl v)) n \<longleftrightarrow> (if n = flag_index fl then v else bit (af gb) n)"
  using flag_index_bounds [of fl]
  by (simp add: set_flag_af bit_set_bit_iff bit_unset_bit_iff)

lemma get_flag_set_flag:
  "get_flag (set_flag gb fl v) fl' \<longleftrightarrow> (if fl' = fl then v else get_flag gb fl')"
  unfolding get_flag_bit bit_af_set_flag by (cases fl; cases fl'; simp)

lemma set_flag_frame:
  "bc (set_flag gb fl v) = bc gb"
  "de (set_flag gb fl v) = de gb"
  "hl (set_flag gb fl v) = hl gb"
  "pc (set_flag gb fl v) = pc gb"
  "sp (set_flag gb fl v) = sp gb"
  "read_mem8 (set_flag gb fl v) = read_mem8 gb"
  "read_mem16 (set_flag gb fl v) = read_mem16 gb"
  by (simp_all add: set_flag_def)


lemma load8_set_flag: "load8 (set_flag gb fl v) p = load8 gb p"
proof (cases p)
  case Reg_A
  have "(ucast (drop_bit 8 (af (set_flag gb fl v))) :: 8 word) = ucast (drop_bit 8 (af gb))"
    using flag_index_bounds [of fl]
    by (intro bit_eqI) (auto simp add: bit_simps bit_af_set_flag)
  then show ?thesis using Reg_A by simp
qed (simp_all add: set_flag_frame)

section \<open>A halted CPU\<close>


text \<open>
  Claim C10. A step of a halted CPU that owes at least one cycle and has no interrupt
  work flagged returns the state it was given: every field of the struct (registers,
  address space, screen, counters) is the same. With the same flags and no cycle owed,
  the only change is that one cycle is owed.
\<close>

theorem C10_halted_step_frame:
  assumes "halted gb" and "\<not> need_to_do_interrupts gb"
  shows "step gb = Some (if 0 < cycles_to_wait gb then gb else gb\<lparr>cycles_to_wait := 1\<rparr>)"
  using assms by (simp add: step_def Let_def word_neq_0_conv [symmetric])

theorem C10_halted_step_frame_witness:
  "halted halted_example \<and> \<not> need_to_do_interrupts halted_example
   \<and> 0 < cycles_to_wait halted_example
   \<and> step halted_example = Some halted_example"
proof -
  have h: "halted halted_example" "\<not> need_to_do_interrupts halted_example"
    "0 < cycles_to_wait halted_example"
    by (simp_all add: halted_example_def example_gb_def)
  show ?thesis using C10_halted_step_frame [OF h(1,2)] h by simp
qed

section \<open>The test of a bit\<close>

lemma word3_cases:
  fixes x :: "3 word"
  obtains "x = 0" | "x = 1" | "x = 2" | "x = 3" | "x = 4" | "x = 5" | "x = 6" | "x = 7"
proof -
  have "unat x < 8" using unsigned_less [of x, where ?'a = nat] by simp
  then consider "unat x = 0" | "unat x = 1" | "unat x = 2" | "unat x = 3"
    | "unat x = 4" | "unat x = 5" | "unat x = 6" | "unat x = 7" by linarith
  then show ?thesis
  proof cases
    case 1 then have "word_of_nat (unat x) = (0 :: 3 word)" by simp
    then show ?thesis using that by simp
  next
    case 2 then have "word_of_nat (unat x) = (1 :: 3 word)" by simp
    then show ?thesis using that by simp
  next
    case 3 then have "word_of_nat (unat x) = (2 :: 3 word)" by simp
    then show ?thesis using that by simp
  next
    case 4 then have "word_of_nat (unat x) = (3 :: 3 word)" by simp
    then show ?thesis using that by simp
  next
    case 5 then have "word_of_nat (unat x) = (4 :: 3 word)" by simp
    then show ?thesis using that by simp
  next
    case 6 then have "word_of_nat (unat x) = (5 :: 3 word)" by simp
    then show ?thesis using that by simp
  next
    case 7 then have "word_of_nat (unat x) = (6 :: 3 word)" by simp
    then show ?thesis using that by simp
  next
    case 8 then have "word_of_nat (unat x) = (7 :: 3 word)" by simp
    then show ?thesis using that by simp
  qed
qed


lemma bit_64: "bit (64 :: int) n \<longleftrightarrow> n = 6"
proof -
  have "(64 :: int) = 2 ^ 6" by simp
  then show ?thesis by (simp only: bit_exp_iff) (auto simp add: possible_bit_def)
qed

lemma bit_8: "bit (8 :: int) n \<longleftrightarrow> n = 3"
proof -
  have "(8 :: int) = 2 ^ 3" by simp
  then show ?thesis by (simp only: bit_exp_iff) (auto simp add: possible_bit_def)
qed

lemma bit_word3: "\<not> bit (w :: 3 word) (3 + n)"
  using bit_imp_le_length [of w "3 + n"] by auto

lemma bit_code_lower: "(ucast (bit_code b r) :: 3 word) = r"
  unfolding bit_code_def by (rule bit_eqI) (auto simp add: bit_simps bit_64)

lemma bit_code_upper: "(ucast (drop_bit 3 (bit_code b r)) :: 3 word) = b"
  unfolding bit_code_def by (rule bit_eqI) (auto simp add: bit_simps bit_64 bit_8 bit_word3)

lemma decode_CB: "decode 0xCB = Some I_CB"
  by (simp add: decode_def opcode_table_def)

lemma decode_cb_bit_code:
  "decode_cb (bit_code b r) = Some (if r = 6 then CB_BIT_HL else CB_BIT_r)"
  by (cases b rule: word3_cases; cases r rule: word3_cases;
      simp add: bit_code_def decode_cb_def cb_opcode_table_def)

lemma r_reg_total: "r \<noteq> 6 \<Longrightarrow> \<exists>p. r_reg r = Some p"
  by (cases r rule: word3_cases; simp add: r_reg_def)

lemma r_reg_6: "r_reg 6 = None"
  by (simp add: r_reg_def)

lemma bit_test: "bit (NOT (drop_bit n (uint (x :: 8 word)))) 0 \<longleftrightarrow> \<not> bit x n"
  by (simp add: bit_simps)


lemma handle_interrupts_af: "af (handle_interrupts gb) = af gb"
  by (simp add: handle_interrupts_def Let_def split: prod.splits option.splits)

lemma exec_cb_BIT:
  "\<exists>gb'. exec_cb (if r = 6 then CB_BIT_HL else CB_BIT_r) (bit_code b r) gb = Some gb'
     \<and> get_flag gb' FL_H \<and> \<not> get_flag gb' FL_N
     \<and> (get_flag gb' FL_Z \<longleftrightarrow> \<not> bit (bit_operand gb r) (unat b))"
proof (cases "r = 6")
  case True
  then show ?thesis
    by (simp add: bit_code_upper bit_operand_def r_reg_6 Let_def bit_test get_flag_bit
        bit_af_set_flag set_flag_frame)
next
  case False
  then obtain p where p: "r_reg r = Some p" using r_reg_total by blast
  show ?thesis using False
    by (simp add: bit_code_upper bit_code_lower bit_operand_def p Let_def bit_test get_flag_bit
        bit_af_set_flag load8_set_flag)
qed


lemma get_flag_handle_interrupts: "get_flag (handle_interrupts gb) fl = get_flag gb fl"
  by (simp add: get_flag_def handle_interrupts_af)


text \<open>
  Claim C7. When the CPU is not halted and the bytes at PC are \<open>0xCB\<close> and \<open>01 bbb rrr\<close>
  (\<^verbatim>\<open>BIT b, r\<close>, or \<^verbatim>\<open>BIT b, (HL)\<close> for \<open>rrr = 110\<close>), a step succeeds, and in the state it
  returns H is set, N is clear, and Z is set exactly when bit \<open>b\<close> of the operand is 0.
  The source passes \<^verbatim>\<open>~(x >> b)\<close> to a parameter of type \<^verbatim>\<open>uint1_t\<close>, which keeps the lowest
  bit of it: the complement of bit \<open>b\<close>.
\<close>

theorem C7_bit_test:
  assumes "\<not> halted gb"
    and "read_mem8 gb (pc gb) = 0xCB"
    and "read_mem8 gb (pc gb + 1) = bit_code b r"
  shows "\<exists>gb'. step gb = Some gb' \<and> get_flag gb' FL_H \<and> \<not> get_flag gb' FL_N
           \<and> (get_flag gb' FL_Z \<longleftrightarrow> \<not> bit (bit_operand gb r) (unat b))"
proof -
  obtain gb1 where e: "exec_cb (if r = 6 then CB_BIT_HL else CB_BIT_r) (bit_code b r) gb = Some gb1"
    and f: "get_flag gb1 FL_H" "\<not> get_flag gb1 FL_N"
      "get_flag gb1 FL_Z \<longleftrightarrow> \<not> bit (bit_operand gb r) (unat b)"
    using exec_cb_BIT [of r b gb] by blast
  have "step gb = Some (if need_to_do_interrupts gb1 then handle_interrupts gb1 else gb1)"
    using assms e by (simp add: step_def Let_def decode_CB decode_cb_bit_code)
  then show ?thesis using f by (simp add: get_flag_handle_interrupts)
qed

theorem C7_bit_test_witness:
  "\<not> halted bit_example
   \<and> read_mem8 bit_example (pc bit_example) = 0xCB
   \<and> read_mem8 bit_example (pc bit_example + 1) = bit_code 3 2
   \<and> bit_operand bit_example 2 = 0x08
   \<and> (\<exists>gb'. step bit_example = Some gb' \<and> get_flag gb' FL_H \<and> \<not> get_flag gb' FL_N
           \<and> \<not> get_flag gb' FL_Z)"
proof -
  have h: "\<not> halted bit_example" "read_mem8 bit_example (pc bit_example) = 0xCB"
    "read_mem8 bit_example (pc bit_example + 1) = bit_code 3 2"
    by (simp_all add: bit_example_def example_gb_def read_mem8_def bit_code_def)
  have o: "bit_operand bit_example 2 = 0x08"
    by (simp add: bit_operand_def r_reg_def bit_example_def example_gb_def)
  have b: "bit (0x08 :: 8 word) (unat (3 :: 3 word))" by simp
  show ?thesis using C7_bit_test [OF h] h o b by simp
qed

section \<open>A push and the pop after it\<close>






















section \<open>The low four bits of F\<close>


lemma bit_low_nibble: "bit ((w :: 16 word) AND 0xF) n \<longleftrightarrow> n < 4 \<and> bit w n"
proof -
  have "(0xF :: 16 word) = mask 4" by (simp add: mask_eq_exp_minus_1)
  then show ?thesis by (simp only: bit_and_iff bit_mask_iff) auto
qed

lemma low_nibble_eqI:
  fixes x y :: "16 word"
  assumes "\<And>n. n < 4 \<Longrightarrow> bit x n = bit y n"
  shows "x AND 0xF = y AND 0xF"
  by (rule bit_eqI) (auto simp only: bit_low_nibble assms)

lemma low_set_flag: "af (set_flag g fl v) AND 0xF = af g AND 0xF"
  using flag_index_bounds [of fl]
  by (intro low_nibble_eqI) (simp add: bit_af_set_flag)

lemma bit_255: "bit (255 :: int) n \<longleftrightarrow> n < 8"
proof -
  have "(255 :: int) = mask 8" by (simp add: mask_eq_exp_minus_1)
  then show ?thesis by (simp only: bit_mask_iff) auto
qed

lemma low_store8: "af (store8 g p v) AND 0xF = af g AND 0xF"
proof (cases p)
  case Reg_A
  have "((af g AND 0x00FF) OR push_bit 8 (ucast v)) AND 0xF = af g AND 0xF"
    by (intro low_nibble_eqI) (auto simp add: bit_simps bit_255)
  then show ?thesis using Reg_A by simp
qed simp_all

lemma low_pop: "((w :: 16 word) AND 0xfff0) AND 0xF = 0"
  by (simp add: and.assoc)

lemma low_alu:
  "af (add_a g x) AND 0xF = af g AND 0xF"
  "af (sub_a g x) AND 0xF = af g AND 0xF"
  "af (and_a g x) AND 0xF = af g AND 0xF"
  "af (or_a g x) AND 0xF = af g AND 0xF"
  "af (xor_a g x) AND 0xF = af g AND 0xF"
  "af (fst (inc8 g x)) AND 0xF = af g AND 0xF"
  "af (fst (dec8 g x)) AND 0xF = af g AND 0xF"
  "af (sp_plus_e_flags g x) AND 0xF = af g AND 0xF"
  by (simp_all only: add_a_def sub_a_def and_a_def or_a_def xor_a_def inc8_def dec8_def
      sp_plus_e_flags_def Let_def low_store8 low_set_flag fst_conv)

lemma low_alu2:
  "af (adc_a g x) AND 0xF = af g AND 0xF"
  "af (sbc_a g x) AND 0xF = af g AND 0xF"
  "af (cp_a g x) AND 0xF = af g AND 0xF"
  by (simp_all only: adc_a_def sbc_a_def cp_a_def Let_def low_store8 low_set_flag low_alu)


lemma exec_cb_low: "exec_cb ci imm8 gb = Some gb1 \<Longrightarrow> af gb1 AND 0xF = af gb AND 0xF"
  by (cases ci)
    (auto simp add: Let_def low_set_flag low_store8 split: bind_splits)


lemma dd_reg_not_AF: "dd_reg d = Some p \<Longrightarrow> p \<noteq> Reg_AF"
  by (auto simp add: dd_reg_def split: if_splits)

lemma af_store16: "p \<noteq> Reg_AF \<Longrightarrow> af (store16 g p v) = af g"
  by (cases p) simp_all

lemma low_store16_pop: "(af (store16 g p v) AND 0xfff0) AND 0xF = 0"
  by (rule low_pop)

lemma exec_low:
  "exec i opcode imm8 imm16 gb = Some gb1 \<Longrightarrow> af gb AND 0xF = 0 \<Longrightarrow> af gb1 AND 0xF = 0"
  by (cases i;
      clarsimp simp add: Let_def low_set_flag low_store8 low_alu low_alu2 low_pop af_store16
         case_prod_beta exec_cb_low
       simp del: store8.simps store16.simps load8.simps load16.simps
       dest!: dd_reg_not_AF split: bind_splits if_splits)


lemma step_low:
  assumes "step gb = Some gb1" "af gb AND 0xF = 0"
  shows "af gb1 AND 0xF = 0"
proof (cases "halted gb")
  case True
  then show ?thesis using assms
    by (auto simp add: step_def Let_def handle_interrupts_af split: if_splits)
next
  case False
  then obtain i gb2 where e: "exec i (read_mem8 gb (pc gb)) (read_mem8 gb (pc gb + 1))
        (read_mem16 gb (pc gb + 1)) gb = Some gb2"
    and r: "gb1 = (if need_to_do_interrupts gb2 then handle_interrupts gb2 else gb2)"
    using assms(1) by (auto simp add: step_def Let_def split: bind_splits simp del: exec.simps)
  have "af gb2 AND 0xF = 0" using e assms(2) by (rule exec_low)
  then show ?thesis unfolding r by (simp add: handle_interrupts_af)
qed

lemma wait_loop_af: "af (wait_loop te gb) = af gb"
proof (induction te gb rule: wait_loop.induct)
  case (1 te gb)
  show ?case
  proof (cases "cycles_to_wait gb = 0")
    case True
    then show ?thesis by (simp add: wait_loop_done)
  next
    case False
    then have "0 < cycles_to_wait gb" by (simp add: word_greater_zero_iff)
    then show ?thesis using "1.IH" False by (simp add: wait_loop_step)
  qed
qed

lemma wait_af: "af (wait gb) = af gb"
  by (simp add: wait_def wait_loop_af)

lemma button_af: "af (press_button gb btn) = af gb" "af (release_button gb btn) = af gb"
  by (simp_all add: press_button_def release_button_def request_interrupt_def)

lemma initialize_af: "initialize gb0 file = Some gb \<Longrightarrow> af gb = 0x01B0"
  by (auto simp add: initialize_def split: option.splits)


lemma step_pop_af_example: "step pop_af_example = Some after_pop_af_example"
  by (simp add: step_def pop_af_example_def after_pop_af_example_def example_gb_def Let_def
      read_mem8_def decode_def opcode_table_def op_qq_def qq_reg_def)

text \<open>
  Claim C1. The low four bits of F are zero in the state that \<^verbatim>\<open>initialize\<close> returns, and
  every operation of the interface keeps them zero: a step that returns (any opcode the
  decoder knows, and the halted step), \<^verbatim>\<open>wait\<close>, \<^verbatim>\<open>press_button\<close> and \<^verbatim>\<open>release_button\<close>.
  Flags are written through \<^verbatim>\<open>set_flag\<close>, whose masks lie in the high nibble; a store to A
  changes the high byte of AF only; \<^verbatim>\<open>POP\<close> clears the nibble after loading the pair.
\<close>

theorem C1_f_low_nibble_invariant:
  "(initialize gb0 file = Some gb \<longrightarrow> f_low_nibble_zero gb)
   \<and> (f_low_nibble_zero gb \<and> step gb = Some gb1 \<longrightarrow> f_low_nibble_zero gb1)
   \<and> (f_low_nibble_zero gb \<longrightarrow> f_low_nibble_zero (wait gb))
   \<and> (f_low_nibble_zero gb \<longrightarrow> f_low_nibble_zero (press_button gb btn))
   \<and> (f_low_nibble_zero gb \<longrightarrow> f_low_nibble_zero (release_button gb btn))"
proof (intro conjI impI)
  assume "initialize gb0 file = Some gb"
  then have "af gb = 0x01B0" by (rule initialize_af)
  then show "f_low_nibble_zero gb" by (simp add: f_low_nibble_zero_def)
next
  assume "f_low_nibble_zero gb \<and> step gb = Some gb1"
  then show "f_low_nibble_zero gb1" unfolding f_low_nibble_zero_def by (blast intro: step_low)
next
  assume "f_low_nibble_zero gb"
  then show "f_low_nibble_zero (wait gb)" by (simp add: f_low_nibble_zero_def wait_af)
next
  assume "f_low_nibble_zero gb"
  then show "f_low_nibble_zero (press_button gb btn)"
    by (simp add: f_low_nibble_zero_def button_af)
next
  assume "f_low_nibble_zero gb"
  then show "f_low_nibble_zero (release_button gb btn)"
    by (simp add: f_low_nibble_zero_def button_af)
qed

theorem C1_f_low_nibble_invariant_witness:
  "initialize example_gb (Some []) \<noteq> None
   \<and> f_low_nibble_zero (the (initialize example_gb (Some [])))
   \<and> f_low_nibble_zero pop_af_example
   \<and> read_mem16 pop_af_example (sp pop_af_example) = 0xFFFF
   \<and> step pop_af_example = Some after_pop_af_example
   \<and> af after_pop_af_example = 0xFFF0
   \<and> f_low_nibble_zero after_pop_af_example
   \<and> f_low_nibble_zero (wait pop_af_example)
   \<and> f_low_nibble_zero (press_button pop_af_example GB_KEY_A)
   \<and> f_low_nibble_zero (release_button pop_af_example GB_KEY_A)"
proof -
  obtain g where i: "initialize example_gb (Some []) = Some g"
    by (simp add: initialize_def)
  have z: "f_low_nibble_zero pop_af_example"
    by (simp add: f_low_nibble_zero_def pop_af_example_def example_gb_def)
  have r: "read_mem16 pop_af_example (sp pop_af_example) = 0xFFFF"
    by (simp add: read_mem16_def read_mem8_def pop_af_example_def example_gb_def)
  have a: "af after_pop_af_example = 0xFFF0" by (simp add: after_pop_af_example_def)
  from C1_f_low_nibble_invariant [of example_gb "Some []" g]
  have 1: "f_low_nibble_zero (the (initialize example_gb (Some [])))" using i by simp
  from C1_f_low_nibble_invariant [of _ _ pop_af_example after_pop_af_example GB_KEY_A]
    z step_pop_af_example
  have 2: "f_low_nibble_zero after_pop_af_example" "f_low_nibble_zero (wait pop_af_example)"
    "f_low_nibble_zero (press_button pop_af_example GB_KEY_A)"
    "f_low_nibble_zero (release_button pop_af_example GB_KEY_A)"
    by blast+
  show ?thesis using i 1 2 z r a step_pop_af_example by simp
qed

end
